theory Spec2Isabelle
  imports Main "HOL-Library.Sublist"
begin

section \<open>Strings of the host language\<close>

text \<open>
  A source string is a list of code units; the model keeps the code units below 256, so a
  \<^typ>\<open>char\<close> is one code unit. \<open>\w\<close> is \<open>[A-Za-z0-9_]\<close>; \<open>\s\<close> and \<open>trim\<close> share one set
  of white space, of which tab, line feed, vertical tab, form feed, carriage return, space
  and the no-break space lie below 256.
\<close>

definition is_word_char :: "char \<Rightarrow> bool" where
  "is_word_char c =
     (let n = (of_char c :: nat)
      in (48 \<le> n \<and> n \<le> 57) \<or> (65 \<le> n \<and> n \<le> 90) \<or> n = 95 \<or> (97 \<le> n \<and> n \<le> 122))"

definition is_space_char :: "char \<Rightarrow> bool" where
  "is_space_char c =
     (let n = (of_char c :: nat)
      in (9 \<le> n \<and> n \<le> 13) \<or> n = 32 \<or> n = 160)"

abbreviation (input) sq :: string where
  "sq \<equiv> [CHR 0x27]"

text \<open>\<open>s.includes(t)\<close>: does \<open>t\<close> occur in \<open>s\<close> as a contiguous run.\<close>

fun includes_str :: "string \<Rightarrow> string \<Rightarrow> bool" where
  "includes_str [] t = (t = [])"
| "includes_str (c # cs) t = (prefix t (c # cs) \<or> includes_str cs t)"

text \<open>\<open>s.trim()\<close>: white space removed at both ends.\<close>

definition trim :: "string \<Rightarrow> string" where
  "trim s = rev (dropWhile is_space_char (rev (dropWhile is_space_char s)))"

text \<open>
  \<open>s.split(sep)\<close>: the pieces between successive occurrences of \<open>sep\<close>, found left to
  right without overlap; no occurrence gives the one piece \<open>s\<close>. An empty separator
  splits into single code units.
\<close>

fun split_from :: "string \<Rightarrow> string \<Rightarrow> string \<Rightarrow> string list" where
  "split_from sep piece [] = [rev piece]"
| "split_from sep piece (c # cs) =
     (if sep \<noteq> [] \<and> prefix sep (c # cs)
      then rev piece # split_from sep [] (drop (length sep) (c # cs))
      else split_from sep (c # piece) cs)"

definition split_str :: "string \<Rightarrow> string \<Rightarrow> string list" where
  "split_str s sep = (if sep = [] then map (\<lambda>c. [c]) s else split_from sep [] s)"

text \<open>\<open>xs.join(sep)\<close>.\<close>

fun join_str :: "string list \<Rightarrow> string \<Rightarrow> string" where
  "join_str [] sep = []"
| "join_str [x] sep = x"
| "join_str (x # y # ys) sep = x @ sep @ join_str (y # ys) sep"

section \<open>Effects: console output and exceptions\<close>

datatype error = Invalid_named_import

text \<open>
  A computation writes lines to the console and then either throws or returns:
  the lines written, with \<open>Inl\<close> the exception thrown or \<open>Inr\<close> the value returned.
\<close>

type_synonym 'a eff = "string list \<times> (error + 'a)"

section \<open>Support classifier and warning\<close>

definition isSupportedFunction :: "string list \<Rightarrow> string \<Rightarrow> bool" where
  "isSupportedFunction supportedFunctions name = (name \<in> set supportedFunctions)"

definition isUnsupportedFunction :: "string list \<Rightarrow> string \<Rightarrow> bool" where
  "isUnsupportedFunction supportedFunctions name = (\<not> isSupportedFunction supportedFunctions name)"

definition warnUnsupportedFunction :: "string list \<Rightarrow> string" where
  "warnUnsupportedFunction names =
     ''Unsupported lodash function'' @ (if length names > 1 then ''s'' else '''') @ '': ''
       @ join_str names '', ''"

section \<open>Named imports\<close>

record NamedImport =
  actualName :: string
  customName :: string

text \<open>
  \<open>const [actualName, customName] = namedImportName.split(' as ')\<close> binds the first two
  pieces (the second is undefined when there is one piece only); an empty or undefined
  string is falsy.
\<close>

definition parseNamedImport :: "string \<Rightarrow> error + NamedImport" where
  "parseNamedImport namedImportName =
     (case split_str namedImportName '' as '' of
        [] \<Rightarrow> Inl Invalid_named_import
      | actual # others \<Rightarrow>
          if actual = [] then Inl Invalid_named_import
          else Inr \<lparr> actualName = actual,
                     customName = (case others of
                                     [] \<Rightarrow> actual
                                   | custom # _ \<Rightarrow> if custom = [] then actual else custom) \<rparr>)"

definition renderNamedImport :: "NamedImport \<Rightarrow> string" where
  "renderNamedImport n =
     (if actualName n = customName n then actualName n
      else actualName n @ '' as '' @ customName n)"

definition renderNamedImports :: "NamedImport list \<Rightarrow> string" where
  "renderNamedImports namedImports = join_str (map renderNamedImport namedImports) '', ''"

text \<open>\<open>names.map(parseNamedImport)\<close>: the first token that fails throws.\<close>

fun map_parse :: "string list \<Rightarrow> error + NamedImport list" where
  "map_parse [] = Inr []"
| "map_parse (t # ts) =
     (case parseNamedImport t of
        Inl e \<Rightarrow> Inl e
      | Inr n \<Rightarrow> (case map_parse ts of Inl e \<Rightarrow> Inl e | Inr ns \<Rightarrow> Inr (n # ns)))"

section \<open>Regular expressions\<close>

text \<open>
  The expressions of the source use literals, character classes, the greedy quantifiers
  \<open>+\<close> and \<open>*\<close> on a class, one optional literal group, capture groups that are not
  nested, and \<open>\b\<close>. An expression is the list of its items in order; \<open>Open\<close> and
  \<open>Close\<close> are the parentheses of a capture group.
\<close>

datatype cclass = Word | Space | Ch char

datatype item =
    Lit string
  | One "cclass list"
  | Star "cclass list"
  | Plus "cclass list"
  | OptLit string
  | Open
  | Close
  | WordB

fun in_cclass :: "cclass \<Rightarrow> char \<Rightarrow> bool" where
  "in_cclass Word c = is_word_char c"
| "in_cclass Space c = is_space_char c"
| "in_cclass (Ch d) c = (c = d)"

definition in_class :: "cclass list \<Rightarrow> char \<Rightarrow> bool" where
  "in_class k c = (\<exists>m \<in> set k. in_cclass m c)"

definition at_word_boundary :: "char option \<Rightarrow> string \<Rightarrow> bool" where
  "at_word_boundary prev s =
     ((case prev of None \<Rightarrow> False | Some c \<Rightarrow> is_word_char c)
        \<noteq> (case s of [] \<Rightarrow> False | c # _ \<Rightarrow> is_word_char c))"

text \<open>
  The backtracking matcher, anchored at the current position. \<open>prev\<close> is the code unit
  in front of the match, \<open>seen\<close> the text matched so far (reversed), \<open>mark\<close> the length of
  \<open>seen\<close> when the open group began, \<open>caps\<close> the groups closed so far, \<open>s\<close> the text ahead.
  A greedy quantifier first takes one more code unit and gives it back only when the rest
  of the expression fails. The result is the matched text with the captured groups.
\<close>

fun rx_match ::
  "item list \<Rightarrow> char option \<Rightarrow> string \<Rightarrow> nat \<Rightarrow> string list \<Rightarrow> string
     \<Rightarrow> (string \<times> string list) option" where
  "rx_match [] prev seen mark caps s = Some (rev seen, caps)"
| "rx_match (Lit l # r) prev seen mark caps s =
     (if prefix l s then rx_match r prev (rev l @ seen) mark caps (drop (length l) s)
      else None)"
| "rx_match (One k # r) prev seen mark caps [] = None"
| "rx_match (One k # r) prev seen mark caps (c # cs) =
     (if in_class k c then rx_match r prev (c # seen) mark caps cs else None)"
| "rx_match (Star k # r) prev seen mark caps [] = rx_match r prev seen mark caps []"
| "rx_match (Star k # r) prev seen mark caps (c # cs) =
     (if in_class k c
      then (case rx_match (Star k # r) prev (c # seen) mark caps cs of
              Some res \<Rightarrow> Some res
            | None \<Rightarrow> rx_match r prev seen mark caps (c # cs))
      else rx_match r prev seen mark caps (c # cs))"
| "rx_match (Plus k # r) prev seen mark caps [] = None"
| "rx_match (Plus k # r) prev seen mark caps (c # cs) =
     (if in_class k c then rx_match (Star k # r) prev (c # seen) mark caps cs else None)"
| "rx_match (OptLit l # r) prev seen mark caps s =
     (case (if prefix l s
            then rx_match r prev (rev l @ seen) mark caps (drop (length l) s)
            else None) of
        Some res \<Rightarrow> Some res
      | None \<Rightarrow> rx_match r prev seen mark caps s)"
| "rx_match (Open # r) prev seen mark caps s = rx_match r prev seen (length seen) caps s"
| "rx_match (Close # r) prev seen mark caps s =
     rx_match r prev seen mark (caps @ [rev (take (length seen - mark) seen)]) s"
| "rx_match (WordB # r) prev seen mark caps s =
     (if at_word_boundary (case seen of [] \<Rightarrow> prev | c # _ \<Rightarrow> Some c) s
      then rx_match r prev seen mark caps s
      else None)"

definition rx_match_here :: "item list \<Rightarrow> char option \<Rightarrow> string \<Rightarrow> (string \<times> string list) option" where
  "rx_match_here rx prev s = rx_match rx prev [] 0 [] s"

text \<open>
  A global expression is applied along the whole text: the matcher is tried at each
  position from the left, a match is recorded and the search goes on behind it (one code
  unit further when the match is empty). All matches are found before any callback runs.
  The text falls into the code units no match covers and the matches.
\<close>

datatype segment = Skip char | Hit string "string list"

fun scan :: "item list \<Rightarrow> char option \<Rightarrow> string \<Rightarrow> segment list" where
  "scan rx prev [] =
     (case rx_match_here rx prev [] of
        None \<Rightarrow> []
      | Some (m, caps) \<Rightarrow> [Hit m caps])"
| "scan rx prev (c # cs) =
     (case rx_match_here rx prev (c # cs) of
        None \<Rightarrow> Skip c # scan rx (Some c) cs
      | Some (m, caps) \<Rightarrow>
          if m = [] then Hit m caps # Skip c # scan rx (Some c) cs
          else Hit m caps # scan rx (Some (last m)) (drop (length m) (c # cs)))"

text \<open>
  The callbacks run on the matches from left to right; each returns the replacement of
  its match and may write to the console or throw, which abandons the rest.
\<close>

fun run_callbacks :: "(string \<Rightarrow> string list \<Rightarrow> string eff) \<Rightarrow> segment list \<Rightarrow> string eff" where
  "run_callbacks f [] = ([], Inr [])"
| "run_callbacks f (Skip c # segs) =
     (case run_callbacks f segs of
        (w, Inl e) \<Rightarrow> (w, Inl e)
      | (w, Inr t) \<Rightarrow> (w, Inr (c # t)))"
| "run_callbacks f (Hit m caps # segs) =
     (case f m caps of
        (w, Inl e) \<Rightarrow> (w, Inl e)
      | (w, Inr r) \<Rightarrow>
          (case run_callbacks f segs of
             (w', Inl e) \<Rightarrow> (w @ w', Inl e)
           | (w', Inr t) \<Rightarrow> (w @ w', Inr (r @ t))))"

text \<open>
  \<open>s.replace(rx, f)\<close> with a global expression object: its \<open>lastIndex\<close> is set to 0 before
  the search, whatever it was, and is 0 again after the failed search that ends it.
\<close>

definition String_replace ::
  "string \<Rightarrow> item list \<Rightarrow> nat \<Rightarrow> (string \<Rightarrow> string list \<Rightarrow> string eff) \<Rightarrow> nat \<times> string eff" where
  "String_replace s rx lastIndex f = (0, run_callbacks f (scan rx None s))"

text \<open>\<open>s.match(rx)\<close> with a global expression: the matched texts; none is \<open>null\<close>, here \<open>[]\<close>.\<close>

fun hits :: "segment list \<Rightarrow> string list" where
  "hits [] = []"
| "hits (Skip c # segs) = hits segs"
| "hits (Hit m caps # segs) = m # hits segs"

definition String_match :: "string \<Rightarrow> item list \<Rightarrow> string list" where
  "String_match s rx = hits (scan rx None s)"

text \<open>The n-th captured group handed to a callback.\<close>

definition capture :: "string list \<Rightarrow> nat \<Rightarrow> string" where
  "capture caps n = (if n < length caps then caps ! n else [])"

section \<open>The plugin\<close>

definition quote :: "cclass list" where
  "quote = [Ch (CHR 0x27), Ch (CHR 0x22)]"

definition defaultImportRegex :: "item list" where
  "defaultImportRegex =
     [Lit ''import'', Plus [Space], Open, Plus [Word], Close, Plus [Space], Lit ''from'',
      Plus [Space], One quote, Lit ''lodash'', One quote]"

definition namedImportsRegex :: "item list" where
  "namedImportsRegex =
     [Lit ''import'', Plus [Space], Lit ''{'', Star [Space], Open,
      Plus [Word, Ch CHR ''('', Ch CHR '' '', Ch CHR ''a'', Ch CHR ''s'', Ch CHR '' '', Word,
            Ch CHR '')'', Space, Ch CHR '',''],
      Close, Star [Space], Lit ''}'', Plus [Space], Lit ''from'', Plus [Space], One quote,
      Lit ''lodash'', One quote]"

text \<open>The third group, \<open>(\.js)?\<close>, is read by no callback and is not recorded.\<close>

definition defaultSingleImportRegex :: "item list" where
  "defaultSingleImportRegex =
     [Lit ''import'', Plus [Space], Open, Plus [Word], Close, Plus [Space], Lit ''from'',
      Plus [Space], One quote, Lit ''lodash/'', Open, Plus [Word], Close, OptLit ''.js'',
      One quote]"

text \<open>
  \<open>new RegExp(`\\b${defaultImportName}\\.\\w+`, 'g')\<close>; the name is a run of word
  characters, which stand for themselves in an expression.
\<close>

definition usageRegex :: "string \<Rightarrow> item list" where
  "usageRegex defaultImportName = [WordB, Lit defaultImportName, Lit ''.'', Plus [Word]]"

text \<open>
  The callback of the first pass. It reads \<open>srcWithReplacedImports\<close>, which still holds
  the text the pass started from, since the assignment happens when \<open>replace\<close> returns.
\<close>

text \<open>\<open>(usage) => usage.split('.')[1] || ''\<close>\<close>

definition usedFunction :: "string \<Rightarrow> string" where
  "usedFunction usage = (case split_str usage ''.'' of _ # f # _ \<Rightarrow> f | _ \<Rightarrow> [])"

definition defaultImport_callback :: "string list \<Rightarrow> string \<Rightarrow> string \<Rightarrow> string \<Rightarrow> string eff" where
  "defaultImport_callback supportedFunctions srcWithReplacedImports match defaultImportName =
     (let globalImportUsages = String_match srcWithReplacedImports (usageRegex defaultImportName)
      in if globalImportUsages = [] then ([], Inr match)
         else
           let usedFunctions = map usedFunction globalImportUsages;
               unsupportedFunctions =
                 filter (isUnsupportedFunction supportedFunctions) usedFunctions
           in if unsupportedFunctions \<noteq> []
              then ([warnUnsupportedFunction unsupportedFunctions], Inr match)
              else ([], Inr (''import { * as '' @ defaultImportName
                               @ '' } from 'es-toolkit/compat'' @ sq)))"

text \<open>Split by comma, trim white space, remove empty strings.\<close>

definition namedImportNames :: "string \<Rightarrow> string list" where
  "namedImportNames rawNamedImportNames =
     filter (\<lambda>param. param \<noteq> []) (map trim (split_str rawNamedImportNames '',''))"

definition namedImports_callback :: "string list \<Rightarrow> string \<Rightarrow> string \<Rightarrow> string eff" where
  "namedImports_callback supportedFunctions match rawNamedImportNames =
     (case map_parse (namedImportNames rawNamedImportNames) of
        Inl e \<Rightarrow> ([], Inl e)
      | Inr parsedNamedImportNames \<Rightarrow>
             let currentSupportedFunctions =
                   filter (\<lambda>n. isSupportedFunction supportedFunctions (actualName n))
                     parsedNamedImportNames;
                 unsupportedFunctions =
                   filter (\<lambda>n. isUnsupportedFunction supportedFunctions (actualName n))
                     parsedNamedImportNames
             in if unsupportedFunctions \<noteq> []
                then if currentSupportedFunctions = []
                     then ([warnUnsupportedFunction (map actualName unsupportedFunctions)],
                           Inr match)
                     else ([warnUnsupportedFunction (map actualName unsupportedFunctions)],
                           Inr (''import { '' @ renderNamedImports currentSupportedFunctions
                                  @ '' } from 'es-toolkit/compat';import { ''
                                  @ renderNamedImports unsupportedFunctions
                                  @ '' } from 'lodash'' @ sq))
                else ([], Inr (''import { '' @ renderNamedImports currentSupportedFunctions
                                 @ '' } from 'es-toolkit/compat'' @ sq)))"

definition defaultSingleImport_callback ::
  "string list \<Rightarrow> string \<Rightarrow> string \<Rightarrow> string \<Rightarrow> string eff" where
  "defaultSingleImport_callback supportedFunctions match customNamedImportName
       actualNamedImportName =
     (if isUnsupportedFunction supportedFunctions actualNamedImportName
      then ([warnUnsupportedFunction [actualNamedImportName]], Inr match)
      else if actualNamedImportName = customNamedImportName
      then ([], Inr (''import { '' @ actualNamedImportName
                       @ '' } from 'es-toolkit/compat'' @ sq))
      else ([], Inr (''import { '' @ actualNamedImportName @ '' as '' @ customNamedImportName
                       @ '' } from 'es-toolkit/compat'' @ sq)))"

text \<open>
  The three expressions are objects of the module, shared by all calls; what a call can
  leave behind in them is their \<open>lastIndex\<close>.
\<close>

record regex_state =
  defaultImport_lastIndex :: nat
  namedImports_lastIndex :: nat
  defaultSingleImport_lastIndex :: nat

text \<open>The value returned: \<open>{ code, map: null }\<close>, or \<open>undefined\<close> (here \<open>None\<close>).\<close>

record transform_result =
  code :: string
  source_map :: "string option"

definition transform ::
  "string list \<Rightarrow> regex_state \<Rightarrow> string \<Rightarrow> string \<Rightarrow> regex_state \<times> transform_result option eff" where
  "transform supportedFunctions st src fileId =
     (if includes_str src ''lodash'' then
        (let (l1, r1) = String_replace src defaultImportRegex (defaultImport_lastIndex st)
                          (\<lambda>match caps. defaultImport_callback supportedFunctions src match
                                           (capture caps 0));
             st1 = st\<lparr>defaultImport_lastIndex := l1\<rparr>
         in (case r1 of
               (w1, Inl e) \<Rightarrow> (st1, (w1, Inl e))
             | (w1, Inr src1) \<Rightarrow>
                 (let (l2, r2) = String_replace src1 namedImportsRegex
                                   (namedImports_lastIndex st1)
                                   (\<lambda>match caps. namedImports_callback supportedFunctions
                                                    match (capture caps 0));
                      st2 = st1\<lparr>namedImports_lastIndex := l2\<rparr>
                  in (case r2 of
                        (w2, Inl e) \<Rightarrow> (st2, (w1 @ w2, Inl e))
                      | (w2, Inr src2) \<Rightarrow>
                          (let (l3, r3) = String_replace src2 defaultSingleImportRegex
                                            (defaultSingleImport_lastIndex st2)
                                            (\<lambda>match caps. defaultSingleImport_callback
                                                             supportedFunctions match
                                                             (capture caps 0) (capture caps 1));
                               st3 = st2\<lparr>defaultSingleImport_lastIndex := l3\<rparr>
                           in (case r3 of
                                 (w3, Inl e) \<Rightarrow> (st3, (w1 @ w2 @ w3, Inl e))
                               | (w3, Inr src3) \<Rightarrow>
                                   (st3, (w1 @ w2 @ w3,
                                          Inr (Some \<lparr> code = src3,
                                                       source_map = None \<rparr>)))))))))
      else (st, ([], Inr None)))"

section \<open>Vocabulary for the matched text\<close>

text \<open>
  What the expressions can match is described with runs of white space (\<open>\s+\<close>), runs of
  word characters (\<open>\w+\<close>), the two quotes, and the characters of the class of the named
  list, \<open>[\w( as \w)\s,]\<close>: word characters, white space, the comma and the two
  parentheses. \<open>original\<close> is the piece of source text a segment stands for.
\<close>

definition space_run :: "string \<Rightarrow> bool" where
  "space_run w = (w \<noteq> [] \<and> list_all is_space_char w)"

definition word_run :: "string \<Rightarrow> bool" where
  "word_run w = (w \<noteq> [] \<and> list_all is_word_char w)"

definition is_quote :: "char \<Rightarrow> bool" where
  "is_quote q = (q = CHR 0x27 \<or> q = CHR 0x22)"

definition named_list_char :: "char \<Rightarrow> bool" where
  "named_list_char c =
     (is_word_char c \<or> is_space_char c \<or> c = CHR '','' \<or> c = CHR ''('' \<or> c = CHR '')'')"

text \<open>
  The namespace import of the language for a binding and a library,
  \<open>import * as Name from 'library'\<close>. (Braces hold a list of names, \<open>x\<close> or \<open>x as y\<close>.)
\<close>

definition namespace_import :: "string \<Rightarrow> string \<Rightarrow> string" where
  "namespace_import name library = ''import * as '' @ name @ '' from '' @ sq @ library @ sq"

text \<open>The parsed form of a token without a rename clause.\<close>

definition plain :: "string \<Rightarrow> NamedImport" where
  "plain x = \<lparr>actualName = x, customName = x\<rparr>"

fun original :: "segment \<Rightarrow> string" where
  "original (Skip c) = [c]"
| "original (Hit m caps) = m"

text \<open>What a pass puts in the place of a segment, and what it writes to the console for it.\<close>

fun replaced :: "(string \<Rightarrow> string list \<Rightarrow> string eff) \<Rightarrow> segment \<Rightarrow> string" where
  "replaced f (Skip c) = [c]"
| "replaced f (Hit m caps) = (case snd (f m caps) of Inr r \<Rightarrow> r | Inl e \<Rightarrow> [])"

fun written :: "(string \<Rightarrow> string list \<Rightarrow> string eff) \<Rightarrow> segment \<Rightarrow> string list" where
  "written f (Skip c) = []"
| "written f (Hit m caps) = fst (f m caps)"

text \<open>
  The text a pass returns and the lines it writes, taken segment by segment: a match gives
  what the callback returns and writes for it, any other code unit stays and writes nothing.
\<close>

definition rewritten :: "(string \<Rightarrow> string list \<Rightarrow> string eff) \<Rightarrow> segment list \<Rightarrow> string" where
  "rewritten f segs = concat (map (replaced f) segs)"

definition warned :: "(string \<Rightarrow> string list \<Rightarrow> string eff) \<Rightarrow> segment list \<Rightarrow> string list" where
  "warned f segs = concat (map (written f) segs)"

text \<open>
  The three arrow functions handed to \<open>replace\<close>, each taking the match and the captured
  groups, and the text after the first, the second and the third pass.
\<close>

definition defaultImport_replacer ::
  "string list \<Rightarrow> string \<Rightarrow> string \<Rightarrow> string list \<Rightarrow> string eff" where
  "defaultImport_replacer supportedFunctions srcWithReplacedImports =
     (\<lambda>match caps. defaultImport_callback supportedFunctions srcWithReplacedImports match
                      (capture caps 0))"

definition namedImports_replacer :: "string list \<Rightarrow> string \<Rightarrow> string list \<Rightarrow> string eff" where
  "namedImports_replacer supportedFunctions =
     (\<lambda>match caps. namedImports_callback supportedFunctions match (capture caps 0))"

definition defaultSingleImport_replacer ::
  "string list \<Rightarrow> string \<Rightarrow> string list \<Rightarrow> string eff" where
  "defaultSingleImport_replacer supportedFunctions =
     (\<lambda>match caps. defaultSingleImport_callback supportedFunctions match (capture caps 0)
                      (capture caps 1))"

definition after_defaultImport :: "string list \<Rightarrow> string \<Rightarrow> string" where
  "after_defaultImport supportedFunctions src =
     rewritten (defaultImport_replacer supportedFunctions src) (scan defaultImportRegex None src)"

definition after_namedImports :: "string list \<Rightarrow> string \<Rightarrow> string" where
  "after_namedImports supportedFunctions src =
     rewritten (namedImports_replacer supportedFunctions)
       (scan namedImportsRegex None (after_defaultImport supportedFunctions src))"

definition after_defaultSingleImport :: "string list \<Rightarrow> string \<Rightarrow> string" where
  "after_defaultSingleImport supportedFunctions src =
     rewritten (defaultSingleImport_replacer supportedFunctions)
       (scan defaultSingleImportRegex None (after_namedImports supportedFunctions src))"

section \<open>Facts about the string operations\<close>

lemma includes_str_sublist: "includes_str s t \<longleftrightarrow> sublist t s"
  by (induction s) (auto simp: sublist_Cons_right)

lemma split_from_not_Nil: "split_from sep piece s \<noteq> []"
  by (induction sep piece s rule: split_from.induct) auto

lemma hd_split_from:
  "hd (split_from sep piece s) = [] \<longleftrightarrow>
     piece = [] \<and> (s = [] \<or> (sep \<noteq> [] \<and> prefix sep s))"
proof (induction sep piece s rule: split_from.induct)
  case (1 sep piece)
  then show ?case by simp
next
  case (2 sep piece c cs)
  then show ?case by auto
qed

lemma is_space_char_space: "is_space_char (CHR '' '')"
  by (simp add: is_space_char_def)

lemma trim_hd: "trim s \<noteq> [] \<Longrightarrow> \<not> is_space_char (hd (trim s))"
proof -
  assume ne: "trim s \<noteq> []"
  define u where "u = dropWhile is_space_char s"
  have t: "trim s = take (length u - length (takeWhile is_space_char (rev u))) u"
    unfolding trim_def u_def[symmetric]
    by (simp add: dropWhile_eq_drop rev_drop)
  with ne have "u \<noteq> []" by auto
  then have "\<not> is_space_char (hd u)" unfolding u_def by (rule hd_dropWhile)
  moreover from t ne have "hd (trim s) = hd u"
    by (metis hd_take neq0_conv take_eq_Nil)
  ultimately show ?thesis by simp
qed

lemma split_from_no_sep:
  "\<not> includes_str s sep \<Longrightarrow> split_from sep piece s = [rev piece @ s]"
  by (induction sep piece s rule: split_from.induct) auto

lemma prefix_append_short:
  "prefix p (a @ b) \<Longrightarrow> length p \<le> length a \<Longrightarrow> prefix p a"
  by (auto simp: prefix_def append_eq_append_conv2)

lemma split_from_first:
  assumes "sep \<noteq> []" "\<not> includes_str (X @ butlast sep) sep"
  shows "split_from sep piece (X @ sep @ R) = (rev piece @ X) # split_from sep [] R"
  using assms(2)
proof (induction X arbitrary: piece)
  case Nil
  obtain c cs where sep: "sep = c # cs" using assms(1) by (cases sep) auto
  have "split_from sep piece (c # cs @ R) = rev piece # split_from sep [] (drop (length sep) (c # cs @ R))"
    using sep by simp
  then show ?case using sep by simp
next
  case (Cons x X)
  have np: "\<not> prefix sep ((x # X) @ butlast sep)" and ni: "\<not> includes_str (X @ butlast sep) sep"
    using Cons.prems by auto
  have "\<not> prefix sep ((x # X) @ sep @ R)"
  proof
    assume p: "prefix sep ((x # X) @ sep @ R)"
    have e: "butlast sep @ [last sep] = sep" using assms(1) by simp
    have eq: "((x # X) @ butlast sep) @ ([last sep] @ R) = (x # X) @ sep @ R"
      by (metis e append.assoc)
    from p have "prefix sep (((x # X) @ butlast sep) @ ([last sep] @ R))"
      unfolding eq .
    moreover have "length sep \<le> length ((x # X) @ butlast sep)" by simp
    ultimately have "prefix sep ((x # X) @ butlast sep)" by (rule prefix_append_short)
    with np show False by simp
  qed
  then have "split_from sep piece ((x # X) @ sep @ R) = split_from sep (x # piece) (X @ sep @ R)"
    by simp
  also have "\<dots> = (rev (x # piece) @ X) # split_from sep [] R"
    using Cons.IH[OF ni] .
  finally show ?case by simp
qed

section \<open>The parser cannot fail inside the transform\<close>

lemma parse_ok:
  assumes "t \<noteq> []" "\<not> is_space_char (hd t)"
  shows "\<exists>n. parseNamedImport t = Inr n"
proof -
  have "\<not> prefix '' as '' t"
    using assms is_space_char_space by (cases t) auto
  then have "hd (split_from '' as '' [] t) \<noteq> []"
    using assms by (simp add: hd_split_from)
  then show ?thesis
    using split_from_not_Nil[of "'' as ''" "[]" t]
    by (cases "split_from '' as '' [] t") (auto simp: parseNamedImport_def split_str_def)
qed

lemma namedImportNames_tokens:
  "t \<in> set (namedImportNames raw) \<Longrightarrow> t \<noteq> [] \<and> \<not> is_space_char (hd t)"
  by (auto simp: namedImportNames_def trim_hd)

lemma map_parse_ok:
  "(\<forall>t \<in> set ts. \<exists>n. parseNamedImport t = Inr n) \<Longrightarrow> \<exists>ns. map_parse ts = Inr ns"
  by (induction ts) (auto split: sum.splits)

lemma map_parse_namedImportNames: "\<exists>ns. map_parse (namedImportNames raw) = Inr ns"
  using map_parse_ok namedImportNames_tokens parse_ok by blast

lemma namedImports_callback_ok: "\<exists>w r. namedImports_callback supp m raw = (w, Inr r)"
proof -
  obtain ns where "map_parse (namedImportNames raw) = Inr ns"
    using map_parse_namedImportNames by blast
  then show ?thesis by (simp add: namedImports_callback_def Let_def)
qed

lemma defaultImport_callback_ok: "\<exists>w r. defaultImport_callback supp src m name = (w, Inr r)"
  by (simp add: defaultImport_callback_def Let_def)

lemma defaultSingleImport_callback_ok:
  "\<exists>w r. defaultSingleImport_callback supp m c a = (w, Inr r)"
  by (simp add: defaultSingleImport_callback_def)

lemma run_callbacks_ok:
  assumes "\<And>m caps. \<exists>w r. f m caps = (w, Inr r)"
  shows "\<exists>w t. run_callbacks f segs = (w, Inr t)"
proof (induction segs)
  case Nil
  then show ?case by simp
next
  case (Cons seg segs)
  then obtain w t where ih: "run_callbacks f segs = (w, Inr t)" by blast
  show ?case
  proof (cases seg)
    case (Skip c)
    then show ?thesis using ih by simp
  next
    case (Hit m caps)
    obtain w' r where "f m caps = (w', Inr r)" using assms by blast
    then show ?thesis using ih Hit by simp
  qed
qed

lemma transform_ok:
  assumes inc: "includes_str src ''lodash''"
  shows "\<exists>w c. transform supp st src fid =
     (\<lparr>defaultImport_lastIndex = 0, namedImports_lastIndex = 0,
        defaultSingleImport_lastIndex = 0\<rparr>,
      w, Inr (Some \<lparr>code = c, source_map = None\<rparr>))"
proof -
  obtain w1 s1 where p1:
    "run_callbacks (\<lambda>match caps. defaultImport_callback supp src match (capture caps 0))
       (scan defaultImportRegex None src) = (w1, Inr s1)"
    using run_callbacks_ok[where f="\<lambda>match caps. defaultImport_callback supp src match (capture caps 0)"]
      defaultImport_callback_ok by blast
  obtain w2 s2 where p2:
    "run_callbacks (\<lambda>match caps. namedImports_callback supp match (capture caps 0))
       (scan namedImportsRegex None s1) = (w2, Inr s2)"
    using run_callbacks_ok[where f="\<lambda>match caps. namedImports_callback supp match (capture caps 0)"]
      namedImports_callback_ok by blast
  obtain w3 s3 where p3:
    "run_callbacks
       (\<lambda>match caps. defaultSingleImport_callback supp match (capture caps 0) (capture caps 1))
       (scan defaultSingleImportRegex None s2) = (w3, Inr s3)"
    using run_callbacks_ok[where f="\<lambda>match caps. defaultSingleImport_callback supp match (capture caps 0) (capture caps 1)"]
      defaultSingleImport_callback_ok by blast
  show ?thesis
    using inc p1 p2 p3 by (simp add: transform_def String_replace_def)
qed

section \<open>What the parser returns\<close>

lemma parse_fails_iff:
  "parseNamedImport t = Inl Invalid_named_import \<longleftrightarrow> t = [] \<or> prefix '' as '' t"
proof -
  have "split_from '' as '' [] t \<noteq> []" by (rule split_from_not_Nil)
  then obtain a r where s: "split_from '' as '' [] t = a # r" by (cases "split_from '' as '' [] t") auto
  have "a = [] \<longleftrightarrow> t = [] \<or> prefix '' as '' t"
    using hd_split_from[of "'' as ''" "[]" t] s by simp
  then show ?thesis using s by (auto simp: parseNamedImport_def split_str_def)
qed

lemma parse_no_sep:
  assumes "t \<noteq> []" "\<not> includes_str t '' as ''"
  shows "parseNamedImport t = Inr \<lparr>actualName = t, customName = t\<rparr>"
  using assms by (simp add: parseNamedImport_def split_str_def split_from_no_sep)

lemma parse_sep:
  assumes "X \<noteq> []" "\<not> includes_str (X @ '' as'') '' as ''"
  shows "parseNamedImport (X @ '' as '' @ R) =
     Inr \<lparr>actualName = X,
          customName = (if hd (split_str R '' as '') = [] then X else hd (split_str R '' as ''))\<rparr>"
proof -
  have "split_from '' as '' [] (X @ '' as '' @ R) = X # split_from '' as '' [] R"
    using split_from_first[of "'' as ''" X "[]" R] assms(2) by simp
  moreover obtain a r where "split_from '' as '' [] R = a # r"
    using split_from_not_Nil[of "'' as ''" "[]" R] by (cases "split_from '' as '' [] R") auto
  ultimately show ?thesis using assms(1)
    by (simp add: parseNamedImport_def split_str_def)
qed

section \<open>Facts about the matcher and the scan\<close>

lemma rx_match_prefix:
  "rx_match rx prev seen mark caps s = Some (t, caps') \<Longrightarrow> \<exists>u. t = rev seen @ u \<and> prefix u s"
proof (induction rx prev seen mark caps s arbitrary: t caps' rule: rx_match.induct)
  case (2 l r prev seen mark caps s)
  then show ?case by (fastforce split: if_splits simp: prefix_def)
next
  case (4 k r prev seen mark caps c cs)
  then show ?case by (fastforce split: if_splits)
next
  case (6 k r prev seen mark caps c cs)
  then show ?case by (fastforce split: if_splits option.splits)
next
  case (8 k r prev seen mark caps c cs)
  then show ?case by (fastforce split: if_splits)
next
  case (9 l r prev seen mark caps s)
  then show ?case by (fastforce split: if_splits option.splits simp: prefix_def)
qed (auto split: if_splits)

lemma rx_match_here_prefix: "rx_match_here rx prev s = Some (m, caps) \<Longrightarrow> prefix m s"
  using rx_match_prefix[of rx prev "[]" 0 "[]" s m caps] by (auto simp: rx_match_here_def)

lemma scan_covers: "concat (map original (scan rx prev s)) = s"
proof (induction rx prev s rule: scan.induct)
  case (1 rx prev)
  show ?case
  proof (cases "rx_match_here rx prev []")
    case None
    then show ?thesis by simp
  next
    case (Some a)
    obtain m caps where a: "a = (m, caps)" by (cases a)
    have "prefix m []" using Some a rx_match_here_prefix by blast
    then show ?thesis using Some a by simp
  qed
next
  case (2 rx prev c cs)
  show ?case
  proof (cases "rx_match_here rx prev (c # cs)")
    case None
    then show ?thesis using 2 by simp
  next
    case (Some a)
    obtain m caps where a: "a = (m, caps)" by (cases a)
    have p: "prefix m (c # cs)" using Some a rx_match_here_prefix by blast
    show ?thesis
    proof (cases "m = []")
      case True
      then show ?thesis using 2 Some a by simp
    next
      case False
      have "concat (map original (scan rx (Some (last m)) (drop (length m) (c # cs)))) = drop (length m) (c # cs)"
        using 2(3)[OF Some a[symmetric] False] .
      moreover have "m @ drop (length m) (c # cs) = c # cs"
        using p by (metis append_eq_conv_conj prefix_def)
      ultimately show ?thesis using Some a False by simp
    qed
  qed
qed

lemma scan_hit_is_match:
  "Hit m caps \<in> set (scan rx prev s) \<Longrightarrow>
     \<exists>prev' s'. suffix s' s \<and> rx_match_here rx prev' s' = Some (m, caps)"
proof (induction rx prev s rule: scan.induct)
  case (1 rx prev)
  then show ?case by (auto split: option.splits)
next
  case (2 rx prev c cs)
  show ?case
  proof (cases "rx_match_here rx prev (c # cs)")
    case None
    then have "Hit m caps \<in> set (scan rx (Some c) cs)" using 2(4) by simp
    from 2(1)[OF None this] show ?thesis by (meson suffix_Cons)
  next
    case (Some a)
    obtain m' caps' where a: "a = (m', caps')" by (cases a)
    show ?thesis
    proof (cases "m' = []")
      case True
      then consider "Hit m caps = Hit m' caps'" | "Hit m caps \<in> set (scan rx (Some c) cs)"
        using 2(4) Some a by auto
      then show ?thesis
      proof cases
        case 1
        then show ?thesis using Some a by (metis segment.inject(2) suffix_order.refl)
      next
        case 2
        from "2.IH"(2)[OF Some a[symmetric] True this] show ?thesis by (meson suffix_Cons)
      qed
    next
      case False
      then consider "Hit m caps = Hit m' caps'"
        | "Hit m caps \<in> set (scan rx (Some (last m')) (drop (length m') (c # cs)))"
        using 2(4) Some a by auto
      then show ?thesis
      proof cases
        case 1
        then show ?thesis using Some a by (metis segment.inject(2) suffix_order.refl)
      next
        case 2
        from "2.IH"(3)[OF Some a[symmetric] False this] show ?thesis
          by (meson suffix_drop suffix_order.trans)
      qed
    qed
  qed
qed

lemma rx_match_Lit:
  "rx_match (Lit l # r) prev seen mark caps s = Some res \<Longrightarrow>
     \<exists>rest. s = l @ rest \<and> rx_match r prev (rev l @ seen) mark caps rest = Some res"
  by (auto simp: prefix_def split: if_splits)

lemma rx_match_One:
  "rx_match (One k # r) prev seen mark caps s = Some res \<Longrightarrow>
     \<exists>x rest. s = x # rest \<and> in_class k x \<and> rx_match r prev (x # seen) mark caps rest = Some res"
  by (cases s) (auto split: if_splits)

lemma rx_match_Star:
  "rx_match (Star k # r) prev seen mark caps s = Some res \<Longrightarrow>
     \<exists>w rest. s = w @ rest \<and> (\<forall>c \<in> set w. in_class k c)
        \<and> rx_match r prev (rev w @ seen) mark caps rest = Some res"
proof (induction s arbitrary: seen)
  case Nil
  then show ?case by auto
next
  case (Cons c cs)
  show ?case
  proof (cases "in_class k c \<and> rx_match (Star k # r) prev (c # seen) mark caps cs \<noteq> None")
    case True
    then have "rx_match (Star k # r) prev (c # seen) mark caps cs = Some res"
      using Cons.prems by (auto split: option.splits)
    from Cons.IH[OF this] obtain w rest where
      "cs = w @ rest" "\<forall>c \<in> set w. in_class k c"
      "rx_match r prev (rev w @ c # seen) mark caps rest = Some res" by blast
    then have "c # cs = (c # w) @ rest \<and> (\<forall>x \<in> set (c # w). in_class k x)
        \<and> rx_match r prev (rev (c # w) @ seen) mark caps rest = Some res"
      using True by simp
    then show ?thesis by blast
  next
    case False
    then have "rx_match r prev seen mark caps (c # cs) = Some res"
      using Cons.prems by (auto split: option.splits if_splits)
    then have "c # cs = [] @ (c # cs) \<and> (\<forall>x \<in> set []. in_class k x)
        \<and> rx_match r prev (rev [] @ seen) mark caps (c # cs) = Some res" by simp
    then show ?thesis by blast
  qed
qed

lemma rx_match_Plus:
  "rx_match (Plus k # r) prev seen mark caps s = Some res \<Longrightarrow>
     \<exists>w rest. s = w @ rest \<and> w \<noteq> [] \<and> (\<forall>c \<in> set w. in_class k c)
        \<and> rx_match r prev (rev w @ seen) mark caps rest = Some res"
proof (cases s)
  case Nil
  assume "rx_match (Plus k # r) prev seen mark caps s = Some res"
  then show ?thesis using Nil by simp
next
  case (Cons c cs)
  assume "rx_match (Plus k # r) prev seen mark caps s = Some res"
  then have k: "in_class k c" and "rx_match (Star k # r) prev (c # seen) mark caps cs = Some res"
    using Cons by (auto split: if_splits)
  from rx_match_Star[OF this(2)] obtain w rest where
    "cs = w @ rest" "\<forall>c \<in> set w. in_class k c"
    "rx_match r prev (rev w @ c # seen) mark caps rest = Some res" by blast
  then have "s = (c # w) @ rest \<and> c # w \<noteq> [] \<and> (\<forall>x \<in> set (c # w). in_class k x)
        \<and> rx_match r prev (rev (c # w) @ seen) mark caps rest = Some res"
    using k Cons by simp
  then show ?thesis by blast
qed

lemma rx_match_OptLit:
  "rx_match (OptLit l # r) prev seen mark caps s = Some res \<Longrightarrow>
     (\<exists>rest. s = l @ rest \<and> rx_match r prev (rev l @ seen) mark caps rest = Some res)
     \<or> rx_match r prev seen mark caps s = Some res"
  by (auto simp: prefix_def split: if_splits option.splits)

lemma rx_match_Star_greedy:
  "\<forall>c \<in> set w. in_class k c \<Longrightarrow>
   rx_match r prev (rev w @ seen) mark caps rest = Some res \<Longrightarrow>
   rest = [] \<or> \<not> in_class k (hd rest) \<Longrightarrow>
   rx_match (Star k # r) prev seen mark caps (w @ rest) = Some res"
proof (induction w arbitrary: seen)
  case Nil
  then show ?case by (cases rest) auto
next
  case (Cons x w)
  then have "rx_match (Star k # r) prev (x # seen) mark caps (w @ rest) = Some res"
    by simp
  then show ?case using Cons.prems(1) by simp
qed

lemma rx_match_Plus_greedy:
  "w \<noteq> [] \<Longrightarrow> \<forall>c \<in> set w. in_class k c \<Longrightarrow>
   rx_match r prev (rev w @ seen) mark caps rest = Some res \<Longrightarrow>
   rest = [] \<or> \<not> in_class k (hd rest) \<Longrightarrow>
   rx_match (Plus k # r) prev seen mark caps (w @ rest) = Some res"
proof (cases w)
  case Nil
  assume "w \<noteq> []"
  then show ?thesis using Nil by simp
next
  case (Cons x w')
  assume a: "\<forall>c \<in> set w. in_class k c"
    "rx_match r prev (rev w @ seen) mark caps rest = Some res"
    "rest = [] \<or> \<not> in_class k (hd rest)"
  have "rx_match (Star k # r) prev (x # seen) mark caps (w' @ rest) = Some res"
    using rx_match_Star_greedy[of w' k r prev "x # seen" mark caps rest res] a Cons by simp
  then show ?thesis using a Cons by simp
qed

lemma rx_match_Open:
  "rx_match (Open # r) prev seen mark caps s = Some res \<Longrightarrow>
     rx_match r prev seen (length seen) caps s = Some res"
  by simp

lemma rx_match_Close:
  "rx_match (Close # r) prev seen mark caps s = Some res \<Longrightarrow>
     rx_match r prev seen mark (caps @ [rev (take (length seen - mark) seen)]) s = Some res"
  by simp

lemma rx_match_WordB:
  "rx_match (WordB # r) prev seen mark caps s = Some res \<Longrightarrow>
     at_word_boundary (case seen of [] \<Rightarrow> prev | c # _ \<Rightarrow> Some c) s
     \<and> rx_match r prev seen mark caps s = Some res"
  by (simp split: if_splits)

lemma in_class_Space: "(\<forall>c \<in> set w. in_class [Space] c) \<longleftrightarrow> list_all is_space_char w"
  by (simp add: in_class_def list_all_iff)

lemma in_class_Word: "(\<forall>c \<in> set w. in_class [Word] c) \<longleftrightarrow> list_all is_word_char w"
  by (simp add: in_class_def list_all_iff)

lemma in_class_quote: "in_class quote q \<longleftrightarrow> is_quote q"
  by (auto simp: in_class_def quote_def is_quote_def)

lemma rx_match_LitE:
  assumes "rx_match (Lit l # r) prev seen mark caps s = Some res"
  obtains rest where "s = l @ rest" "rx_match r prev (rev l @ seen) mark caps rest = Some res"
  using rx_match_Lit[OF assms] by blast

lemma rx_match_OneE:
  assumes "rx_match (One k # r) prev seen mark caps s = Some res"
  obtains x rest where "s = x # rest" "in_class k x"
    "rx_match r prev (x # seen) mark caps rest = Some res"
  using rx_match_One[OF assms] by blast

lemma rx_match_StarE:
  assumes "rx_match (Star k # r) prev seen mark caps s = Some res"
  obtains w rest where "s = w @ rest" "\<forall>c \<in> set w. in_class k c"
    "rx_match r prev (rev w @ seen) mark caps rest = Some res"
  using rx_match_Star[OF assms] by blast

lemma rx_match_PlusE:
  assumes "rx_match (Plus k # r) prev seen mark caps s = Some res"
  obtains w rest where "s = w @ rest" "w \<noteq> []" "\<forall>c \<in> set w. in_class k c"
    "rx_match r prev (rev w @ seen) mark caps rest = Some res"
  using rx_match_Plus[OF assms] by blast

lemma rx_match_OpenE:
  assumes "rx_match (Open # r) prev seen mark caps s = Some res"
  obtains "rx_match r prev seen (length seen) caps s = Some res"
  using assms by simp

lemma rx_match_CloseE:
  assumes "rx_match (Close # r) prev seen mark caps s = Some res"
  obtains "rx_match r prev seen mark (caps @ [rev (take (length seen - mark) seen)]) s = Some res"
  using assms by simp

lemmas rx_match_elims = rx_match_LitE rx_match_OneE rx_match_StarE rx_match_PlusE
  rx_match_OpenE rx_match_CloseE

lemma defaultImportRegex_shape:
  assumes "rx_match_here defaultImportRegex prev s = Some (m, caps)"
  shows "\<exists>ws1 name ws2 ws3 q1 q2.
           m = ''import'' @ ws1 @ name @ ws2 @ ''from'' @ ws3 @ [q1] @ ''lodash'' @ [q2]
           \<and> caps = [name]
           \<and> space_run ws1 \<and> word_run name \<and> space_run ws2 \<and> space_run ws3
           \<and> is_quote q1 \<and> is_quote q2"
  using assms unfolding rx_match_here_def defaultImportRegex_def
  apply (elim rx_match_elims)
  apply (simp add: in_class_Space in_class_Word in_class_quote space_run_def word_run_def)
  apply blast
  done


lemma rx_match_OptLitE:
  assumes "rx_match (OptLit l # r) prev seen mark caps s = Some res"
  obtains rest where "s = l @ rest" "rx_match r prev (rev l @ seen) mark caps rest = Some res"
    | "rx_match r prev seen mark caps s = Some res"
  using rx_match_OptLit[OF assms] by blast

lemma rx_match_WordBE:
  assumes "rx_match (WordB # r) prev seen mark caps s = Some res"
  obtains "at_word_boundary (case seen of [] \<Rightarrow> prev | c # _ \<Rightarrow> Some c) s"
    "rx_match r prev seen mark caps s = Some res"
  using rx_match_WordB[OF assms] by blast

lemma in_class_named_list:
  "in_class [Word, Ch CHR ''('', Ch CHR '' '', Ch CHR ''a'', Ch CHR ''s'', Ch CHR '' '', Word,
             Ch CHR '')'', Space, Ch CHR '',''] c \<longleftrightarrow> named_list_char c"
  by (auto simp: in_class_def named_list_char_def is_word_char_def is_space_char_def)

lemma namedImportsRegex_shape:
  assumes "rx_match_here namedImportsRegex prev s = Some (m, caps)"
  shows "\<exists>ws1 ws2 raw ws3 ws4 ws5 q1 q2.
           m = ''import'' @ ws1 @ ''{'' @ ws2 @ raw @ ws3 @ ''}'' @ ws4 @ ''from'' @ ws5
                 @ [q1] @ ''lodash'' @ [q2]
           \<and> caps = [raw]
           \<and> space_run ws1 \<and> list_all is_space_char ws2
           \<and> raw \<noteq> [] \<and> list_all named_list_char raw
           \<and> list_all is_space_char ws3 \<and> space_run ws4 \<and> space_run ws5
           \<and> is_quote q1 \<and> is_quote q2"
  using assms unfolding rx_match_here_def namedImportsRegex_def
  apply (elim rx_match_elims)
  apply (simp add: in_class_Space in_class_Word in_class_quote in_class_named_list
      space_run_def word_run_def list_all_iff[of named_list_char])
  apply blast
  done

lemma usageRegex_shape:
  assumes "rx_match_here (usageRegex name) prev s = Some (u, caps)"
  shows "\<exists>symb. u = name @ ''.'' @ symb \<and> word_run symb"
  using assms unfolding rx_match_here_def usageRegex_def
  apply (elim rx_match_elims rx_match_WordBE)
  apply (simp add: in_class_Word word_run_def)
  apply blast
  done

lemma defaultSingleImportRegex_shape:
  assumes "rx_match_here defaultSingleImportRegex prev s = Some (m, caps)"
  shows "\<exists>ws1 name ws2 ws3 q1 symb q2.
           (m = ''import'' @ ws1 @ name @ ws2 @ ''from'' @ ws3 @ [q1] @ ''lodash/'' @ symb @ [q2]
            \<or> m = ''import'' @ ws1 @ name @ ws2 @ ''from'' @ ws3 @ [q1] @ ''lodash/'' @ symb
                    @ ''.js'' @ [q2])
           \<and> caps = [name, symb]
           \<and> space_run ws1 \<and> word_run name \<and> space_run ws2 \<and> space_run ws3
           \<and> is_quote q1 \<and> word_run symb \<and> is_quote q2"
  using assms unfolding rx_match_here_def defaultSingleImportRegex_def
  apply (elim rx_match_elims rx_match_OptLitE)
   apply (simp_all add: in_class_Space in_class_Word in_class_quote space_run_def word_run_def)
   apply blast
  apply blast
  done

lemma run_callbacks_Skips: "run_callbacks f (map Skip s) = ([], Inr s)"
  by (induction s) auto

lemma hits_set: "u \<in> set (hits segs) \<Longrightarrow> \<exists>caps. Hit u caps \<in> set segs"
  by (induction segs rule: hits.induct) auto

lemma includes_str_single: "includes_str s [c] \<longleftrightarrow> c \<in> set s"
  by (induction s) auto

lemma usage_shape:
  assumes "u \<in> set (String_match src (usageRegex name))"
  shows "\<exists>symb. u = name @ ''.'' @ symb \<and> word_run symb"
proof -
  from assms obtain caps where "Hit u caps \<in> set (scan (usageRegex name) None src)"
    unfolding String_match_def using hits_set by blast
  from scan_hit_is_match[OF this] obtain prev' s' where
    "rx_match_here (usageRegex name) prev' s' = Some (u, caps)" by blast
  then show ?thesis by (rule usageRegex_shape)
qed

lemma not_word_dot: "\<not> is_word_char CHR ''.''"
  by (simp add: is_word_char_def)

lemma usedFunction_usage:
  assumes "CHR ''.'' \<notin> set name" "word_run symb"
  shows "usedFunction (name @ ''.'' @ symb) = symb"
proof -
  have "CHR ''.'' \<notin> set symb"
    using assms(2) not_word_dot by (auto simp: word_run_def list_all_iff)
  then have "split_from ''.'' [] symb = [symb]"
    by (simp add: split_from_no_sep includes_str_single)
  moreover have "split_from ''.'' [] (name @ ''.'' @ symb) = name # split_from ''.'' [] symb"
    using split_from_first[of "''.''" name "[]" symb] assms(1)
    by (simp add: includes_str_single)
  ultimately show ?thesis by (simp add: usedFunction_def split_str_def)
qed

section \<open>What the expressions accept\<close>

text \<open>Forward rules: when the rest of the expression accepts the rest of the text,
  whatever was matched before, the longer expression accepts the longer text.\<close>

lemma accept_Nil:
  "rx_match [] prev seen mark caps rest = Some (rev seen @ [], caps @ [])"
  by simp

lemma accept_Lit:
  assumes "\<And>seen mark caps. rx_match r prev seen mark caps rest = Some (rev seen @ t, caps @ cs)"
  shows "rx_match (Lit l # r) prev seen mark caps (l @ rest) = Some (rev seen @ l @ t, caps @ cs)"
  using assms[of "rev l @ seen" mark caps] by simp

lemma accept_One:
  assumes "\<And>seen mark caps. rx_match r prev seen mark caps rest = Some (rev seen @ t, caps @ cs)"
    and "in_class k x"
  shows "rx_match (One k # r) prev seen mark caps ([x] @ rest) = Some (rev seen @ [x] @ t, caps @ cs)"
  using assms(1)[of "x # seen" mark caps] assms(2) by simp

lemma accept_Star:
  assumes "\<And>seen mark caps. rx_match r prev seen mark caps rest = Some (rev seen @ t, caps @ cs)"
    and "\<forall>c \<in> set w. in_class k c" "rest = [] \<or> \<not> in_class k (hd rest)"
  shows "rx_match (Star k # r) prev seen mark caps (w @ rest) = Some (rev seen @ w @ t, caps @ cs)"
  using rx_match_Star_greedy[OF assms(2) _ assms(3), of r prev seen mark caps]
    assms(1)[of "rev w @ seen" mark caps] by simp

lemma accept_Plus:
  assumes "\<And>seen mark caps. rx_match r prev seen mark caps rest = Some (rev seen @ t, caps @ cs)"
    and "w \<noteq> []" "\<forall>c \<in> set w. in_class k c" "rest = [] \<or> \<not> in_class k (hd rest)"
  shows "rx_match (Plus k # r) prev seen mark caps (w @ rest) = Some (rev seen @ w @ t, caps @ cs)"
  using rx_match_Plus_greedy[OF assms(2) assms(3) _ assms(4), of r prev seen mark caps]
    assms(1)[of "rev w @ seen" mark caps] by simp

lemma accept_group:
  assumes "\<And>seen mark caps. rx_match r prev seen mark caps rest = Some (rev seen @ t, caps @ cs)"
    and "w \<noteq> []" "\<forall>c \<in> set w. in_class k c" "rest = [] \<or> \<not> in_class k (hd rest)"
  shows "rx_match (Open # Plus k # Close # r) prev seen mark caps (w @ rest)
           = Some (rev seen @ w @ t, caps @ w # cs)"
proof -
  have "rx_match (Close # r) prev (rev w @ seen) (length seen) caps rest
          = Some (rev seen @ w @ t, caps @ w # cs)"
    using assms(1)[of "rev w @ seen" "length seen" "caps @ [w]"] by simp
  from rx_match_Plus_greedy[OF assms(2) assms(3) this assms(4)]
  show ?thesis by simp
qed

lemma accept_OptLit_present:
  assumes "\<And>seen mark caps. rx_match r prev seen mark caps rest = Some (rev seen @ t, caps @ cs)"
  shows "rx_match (OptLit l # r) prev seen mark caps (l @ rest) = Some (rev seen @ l @ t, caps @ cs)"
  using assms[of "rev l @ seen" mark caps] by simp

lemma accept_OptLit_absent:
  assumes "\<And>seen mark caps. rx_match r prev seen mark caps rest = Some (rev seen @ t, caps @ cs)"
    and "\<not> prefix l rest"
  shows "rx_match (OptLit l # r) prev seen mark caps ([] @ rest) = Some (rev seen @ [] @ t, caps @ cs)"
  using assms(1)[of seen mark caps] assms(2) by simp

lemma word_not_space: "is_word_char c \<Longrightarrow> \<not> is_space_char c"
  by (auto simp: is_word_char_def is_space_char_def Let_def)

lemma quote_not_space: "is_quote q \<Longrightarrow> \<not> is_space_char q"
  by (auto simp: is_quote_def is_space_char_def)

lemma quote_not_word: "is_quote q \<Longrightarrow> \<not> is_word_char q"
  by (auto simp: is_quote_def is_word_char_def)

lemma class_facts:
  "space_run w \<Longrightarrow> w \<noteq> []"
  "space_run w \<Longrightarrow> \<forall>c \<in> set w. in_class [Space] c"
  "space_run w \<Longrightarrow> \<not> in_class [Word] (hd w)"
  "word_run w \<Longrightarrow> w \<noteq> []"
  "word_run w \<Longrightarrow> \<forall>c \<in> set w. in_class [Word] c"
  "word_run w \<Longrightarrow> \<not> in_class [Space] (hd w)"
  "is_quote q \<Longrightarrow> in_class quote q"
  "is_quote q \<Longrightarrow> \<not> in_class [Space] q"
  "is_quote q \<Longrightarrow> \<not> in_class [Word] q"
  using word_not_space quote_not_space quote_not_word
  by (cases w; auto simp: space_run_def word_run_def in_class_def list_all_iff quote_def is_quote_def)+

lemma defaultSingleImportRegex_accepts:
  assumes "space_run ws1" "word_run name" "space_run ws2" "space_run ws3"
    "is_quote q1" "word_run symb" "ext = [] \<or> ext = ''.js''" "is_quote q2"
  shows "rx_match_here defaultSingleImportRegex prev
           (''import'' @ ws1 @ name @ ws2 @ ''from'' @ ws3 @ [q1] @ ''lodash/'' @ symb @ ext
              @ [q2] @ rest)
         = Some (''import'' @ ws1 @ name @ ws2 @ ''from'' @ ws3 @ [q1] @ ''lodash/'' @ symb
                   @ ext @ [q2],
                 [name, symb])"
proof -
  have e1: "rx_match [OptLit ''.js'', One quote] prev seen mark caps
       (ext @ [q2] @ rest) = Some (rev seen @ ext @ [q2] @ [], caps @ [])" for seen mark caps
  proof (cases "ext = []")
    case True
    have np: "\<not> prefix ''.js'' ([q2] @ rest)" using assms(8) by (auto simp: is_quote_def)
    have "rx_match [OptLit ''.js'', One quote] prev seen mark caps ([] @ [q2] @ rest)
        = Some (rev seen @ [] @ [q2] @ [], caps @ [])"
      by (rule accept_OptLit_absent[OF accept_One[OF accept_Nil] np])
        (use assms in \<open>simp add: class_facts\<close>)
    then show ?thesis using True by simp
  next
    case False
    then have e: "ext = ''.js''" using assms(7) by simp
    show ?thesis unfolding e
      by (rule accept_OptLit_present[OF accept_One[OF accept_Nil]])
        (use assms in \<open>simp add: class_facts\<close>)
  qed
  note cf = class_facts
  have nf: "\<not> in_class [Space] (CHR ''f'')"
    by (simp add: in_class_def is_space_char_def)
  have e2: "rx_match [Open, Plus [Word], Close, OptLit ''.js'', One quote] prev seen mark caps
       (symb @ ext @ [q2] @ rest) = Some (rev seen @ symb @ ext @ [q2] @ [], caps @ symb # [])"
    for seen mark caps
  proof (rule accept_group[OF e1])
    show "ext @ [q2] @ rest = [] \<or> \<not> in_class [Word] (hd (ext @ [q2] @ rest))"
      using assms(7,8) quote_not_word by (auto simp: in_class_def is_word_char_def)
  qed (use assms in \<open>simp_all add: cf\<close>)
  have e3: "rx_match [Lit ''lodash/'', Open, Plus [Word], Close, OptLit ''.js'', One quote]
       prev seen mark caps (''lodash/'' @ symb @ ext @ [q2] @ rest)
     = Some (rev seen @ ''lodash/'' @ symb @ ext @ [q2] @ [], caps @ symb # [])"
    for seen mark caps
    by (rule accept_Lit[OF e2])
  have e4: "rx_match [One quote, Lit ''lodash/'', Open, Plus [Word], Close, OptLit ''.js'',
        One quote] prev seen mark caps ([q1] @ ''lodash/'' @ symb @ ext @ [q2] @ rest)
     = Some (rev seen @ [q1] @ ''lodash/'' @ symb @ ext @ [q2] @ [], caps @ symb # [])"
    for seen mark caps
    by (rule accept_One[OF e3]) (use assms in \<open>simp add: cf\<close>)
  have e5: "rx_match [Plus [Space], One quote, Lit ''lodash/'', Open, Plus [Word], Close,
        OptLit ''.js'', One quote] prev seen mark caps
        (ws3 @ [q1] @ ''lodash/'' @ symb @ ext @ [q2] @ rest)
     = Some (rev seen @ ws3 @ [q1] @ ''lodash/'' @ symb @ ext @ [q2] @ [], caps @ symb # [])"
    for seen mark caps
    by (rule accept_Plus[OF e4]) (use assms in \<open>simp_all add: cf\<close>)
  have e6: "rx_match [Lit ''from'', Plus [Space], One quote, Lit ''lodash/'', Open, Plus [Word],
        Close, OptLit ''.js'', One quote] prev seen mark caps
        (''from'' @ ws3 @ [q1] @ ''lodash/'' @ symb @ ext @ [q2] @ rest)
     = Some (rev seen @ ''from'' @ ws3 @ [q1] @ ''lodash/'' @ symb @ ext @ [q2] @ [],
             caps @ symb # [])"
    for seen mark caps
    by (rule accept_Lit[OF e5])
  have e7: "rx_match [Plus [Space], Lit ''from'', Plus [Space], One quote, Lit ''lodash/'', Open,
        Plus [Word], Close, OptLit ''.js'', One quote] prev seen mark caps
        (ws2 @ ''from'' @ ws3 @ [q1] @ ''lodash/'' @ symb @ ext @ [q2] @ rest)
     = Some (rev seen @ ws2 @ ''from'' @ ws3 @ [q1] @ ''lodash/'' @ symb @ ext @ [q2] @ [],
             caps @ symb # [])"
    for seen mark caps
    by (rule accept_Plus[OF e6]) (use assms in \<open>simp_all add: cf nf\<close>)
  have e8: "rx_match [Open, Plus [Word], Close, Plus [Space], Lit ''from'', Plus [Space],
        One quote, Lit ''lodash/'', Open, Plus [Word], Close, OptLit ''.js'', One quote]
        prev seen mark caps
        (name @ ws2 @ ''from'' @ ws3 @ [q1] @ ''lodash/'' @ symb @ ext @ [q2] @ rest)
     = Some (rev seen @ name @ ws2 @ ''from'' @ ws3 @ [q1] @ ''lodash/'' @ symb @ ext @ [q2]
               @ [],
             caps @ name # symb # [])"
    for seen mark caps
    by (rule accept_group[OF e7]) (use assms in \<open>simp_all add: cf\<close>)
  have e9: "rx_match [Plus [Space], Open, Plus [Word], Close, Plus [Space], Lit ''from'',
        Plus [Space], One quote, Lit ''lodash/'', Open, Plus [Word], Close, OptLit ''.js'',
        One quote] prev seen mark caps
        (ws1 @ name @ ws2 @ ''from'' @ ws3 @ [q1] @ ''lodash/'' @ symb @ ext @ [q2] @ rest)
     = Some (rev seen @ ws1 @ name @ ws2 @ ''from'' @ ws3 @ [q1] @ ''lodash/'' @ symb @ ext
               @ [q2] @ [],
             caps @ name # symb # [])"
    for seen mark caps
    by (rule accept_Plus[OF e8]) (use assms in \<open>simp_all add: cf\<close>)
  have "rx_match defaultSingleImportRegex prev [] 0 []
           (''import'' @ ws1 @ name @ ws2 @ ''from'' @ ws3 @ [q1] @ ''lodash/'' @ symb @ ext
              @ [q2] @ rest)
         = Some (rev [] @ ''import'' @ ws1 @ name @ ws2 @ ''from'' @ ws3 @ [q1] @ ''lodash/''
                   @ symb @ ext @ [q2] @ [],
                 [] @ name # symb # [])"
    unfolding defaultSingleImportRegex_def by (rule accept_Lit[OF e9])
  then show ?thesis by (simp add: rx_match_here_def)
qed

lemma defaultImportRegex_accepts:
  assumes "space_run ws1" "word_run name" "space_run ws2" "space_run ws3"
    "is_quote q1" "is_quote q2"
  shows "rx_match_here defaultImportRegex prev
           (''import'' @ ws1 @ name @ ws2 @ ''from'' @ ws3 @ [q1] @ ''lodash'' @ [q2] @ rest)
         = Some (''import'' @ ws1 @ name @ ws2 @ ''from'' @ ws3 @ [q1] @ ''lodash'' @ [q2],
                 [name])"
proof -
  note cf = class_facts
  have nf: "\<not> in_class [Space] (CHR ''f'')"
    by (simp add: in_class_def is_space_char_def)
  have e1: "rx_match [Lit ''lodash'', One quote] prev seen mark caps (''lodash'' @ [q2] @ rest)
      = Some (rev seen @ ''lodash'' @ [q2] @ [], caps @ [])" for seen mark caps
    by (rule accept_Lit[OF accept_One[OF accept_Nil]]) (use assms in \<open>simp add: cf\<close>)
  have e2: "rx_match [One quote, Lit ''lodash'', One quote] prev seen mark caps
        ([q1] @ ''lodash'' @ [q2] @ rest)
      = Some (rev seen @ [q1] @ ''lodash'' @ [q2] @ [], caps @ [])" for seen mark caps
    by (rule accept_One[OF e1]) (use assms in \<open>simp add: cf\<close>)
  have e3: "rx_match [Plus [Space], One quote, Lit ''lodash'', One quote] prev seen mark caps
        (ws3 @ [q1] @ ''lodash'' @ [q2] @ rest)
      = Some (rev seen @ ws3 @ [q1] @ ''lodash'' @ [q2] @ [], caps @ [])" for seen mark caps
    by (rule accept_Plus[OF e2]) (use assms in \<open>simp_all add: cf\<close>)
  have e5: "rx_match [Plus [Space], Lit ''from'', Plus [Space], One quote, Lit ''lodash'',
        One quote] prev seen mark caps (ws2 @ ''from'' @ ws3 @ [q1] @ ''lodash'' @ [q2] @ rest)
      = Some (rev seen @ ws2 @ ''from'' @ ws3 @ [q1] @ ''lodash'' @ [q2] @ [], caps @ [])"
    for seen mark caps
    by (rule accept_Plus[OF accept_Lit[OF e3]]) (use assms in \<open>simp_all add: cf nf\<close>)
  have e6: "rx_match [Open, Plus [Word], Close, Plus [Space], Lit ''from'', Plus [Space],
        One quote, Lit ''lodash'', One quote] prev seen mark caps
        (name @ ws2 @ ''from'' @ ws3 @ [q1] @ ''lodash'' @ [q2] @ rest)
      = Some (rev seen @ name @ ws2 @ ''from'' @ ws3 @ [q1] @ ''lodash'' @ [q2] @ [],
              caps @ name # [])"
    for seen mark caps
    by (rule accept_group[OF e5]) (use assms in \<open>simp_all add: cf\<close>)
  have e7: "rx_match [Plus [Space], Open, Plus [Word], Close, Plus [Space], Lit ''from'',
        Plus [Space], One quote, Lit ''lodash'', One quote] prev seen mark caps
        (ws1 @ name @ ws2 @ ''from'' @ ws3 @ [q1] @ ''lodash'' @ [q2] @ rest)
      = Some (rev seen @ ws1 @ name @ ws2 @ ''from'' @ ws3 @ [q1] @ ''lodash'' @ [q2] @ [],
              caps @ name # [])"
    for seen mark caps
    by (rule accept_Plus[OF e6]) (use assms in \<open>simp_all add: cf\<close>)
  have "rx_match defaultImportRegex prev [] 0 []
        (''import'' @ ws1 @ name @ ws2 @ ''from'' @ ws3 @ [q1] @ ''lodash'' @ [q2] @ rest)
      = Some (rev [] @ ''import'' @ ws1 @ name @ ws2 @ ''from'' @ ws3 @ [q1] @ ''lodash''
                @ [q2] @ [],
              [] @ name # [])"
    unfolding defaultImportRegex_def by (rule accept_Lit[OF e7])
  then show ?thesis by (simp add: rx_match_here_def)
qed

lemma scan_at_match:
  assumes "rx_match_here rx prev (m @ rest) = Some (m, caps)" "m \<noteq> []"
  shows "scan rx prev (m @ rest) = Hit m caps # scan rx (Some (last m)) rest"
proof -
  obtain c cs where e: "m @ rest = c # cs" using assms(2) by (cases m) auto
  have "scan rx prev (c # cs) = Hit m caps # scan rx (Some (last m)) (drop (length m) (c # cs))"
    using assms e by simp
  then show ?thesis unfolding e[symmetric] by simp
qed

lemma run_callbacks_in_place:
  assumes "\<And>m caps. \<exists>w r. f m caps = (w, Inr r)"
  shows "run_callbacks f segs
           = (concat (map (written f) segs), Inr (concat (map (replaced f) segs)))"
proof (induction segs)
  case Nil
  then show ?case by simp
next
  case (Cons seg segs)
  show ?case
  proof (cases seg)
    case (Skip c)
    then show ?thesis using Cons by simp
  next
    case (Hit m caps)
    obtain w r where "f m caps = (w, Inr r)" using assms by blast
    then show ?thesis using Cons Hit by simp
  qed
qed

section \<open>Lists of plain tokens\<close>

lemma trim_word:
  assumes "list_all is_space_char p" "list_all is_space_char t" "word_run x"
  shows "trim (p @ x @ t) = x"
proof -
  obtain c x' where x: "x = c # x'" using assms(3) by (cases x) (auto simp: word_run_def)
  have c: "\<not> is_space_char c" using assms(3) x word_not_space by (auto simp: word_run_def)
  have l: "\<not> is_space_char (last x)"
    using assms(3) word_not_space[of "last x"] last_in_set[of x]
    by (auto simp: word_run_def list_all_iff)
  have "dropWhile is_space_char (p @ x @ t) = x @ t"
    using assms(1) c x by (simp add: dropWhile_append list_all_iff)
  moreover have "dropWhile is_space_char (rev (x @ t)) = rev x"
  proof -
    have e: "x = butlast x @ [last x]" using x by simp
    have rx: "rev x = last x # rev (butlast x)"
      by (subst e) simp
    have "dropWhile is_space_char (rev x) = rev x"
      unfolding rx using l by simp
    then show ?thesis using assms(2) by (simp add: dropWhile_append list_all_iff)
  qed
  ultimately show ?thesis by (simp add: trim_def)
qed

lemma no_comma_word: "word_run x \<Longrightarrow> CHR '','' \<notin> set x"
  by (auto simp: word_run_def list_all_iff is_word_char_def)

lemma no_comma_space: "list_all is_space_char p \<Longrightarrow> CHR '','' \<notin> set p"
  by (auto simp: list_all_iff is_space_char_def)

lemma no_space_word: "word_run x \<Longrightarrow> CHR '' '' \<notin> set x"
  using word_not_space is_space_char_space by (auto simp: word_run_def list_all_iff)

lemma namedImportNames_join:
  assumes "xs \<noteq> []" "\<forall>x \<in> set xs. word_run x"
    "list_all is_space_char p" "list_all is_space_char t"
  shows "filter (\<lambda>param. param \<noteq> [])
           (map trim (split_from '','' [] (p @ join_str xs '', '' @ t))) = xs"
  using assms
proof (induction xs "'', ''" arbitrary: p rule: join_str.induct)
  case 1
  then show ?case by simp
next
  case (2 x)
  then have w: "word_run x" by simp
  have "CHR '','' \<notin> set (p @ x @ t)"
    using w 2 assms(4) no_comma_word no_comma_space by auto
  then have "split_from '','' [] (p @ x @ t) = [p @ x @ t]"
    by (simp add: split_from_no_sep includes_str_single)
  moreover have "trim (p @ x @ t) = x" using trim_word 2 assms(4) w by blast
  moreover have "x \<noteq> []" using w by (simp add: word_run_def)
  ultimately show ?case by simp
next
  case (3 x y ys)
  then have w: "word_run x" by simp
  have nc: "CHR '','' \<notin> set (p @ x)" using w 3 no_comma_word no_comma_space by auto
  have "p @ join_str (x # y # ys) '', '' @ t
      = (p @ x) @ '','' @ ('' '' @ join_str (y # ys) '', '' @ t)" by simp
  then have "split_from '','' [] (p @ join_str (x # y # ys) '', '' @ t)
      = (p @ x) # split_from '','' [] ('' '' @ join_str (y # ys) '', '' @ t)"
    using split_from_first[of "'',''" "p @ x" "[]" "'' '' @ join_str (y # ys) '', '' @ t"] nc
    by (simp add: includes_str_single)
  moreover have "trim (p @ x) = x"
    using trim_word[of p "[]" x] 3 w by simp
  moreover have "x \<noteq> []" using w by (simp add: word_run_def)
  moreover have "filter (\<lambda>param. param \<noteq> [])
           (map trim (split_from '','' [] ('' '' @ join_str (y # ys) '', '' @ t))) = y # ys"
  proof (rule "3.hyps")
    show "\<forall>x \<in> set (y # ys). word_run x" using "3.prems" by simp
    show "list_all is_space_char '' ''" using is_space_char_space by simp
  qed (use "3.prems" in simp_all)
  ultimately show ?case by simp
qed


lemma namedImportNames_word_list:
  assumes "xs \<noteq> []" "\<forall>x \<in> set xs. word_run x"
    "list_all is_space_char p" "list_all is_space_char t"
  shows "namedImportNames (p @ join_str xs '', '' @ t) = xs"
  using namedImportNames_join[OF assms] by (simp add: namedImportNames_def split_str_def)

lemma parse_word: "word_run x \<Longrightarrow> parseNamedImport x = Inr (plain x)"
proof -
  assume w: "word_run x"
  have "\<not> sublist '' as '' x"
  proof
    assume "sublist '' as '' x"
    then have "set '' as '' \<subseteq> set x" by (rule set_mono_sublist)
    then show False using no_space_word[OF w] by simp
  qed
  then show ?thesis using w parse_no_sep[of x]
    by (simp add: includes_str_sublist word_run_def plain_def)
qed

lemma map_parse_words:
  "\<forall>x \<in> set xs. word_run x \<Longrightarrow> map_parse xs = Inr (map plain xs)"
  by (induction xs) (auto simp: parse_word)

lemma render_plain: "map (renderNamedImport \<circ> plain) xs = xs"
  by (induction xs) (auto simp: renderNamedImport_def plain_def)

lemma filter_plain:
  "filter (\<lambda>n. P (actualName n)) (map plain xs) = map plain (filter P xs)"
  by (induction xs) (auto simp: plain_def)

lemma actualName_plain: "map (actualName \<circ> plain) xs = xs"
  by (induction xs) (auto simp: plain_def)

lemma map_parse_in_order:
  "map_parse ts = Inr parsed \<Longrightarrow> map Inr parsed = map parseNamedImport ts"
  by (induction ts arbitrary: parsed) (auto split: sum.splits)

lemma no_sep_before: "c \<notin> set x \<Longrightarrow> \<not> includes_str (x @ [c]) [c, d]"
  by (induction x) auto

lemma split_join:
  assumes "xs \<noteq> []" "\<forall>x \<in> set xs. CHR '','' \<notin> set x"
  shows "split_from '', '' [] (join_str xs '', '') = xs"
  using assms
proof (induction xs "'', ''" rule: join_str.induct)
  case 1
  then show ?case by simp
next
  case (2 x)
  have "\<not> sublist '', '' x"
  proof
    assume "sublist '', '' x"
    then have "set '', '' \<subseteq> set x" by (rule set_mono_sublist)
    then show False using 2 by simp
  qed
  then show ?case by (simp add: split_from_no_sep includes_str_sublist)
next
  case (3 x y ys)
  have "\<not> includes_str (x @ '','') '', ''"
    using 3 no_sep_before[of "CHR '',''" x "CHR '' ''"] by simp
  then have "split_from '', '' [] (x @ '', '' @ join_str (y # ys) '', '')
      = x # split_from '', '' [] (join_str (y # ys) '', '')"
    using split_from_first[of "'', ''" x "[]" "join_str (y # ys) '', ''"]
    by simp
  moreover have "split_from '', '' [] (join_str (y # ys) '', '') = y # ys"
    using 3 by simp
  ultimately show ?case by simp
qed

lemma namedImportsRegex_accepts:
  assumes "space_run ws1" "list_all is_space_char ws2" "raw \<noteq> []"
    "list_all named_list_char raw" "\<not> is_space_char (hd raw)" "space_run ws4" "space_run ws5"
    "is_quote q1" "is_quote q2"
  shows "rx_match_here namedImportsRegex prev
           (''import'' @ ws1 @ ''{'' @ ws2 @ raw @ ''}'' @ ws4 @ ''from'' @ ws5 @ [q1]
              @ ''lodash'' @ [q2] @ rest)
         = Some (''import'' @ ws1 @ ''{'' @ ws2 @ raw @ ''}'' @ ws4 @ ''from'' @ ws5 @ [q1]
                   @ ''lodash'' @ [q2],
                 [raw])"
proof -
  note cf = class_facts
  let ?K = "[Word, Ch CHR ''('', Ch CHR '' '', Ch CHR ''a'', Ch CHR ''s'', Ch CHR '' '', Word,
             Ch CHR '')'', Space, Ch CHR '','']"
  have nf: "\<not> in_class [Space] (CHR ''f'')" "\<not> in_class [Space] (CHR ''}'')"
    "\<not> in_class [Space] (CHR ''{'')"
    by (simp_all add: in_class_def is_space_char_def)
  have nb: "\<not> in_class ?K (CHR ''}'')"
    unfolding in_class_named_list by (simp add: named_list_char_def is_word_char_def is_space_char_def)
  have e1: "rx_match [Lit ''lodash'', One quote] prev seen mark caps (''lodash'' @ [q2] @ rest)
      = Some (rev seen @ ''lodash'' @ [q2] @ [], caps @ [])" for seen mark caps
    by (rule accept_Lit[OF accept_One[OF accept_Nil]]) (use assms in \<open>simp add: cf\<close>)
  have e2: "rx_match [One quote, Lit ''lodash'', One quote] prev seen mark caps
        ([q1] @ ''lodash'' @ [q2] @ rest)
      = Some (rev seen @ [q1] @ ''lodash'' @ [q2] @ [], caps @ [])" for seen mark caps
    by (rule accept_One[OF e1]) (use assms in \<open>simp add: cf\<close>)
  have e3: "rx_match [Plus [Space], One quote, Lit ''lodash'', One quote] prev seen mark caps
        (ws5 @ [q1] @ ''lodash'' @ [q2] @ rest)
      = Some (rev seen @ ws5 @ [q1] @ ''lodash'' @ [q2] @ [], caps @ [])" for seen mark caps
    by (rule accept_Plus[OF e2]) (use assms in \<open>simp_all add: cf\<close>)
  have e5: "rx_match [Plus [Space], Lit ''from'', Plus [Space], One quote, Lit ''lodash'',
        One quote] prev seen mark caps (ws4 @ ''from'' @ ws5 @ [q1] @ ''lodash'' @ [q2] @ rest)
      = Some (rev seen @ ws4 @ ''from'' @ ws5 @ [q1] @ ''lodash'' @ [q2] @ [], caps @ [])"
    for seen mark caps
    by (rule accept_Plus[OF accept_Lit[OF e3]]) (use assms in \<open>simp_all add: cf nf\<close>)
  have e7: "rx_match [Star [Space], Lit ''}'', Plus [Space], Lit ''from'', Plus [Space],
        One quote, Lit ''lodash'', One quote] prev seen mark caps
        ([] @ ''}'' @ ws4 @ ''from'' @ ws5 @ [q1] @ ''lodash'' @ [q2] @ rest)
      = Some (rev seen @ [] @ ''}'' @ ws4 @ ''from'' @ ws5 @ [q1] @ ''lodash'' @ [q2] @ [],
              caps @ [])"
    for seen mark caps
    by (rule accept_Star[OF accept_Lit[OF e5]]) (simp_all add: nf)
  have e8: "rx_match [Open, Plus ?K, Close, Star [Space], Lit ''}'', Plus [Space], Lit ''from'',
        Plus [Space], One quote, Lit ''lodash'', One quote] prev seen mark caps
        (raw @ [] @ ''}'' @ ws4 @ ''from'' @ ws5 @ [q1] @ ''lodash'' @ [q2] @ rest)
      = Some (rev seen @ raw @ [] @ ''}'' @ ws4 @ ''from'' @ ws5 @ [q1] @ ''lodash'' @ [q2] @ [],
              caps @ raw # [])"
    for seen mark caps
  proof (rule accept_group[OF e7])
    show "\<forall>c \<in> set raw. in_class ?K c"
      using assms(4) unfolding in_class_named_list by (simp add: list_all_iff)
    show "[] @ ''}'' @ ws4 @ ''from'' @ ws5 @ [q1] @ ''lodash'' @ [q2] @ rest = [] \<or>
      \<not> in_class ?K (hd ([] @ ''}'' @ ws4 @ ''from'' @ ws5 @ [q1] @ ''lodash'' @ [q2] @ rest))"
      using nb by simp
  qed (rule assms(3))
  have e9: "rx_match [Star [Space], Open, Plus ?K, Close, Star [Space], Lit ''}'', Plus [Space],
        Lit ''from'', Plus [Space], One quote, Lit ''lodash'', One quote] prev seen mark caps
        (ws2 @ raw @ [] @ ''}'' @ ws4 @ ''from'' @ ws5 @ [q1] @ ''lodash'' @ [q2] @ rest)
      = Some (rev seen @ ws2 @ raw @ [] @ ''}'' @ ws4 @ ''from'' @ ws5 @ [q1] @ ''lodash''
                @ [q2] @ [],
              caps @ raw # [])"
    for seen mark caps
    by (rule accept_Star[OF e8])
      (use assms in \<open>simp_all add: in_class_def list_all_iff\<close>)
  have e11: "rx_match [Plus [Space], Lit ''{'', Star [Space], Open, Plus ?K, Close, Star [Space],
        Lit ''}'', Plus [Space], Lit ''from'', Plus [Space], One quote, Lit ''lodash'',
        One quote] prev seen mark caps
        (ws1 @ ''{'' @ ws2 @ raw @ [] @ ''}'' @ ws4 @ ''from'' @ ws5 @ [q1] @ ''lodash'' @ [q2]
           @ rest)
      = Some (rev seen @ ws1 @ ''{'' @ ws2 @ raw @ [] @ ''}'' @ ws4 @ ''from'' @ ws5 @ [q1]
                @ ''lodash'' @ [q2] @ [],
              caps @ raw # [])"
    for seen mark caps
    by (rule accept_Plus[OF accept_Lit[OF e9]]) (use assms in \<open>simp_all add: cf nf\<close>)
  have "rx_match namedImportsRegex prev [] 0 []
        (''import'' @ ws1 @ ''{'' @ ws2 @ raw @ [] @ ''}'' @ ws4 @ ''from'' @ ws5 @ [q1]
           @ ''lodash'' @ [q2] @ rest)
      = Some (rev [] @ ''import'' @ ws1 @ ''{'' @ ws2 @ raw @ [] @ ''}'' @ ws4 @ ''from'' @ ws5
                @ [q1] @ ''lodash'' @ [q2] @ [],
              [] @ raw # [])"
    unfolding namedImportsRegex_def by (rule accept_Lit[OF e11])
  then show ?thesis by (simp add: rx_match_here_def)
qed

lemma namedImports_callback_words:
  assumes "xs \<noteq> []" "\<forall>x \<in> set xs. word_run x"
    "list_all is_space_char p" "list_all is_space_char t"
  shows "namedImports_callback supp m (p @ join_str xs '', '' @ t) =
     (if filter (isUnsupportedFunction supp) xs \<noteq> []
      then if filter (isSupportedFunction supp) xs = []
           then ([warnUnsupportedFunction (filter (isUnsupportedFunction supp) xs)], Inr m)
           else ([warnUnsupportedFunction (filter (isUnsupportedFunction supp) xs)],
                 Inr (''import { '' @ join_str (filter (isSupportedFunction supp) xs) '', ''
                        @ '' } from 'es-toolkit/compat';import { ''
                        @ join_str (filter (isUnsupportedFunction supp) xs) '', ''
                        @ '' } from 'lodash'' @ sq))
      else ([], Inr (''import { '' @ join_str (filter (isSupportedFunction supp) xs) '', ''
                       @ '' } from 'es-toolkit/compat'' @ sq)))"
proof -
  have n: "namedImportNames (p @ join_str xs '', '' @ t) = xs"
    using namedImportNames_word_list[OF assms] .
  have mp: "map_parse xs = Inr (map plain xs)" using map_parse_words assms(2) by blast
  show ?thesis
    unfolding namedImports_callback_def n mp
    by (simp add: Let_def filter_plain actualName_plain render_plain renderNamedImports_def)
qed

section \<open>The passes in place\<close>

text \<open>
  The callbacks never throw, so a pass returns the text of its scan with each match replaced
  by what the callback returned, and the transform returns the text of the third pass.
\<close>

lemma rewritten_simps:
  "rewritten f [] = []"
  "rewritten f (Skip c # segs) = c # rewritten f segs"
  "rewritten f (Hit m caps # segs) = replaced f (Hit m caps) @ rewritten f segs"
  "rewritten f (a @ b) = rewritten f a @ rewritten f b"
  "rewritten f (map Skip s) = s"
  by (induction s) (simp_all add: rewritten_def)

lemma warned_simps:
  "warned f [] = []"
  "warned f (Skip c # segs) = warned f segs"
  "warned f (Hit m caps # segs) = written f (Hit m caps) @ warned f segs"
  "warned f (a @ b) = warned f a @ warned f b"
  "warned f (map Skip s) = []"
  by (induction s) (simp_all add: warned_def)

lemma String_replace_in_place:
  assumes "\<And>m caps. \<exists>w r. f m caps = (w, Inr r)"
  shows "String_replace s rx lastIndex f
           = (0, warned f (scan rx None s), Inr (rewritten f (scan rx None s)))"
  using run_callbacks_in_place[OF assms, where segs="scan rx None s"]
  by (simp add: String_replace_def warned_def rewritten_def)

lemma replacers_ok:
  "\<exists>w r. defaultImport_replacer supp src m caps = (w, Inr r)"
  "\<exists>w r. namedImports_replacer supp m caps = (w, Inr r)"
  "\<exists>w r. defaultSingleImport_replacer supp m caps = (w, Inr r)"
  using defaultImport_callback_ok namedImports_callback_ok defaultSingleImport_callback_ok
  by (simp_all add: defaultImport_replacer_def namedImports_replacer_def
      defaultSingleImport_replacer_def)

lemma transform_in_place:
  assumes inc: "includes_str src ''lodash''"
  shows "snd (transform supp st src fid)
     = (warned (defaultImport_replacer supp src) (scan defaultImportRegex None src)
        @ warned (namedImports_replacer supp)
            (scan namedImportsRegex None (after_defaultImport supp src))
        @ warned (defaultSingleImport_replacer supp)
            (scan defaultSingleImportRegex None (after_namedImports supp src)),
        Inr (Some \<lparr>code = after_defaultSingleImport supp src, source_map = None\<rparr>))"
proof -
  have p1: "String_replace src defaultImportRegex li
        (\<lambda>match caps. defaultImport_callback supp src match (capture caps 0))
      = (0, warned (defaultImport_replacer supp src) (scan defaultImportRegex None src),
         Inr (after_defaultImport supp src))" for li
    using String_replace_in_place[of "defaultImport_replacer supp src" src defaultImportRegex li]
      replacers_ok(1)[of supp src]
    by (simp add: defaultImport_replacer_def after_defaultImport_def)
  have p2: "String_replace s namedImportsRegex li
        (\<lambda>match caps. namedImports_callback supp match (capture caps 0))
      = (0, warned (namedImports_replacer supp) (scan namedImportsRegex None s),
         Inr (rewritten (namedImports_replacer supp) (scan namedImportsRegex None s)))" for li s
    using String_replace_in_place[of "namedImports_replacer supp" s namedImportsRegex li]
      replacers_ok(2)[of supp]
    by (simp add: namedImports_replacer_def)
  have p3: "String_replace s defaultSingleImportRegex li
        (\<lambda>match caps. defaultSingleImport_callback supp match (capture caps 0) (capture caps 1))
      = (0, warned (defaultSingleImport_replacer supp) (scan defaultSingleImportRegex None s),
         Inr (rewritten (defaultSingleImport_replacer supp)
                (scan defaultSingleImportRegex None s)))" for li s
    using String_replace_in_place[of "defaultSingleImport_replacer supp" s
        defaultSingleImportRegex li] replacers_ok(3)[of supp]
    by (simp add: defaultSingleImport_replacer_def)
  show ?thesis
    unfolding transform_def
    by (simp only: inc p1 p2 p3 if_True Let_def prod.case sum.case snd_conv
        after_namedImports_def after_defaultSingleImport_def)
qed

lemma rewritten_unchanged:
  assumes "\<And>m caps. snd (f m caps) = Inr m"
  shows "rewritten f (scan rx prev s) = s"
proof -
  have "replaced f seg = original seg" for seg
    using assms by (cases seg) simp_all
  then have "replaced f = original" by (rule ext)
  then have "rewritten f (scan rx prev s) = concat (map original (scan rx prev s))"
    by (simp add: rewritten_def)
  then show ?thesis by (simp add: scan_covers)
qed

lemma usageRegex_accepts:
  assumes "word_run name" "word_run symb" "rest = [] \<or> \<not> is_word_char (hd rest)"
    "case prev of None \<Rightarrow> True | Some c \<Rightarrow> \<not> is_word_char c"
  shows "rx_match_here (usageRegex name) prev (name @ ''.'' @ symb @ rest)
           = Some (name @ ''.'' @ symb, [])"
proof -
  note cf = class_facts
  have e1: "rx_match [Plus [Word]] prev seen mark caps (symb @ rest)
      = Some (rev seen @ symb @ [], caps @ [])" for seen mark caps
    by (rule accept_Plus[OF accept_Nil])
      (use assms in \<open>auto simp: in_class_def word_run_def list_all_iff\<close>)
  have e2: "rx_match [Lit name, Lit ''.'', Plus [Word]] prev seen mark caps
        (name @ ''.'' @ symb @ rest)
      = Some (rev seen @ name @ ''.'' @ symb @ [], caps @ [])" for seen mark caps
    by (rule accept_Lit[OF accept_Lit[OF e1]])
  obtain c cs where n: "name = c # cs" "is_word_char c"
    using assms(1) by (cases name) (auto simp: word_run_def)
  have "at_word_boundary prev (name @ ''.'' @ symb @ rest)"
    using assms(4) n by (auto simp: at_word_boundary_def split: option.splits)
  then show ?thesis
    using e2[of "[]" 0 "[]"] by (simp add: rx_match_here_def usageRegex_def)
qed

lemma usage_at_front:
  assumes "word_run name" "word_run symb" "rest = [] \<or> \<not> is_word_char (hd rest)"
    "case prev of None \<Rightarrow> True | Some c \<Rightarrow> \<not> is_word_char c"
  shows "scan (usageRegex name) prev (name @ ''.'' @ symb @ rest)
           = Hit (name @ ''.'' @ symb) [] # scan (usageRegex name) (Some (last symb)) rest"
proof -
  have "rx_match_here (usageRegex name) prev ((name @ ''.'' @ symb) @ rest)
           = Some (name @ ''.'' @ symb, [])"
    using usageRegex_accepts[OF assms] by simp
  from scan_at_match[OF this] assms(2) show ?thesis
    by (simp add: word_run_def del: scan.simps)
qed

lemma usage_skip:
  assumes "\<not> prefix (name @ ''.'') (c # cs)"
  shows "scan (usageRegex name) prev (c # cs) = Skip c # scan (usageRegex name) (Some c) cs"
proof -
  have "rx_match [Lit name, Lit ''.'', Plus [Word]] prev [] 0 [] (c # cs) = None"
  proof (cases "prefix name (c # cs)")
    case True
    then obtain r where r: "c # cs = name @ r" by (auto simp: prefix_def)
    then have "\<not> prefix ''.'' r" using assms by (auto simp: prefix_def)
    then show ?thesis using r by simp
  next
    case False
    then show ?thesis by simp
  qed
  then have "rx_match_here (usageRegex name) prev (c # cs) = None"
    by (simp add: rx_match_here_def usageRegex_def)
  then show ?thesis by simp
qed

lemma named_list_char_join:
  assumes "\<forall>x \<in> set xs. word_run x" "list_all is_space_char t"
  shows "list_all named_list_char (join_str xs '', '' @ t)"
  using assms
proof (induction xs "'', ''" rule: join_str.induct)
  case 1
  then show ?case
    by (simp add: list_all_iff named_list_char_def)
next
  case (2 x)
  then show ?case
    by (auto simp: list_all_iff named_list_char_def word_run_def)
next
  case (3 x y ys)
  have "list_all named_list_char x"
    using 3(2) by (auto simp: list_all_iff named_list_char_def word_run_def)
  moreover have "list_all named_list_char '', ''"
    by (simp add: named_list_char_def is_space_char_space)
  moreover have "list_all named_list_char (join_str (y # ys) '', '' @ t)"
    using 3 by simp
  ultimately show ?case by simp
qed

lemma hd_join_word:
  assumes "xs \<noteq> []" "\<forall>x \<in> set xs. word_run x"
  shows "join_str xs '', '' @ t \<noteq> [] \<and> \<not> is_space_char (hd (join_str xs '', '' @ t))"
proof -
  obtain x ys where xs: "xs = x # ys" using assms(1) by (cases xs) auto
  then have w: "word_run x" using assms(2) by simp
  then obtain c cs where x: "x = c # cs" "is_word_char c"
    by (cases x) (auto simp: word_run_def)
  have "hd (join_str xs '', '' @ t) = c"
    using xs x by (cases ys) auto
  moreover have "join_str xs '', '' @ t \<noteq> []"
    using xs x by (cases ys) auto
  ultimately show ?thesis using x word_not_space by simp
qed

lemma no_hits:
  "hits segs = [] \<Longrightarrow> rewritten f segs = concat (map original segs) \<and> warned f segs = []"
  by (induction segs rule: hits.induct) (simp_all add: rewritten_def warned_def)

lemma pass_without_match:
  assumes "hits (scan rx prev s) = []"
  shows "rewritten f (scan rx prev s) = s" "warned f (scan rx prev s) = []"
  using no_hits[OF assms, of f] by (simp_all add: scan_covers)

lemma includes_lodash: "includes_str (a @ ''lodash'' @ b) ''lodash''"
  unfolding includes_str_sublist by (rule sublist_appendI)

lemma pass_at_match:
  assumes "f m caps = (w, Inr r)"
  shows "rewritten f (Hit m caps # segs) = r @ rewritten f segs"
    "warned f (Hit m caps # segs) = w @ warned f segs"
  using assms by (simp_all add: rewritten_simps warned_simps)

lemma single_function_import_at_front:
  assumes a: "space_run ws1 \<and> word_run name \<and> space_run ws2 \<and> space_run ws3 \<and> is_quote q1
        \<and> word_run symb \<and> (ext = [] \<or> ext = ''.js'') \<and> is_quote q2"
  shows "let stmt = ''import'' @ ws1 @ name @ ws2 @ ''from'' @ ws3 @ [q1] @ ''lodash/'' @ symb
                      @ ext @ [q2]
         in hits (scan defaultImportRegex None (stmt @ rest)) = []
            \<and> hits (scan namedImportsRegex None (stmt @ rest)) = [] \<longrightarrow>
            snd (transform supp st (stmt @ rest) fid)
              = ((if isSupportedFunction supp symb then []
                  else [''Unsupported lodash function: '' @ symb])
                 @ warned (defaultSingleImport_replacer supp)
                     (scan defaultSingleImportRegex (Some q2) rest),
                 Inr (Some \<lparr>code =
                        (if isSupportedFunction supp symb
                         then ''import { '' @ (if name = symb then symb else symb @ '' as '' @ name)
                                @ '' } from 'es-toolkit/compat'' @ sq
                         else stmt)
                        @ rewritten (defaultSingleImport_replacer supp)
                            (scan defaultSingleImportRegex (Some q2) rest),
                      source_map = None\<rparr>))"
proof -
  let ?stmt = "''import'' @ ws1 @ name @ ws2 @ ''from'' @ ws3 @ [q1] @ ''lodash/'' @ symb
                   @ ext @ [q2]"
  let ?f3 = "defaultSingleImport_replacer supp"
  have inc: "includes_str (?stmt @ rest) ''lodash''"
    using includes_lodash[of "''import'' @ ws1 @ name @ ws2 @ ''from'' @ ws3 @ [q1]"
        "''/'' @ symb @ ext @ [q2] @ rest"] by simp
  from a have "rx_match_here defaultSingleImportRegex None (?stmt @ rest)
         = Some (?stmt, [name, symb])"
    using defaultSingleImportRegex_accepts[of ws1 name ws2 ws3 q1 symb ext q2 None rest] by simp
  from scan_at_match[OF this]
  have sc: "scan defaultSingleImportRegex None (?stmt @ rest)
         = Hit ?stmt [name, symb] # scan defaultSingleImportRegex (Some q2) rest"
    by (simp del: scan.simps)
  have r3: "rewritten ?f3 (scan defaultSingleImportRegex None (?stmt @ rest))
      = (if isSupportedFunction supp symb
         then ''import { '' @ (if name = symb then symb else symb @ '' as '' @ name)
                @ '' } from 'es-toolkit/compat'' @ sq
         else ?stmt)
        @ rewritten ?f3 (scan defaultSingleImportRegex (Some q2) rest)"
    unfolding sc
    by (simp add: rewritten_simps defaultSingleImport_replacer_def capture_def
        defaultSingleImport_callback_def isUnsupportedFunction_def del: scan.simps)
  have w3: "warned ?f3 (scan defaultSingleImportRegex None (?stmt @ rest))
      = (if isSupportedFunction supp symb then []
         else [''Unsupported lodash function: '' @ symb])
        @ warned ?f3 (scan defaultSingleImportRegex (Some q2) rest)"
    unfolding sc
    by (simp add: warned_simps defaultSingleImport_replacer_def capture_def
        defaultSingleImport_callback_def isUnsupportedFunction_def warnUnsupportedFunction_def
        del: scan.simps)
  {
    assume h: "hits (scan defaultImportRegex None (?stmt @ rest)) = []"
      "hits (scan namedImportsRegex None (?stmt @ rest)) = []"
    have a1: "after_defaultImport supp (?stmt @ rest) = ?stmt @ rest"
      unfolding after_defaultImport_def by (rule pass_without_match(1)[OF h(1)])
    have w1: "warned (defaultImport_replacer supp (?stmt @ rest))
        (scan defaultImportRegex None (?stmt @ rest)) = []"
      by (rule pass_without_match(2)[OF h(1)])
    have a2: "after_namedImports supp (?stmt @ rest) = ?stmt @ rest"
      unfolding after_namedImports_def a1 by (rule pass_without_match(1)[OF h(2)])
    have w2: "warned (namedImports_replacer supp)
        (scan namedImportsRegex None (after_defaultImport supp (?stmt @ rest))) = []"
      unfolding a1 by (rule pass_without_match(2)[OF h(2)])
    have "snd (transform supp st (?stmt @ rest) fid)
        = (warned ?f3 (scan defaultSingleImportRegex None (?stmt @ rest)),
           Inr (Some \<lparr>code = rewritten ?f3 (scan defaultSingleImportRegex None (?stmt @ rest)),
                       source_map = None\<rparr>))"
      unfolding transform_in_place[OF inc] after_defaultSingleImport_def w1 w2 a2 by simp
  }
  then show ?thesis unfolding Let_def r3[symmetric] w3[symmetric] by blast
qed

lemma named_list_at_front:
  assumes a: "(\<forall>x \<in> set xs. word_run x) \<and> list_all is_space_char t
        \<and> filter (isSupportedFunction supp) xs \<noteq> []
        \<and> filter (isUnsupportedFunction supp) xs \<noteq> []
        \<and> space_run ws1 \<and> list_all is_space_char ws2 \<and> space_run ws4 \<and> space_run ws5
        \<and> is_quote q1 \<and> is_quote q2"
  shows "let stmt = ''import'' @ ws1 @ ''{'' @ ws2 @ join_str xs '', '' @ t @ ''}'' @ ws4
                      @ ''from'' @ ws5 @ [q1] @ ''lodash'' @ [q2];
             two = ''import { '' @ join_str (filter (isSupportedFunction supp) xs) '', ''
                     @ '' } from 'es-toolkit/compat';import { ''
                     @ join_str (filter (isUnsupportedFunction supp) xs) '', ''
                     @ '' } from 'lodash'' @ sq;
             behind = rewritten (namedImports_replacer supp) (scan namedImportsRegex (Some q2) rest)
         in hits (scan defaultImportRegex None (stmt @ rest)) = []
            \<and> hits (scan defaultSingleImportRegex None (two @ behind)) = [] \<longrightarrow>
            snd (transform supp st (stmt @ rest) fid)
              = ((''Unsupported lodash function''
                    @ (if length (filter (isUnsupportedFunction supp) xs) > 1 then ''s'' else [])
                    @ '': '' @ join_str (filter (isUnsupportedFunction supp) xs) '', '')
                 # warned (namedImports_replacer supp) (scan namedImportsRegex (Some q2) rest),
                 Inr (Some \<lparr>code = two @ behind, source_map = None\<rparr>))"
proof -
  from a have ne: "xs \<noteq> []" by auto
  let ?raw = "join_str xs '', '' @ t"
  let ?stmt = "''import'' @ ws1 @ ''{'' @ ws2 @ join_str xs '', '' @ t @ ''}'' @ ws4
                 @ ''from'' @ ws5 @ [q1] @ ''lodash'' @ [q2]"
  let ?two = "''import { '' @ join_str (filter (isSupportedFunction supp) xs) '', ''
                     @ '' } from 'es-toolkit/compat';import { ''
                     @ join_str (filter (isUnsupportedFunction supp) xs) '', ''
                     @ '' } from 'lodash'' @ sq"
  let ?f2 = "namedImports_replacer supp"
  let ?behind = "rewritten ?f2 (scan namedImportsRegex (Some q2) rest)"
  let ?warning = "''Unsupported lodash function''
                    @ (if length (filter (isUnsupportedFunction supp) xs) > 1 then ''s'' else [])
                    @ '': '' @ join_str (filter (isUnsupportedFunction supp) xs) '', ''"
  have inc: "includes_str (?stmt @ rest) ''lodash''"
    using includes_lodash[of "''import'' @ ws1 @ ''{'' @ ws2 @ ?raw @ ''}'' @ ws4 @ ''from''
        @ ws5 @ [q1]" "[q2] @ rest"] by simp
  have r: "?raw \<noteq> []" "\<not> is_space_char (hd ?raw)" "list_all named_list_char ?raw"
    using hd_join_word[OF ne, of t] named_list_char_join[of xs t] a by auto
  have "rx_match_here namedImportsRegex None (?stmt @ rest) = Some (?stmt, [?raw])"
    using namedImportsRegex_accepts[of ws1 ws2 ?raw ws4 ws5 q1 q2 None rest] r a by simp
  from scan_at_match[OF this]
  have sc: "scan namedImportsRegex None (?stmt @ rest)
         = Hit ?stmt [?raw] # scan namedImportsRegex (Some q2) rest"
    by (simp del: scan.simps)
  have cb: "namedImports_callback supp m ?raw = ([?warning], Inr ?two)" for m
    using namedImports_callback_words[OF ne, of "[]" t supp m] a
    by (simp add: warnUnsupportedFunction_def)
  have fm: "?f2 ?stmt [?raw] = ([?warning], Inr ?two)"
    unfolding namedImports_replacer_def using cb by (simp add: capture_def)
  have r2: "rewritten ?f2 (scan namedImportsRegex None (?stmt @ rest)) = ?two @ ?behind"
    unfolding sc by (rule pass_at_match(1)[of ?f2 ?stmt "[?raw]", OF fm])
  have w2: "warned ?f2 (scan namedImportsRegex None (?stmt @ rest))
      = ?warning # warned ?f2 (scan namedImportsRegex (Some q2) rest)"
    unfolding sc using pass_at_match(2)[of ?f2 ?stmt "[?raw]", OF fm] by simp
  {
    assume h: "hits (scan defaultImportRegex None (?stmt @ rest)) = []"
      "hits (scan defaultSingleImportRegex None (?two @ ?behind)) = []"
    have a1: "after_defaultImport supp (?stmt @ rest) = ?stmt @ rest"
      unfolding after_defaultImport_def by (rule pass_without_match(1)[OF h(1)])
    have w1: "warned (defaultImport_replacer supp (?stmt @ rest))
        (scan defaultImportRegex None (?stmt @ rest)) = []"
      by (rule pass_without_match(2)[OF h(1)])
    have a2: "after_namedImports supp (?stmt @ rest) = ?two @ ?behind"
      unfolding after_namedImports_def a1 by (rule r2)
    have a3: "after_defaultSingleImport supp (?stmt @ rest) = ?two @ ?behind"
      unfolding after_defaultSingleImport_def a2 by (rule pass_without_match(1)[OF h(2)])
    have w3: "warned (defaultSingleImport_replacer supp)
        (scan defaultSingleImportRegex None (after_namedImports supp (?stmt @ rest))) = []"
      unfolding a2 by (rule pass_without_match(2)[OF h(2)])
    have "snd (transform supp st (?stmt @ rest) fid)
        = (?warning # warned ?f2 (scan namedImportsRegex (Some q2) rest),
           Inr (Some \<lparr>code = ?two @ ?behind, source_map = None\<rparr>))"
      unfolding transform_in_place[OF inc] a1 w1 w2 w3 a3 by simp
  }
  then show ?thesis unfolding Let_def by blast
qed

lemma namespace_import_at_front:
  assumes a: "space_run ws1 \<and> word_run name \<and> space_run ws2 \<and> space_run ws3 \<and> is_quote q1
        \<and> is_quote q2"
  shows "let stmt = ''import'' @ ws1 @ name @ ws2 @ ''from'' @ ws3 @ [q1] @ ''lodash'' @ [q2];
             text = stmt @ rest;
             usages = String_match text (usageRegex name);
             unsupportedFunctions = filter (isUnsupportedFunction supp) (map usedFunction usages);
             behind = rewritten (defaultImport_replacer supp text)
                        (scan defaultImportRegex (Some q2) rest)
         in (usages = [] \<or> unsupportedFunctions \<noteq> [])
            \<and> hits (scan namedImportsRegex None (stmt @ behind)) = []
            \<and> hits (scan defaultSingleImportRegex None (stmt @ behind)) = [] \<longrightarrow>
            snd (transform supp st text fid)
              = ((if usages = [] then []
                  else [''Unsupported lodash function''
                          @ (if length unsupportedFunctions > 1 then ''s'' else [])
                          @ '': '' @ join_str unsupportedFunctions '', ''])
                 @ warned (defaultImport_replacer supp text)
                     (scan defaultImportRegex (Some q2) rest),
                 Inr (Some \<lparr>code = stmt @ behind, source_map = None\<rparr>))"
proof -
  let ?stmt = "''import'' @ ws1 @ name @ ws2 @ ''from'' @ ws3 @ [q1] @ ''lodash'' @ [q2]"
  let ?text = "?stmt @ rest"
  let ?usages = "String_match ?text (usageRegex name)"
  let ?us = "filter (isUnsupportedFunction supp) (map usedFunction ?usages)"
  let ?f1 = "defaultImport_replacer supp ?text"
  let ?behind = "rewritten ?f1 (scan defaultImportRegex (Some q2) rest)"
  let ?w = "if ?usages = [] then []
            else [''Unsupported lodash function'' @ (if length ?us > 1 then ''s'' else [])
                    @ '': '' @ join_str ?us '', '']"
  have inc: "includes_str ?text ''lodash''"
    using includes_lodash[of "''import'' @ ws1 @ name @ ws2 @ ''from'' @ ws3 @ [q1]"
        "[q2] @ rest"] by simp
  from a have "rx_match_here defaultImportRegex None (?stmt @ rest) = Some (?stmt, [name])"
    using defaultImportRegex_accepts[of ws1 name ws2 ws3 q1 q2 None rest] by simp
  from scan_at_match[OF this]
  have sc: "scan defaultImportRegex None ?text
      = Hit ?stmt [name] # scan defaultImportRegex (Some q2) rest"
    by (simp del: scan.simps)
  {
    assume u: "?usages = [] \<or> ?us \<noteq> []"
      and h: "hits (scan namedImportsRegex None (?stmt @ ?behind)) = []"
        "hits (scan defaultSingleImportRegex None (?stmt @ ?behind)) = []"
    have cb: "defaultImport_callback supp ?text m name = (?w, Inr m)" for m
      using u by (auto simp: defaultImport_callback_def Let_def warnUnsupportedFunction_def)
    have fm: "?f1 ?stmt [name] = (?w, Inr ?stmt)"
      unfolding defaultImport_replacer_def using cb by (simp add: capture_def)
    have a1: "after_defaultImport supp ?text = ?stmt @ ?behind"
      unfolding after_defaultImport_def sc
      by (rule pass_at_match(1)[of ?f1 ?stmt "[name]", OF fm])
    have w1: "warned ?f1 (scan defaultImportRegex None ?text)
        = ?w @ warned ?f1 (scan defaultImportRegex (Some q2) rest)"
      unfolding sc by (rule pass_at_match(2)[of ?f1 ?stmt "[name]", OF fm])
    have a2: "after_namedImports supp ?text = ?stmt @ ?behind"
      unfolding after_namedImports_def a1 by (rule pass_without_match(1)[OF h(1)])
    have w2: "warned (namedImports_replacer supp)
        (scan namedImportsRegex None (after_defaultImport supp ?text)) = []"
      unfolding a1 by (rule pass_without_match(2)[OF h(1)])
    have a3: "after_defaultSingleImport supp ?text = ?stmt @ ?behind"
      unfolding after_defaultSingleImport_def a2 by (rule pass_without_match(1)[OF h(2)])
    have w3: "warned (defaultSingleImport_replacer supp)
        (scan defaultSingleImportRegex None (after_namedImports supp ?text)) = []"
      unfolding a2 by (rule pass_without_match(2)[OF h(2)])
    have "snd (transform supp st ?text fid)
        = (?w @ warned ?f1 (scan defaultImportRegex (Some q2) rest),
           Inr (Some \<lparr>code = ?stmt @ ?behind, source_map = None\<rparr>))"
      unfolding transform_in_place[OF inc] w1 w2 w3 a3 by simp
  }
  then show ?thesis unfolding Let_def by blast
qed

section \<open>Claims\<close>

text \<open>
  C10. For every input the transform never raises the ``Invalid named import'' error.
  The named-list callback trims each comma-separated token and drops the empty ones, so
  every token handed to the parser is non-empty and does not begin with a space (nor with
  any white space); the parser accepts each of them, the callback returns, and so does
  the transform, whatever the source text, the supported set and the state of the
  expression objects.
\<close>

theorem transform_never_throws:
  "(\<forall>t \<in> set (namedImportNames raw).
       t \<noteq> [] \<and> hd t \<noteq> CHR '' '' \<and> \<not> is_space_char (hd t)
       \<and> (\<exists>n. parseNamedImport t = Inr n))
   \<and> (\<exists>ns. map_parse (namedImportNames raw) = Inr ns)
   \<and> (\<exists>w r. namedImports_callback supp m raw = (w, Inr r))
   \<and> (\<exists>w r. snd (transform supp st src fid) = (w, Inr r))"
proof (intro conjI ballI)
  fix t assume t: "t \<in> set (namedImportNames raw)"
  then show "t \<noteq> []" and sp: "\<not> is_space_char (hd t)"
    using namedImportNames_tokens by blast+
  then show "hd t \<noteq> CHR '' ''" using is_space_char_space by metis
  from t show "\<exists>n. parseNamedImport t = Inr n"
    using namedImportNames_tokens parse_ok by blast
next
  show "\<exists>ns. map_parse (namedImportNames raw) = Inr ns"
    by (rule map_parse_namedImportNames)
next
  show "\<exists>w r. namedImports_callback supp m raw = (w, Inr r)"
    by (rule namedImports_callback_ok)
next
  show "\<exists>w r. snd (transform supp st src fid) = (w, Inr r)"
  proof (cases "includes_str src ''lodash''")
    case True
    from transform_ok[OF True, of supp st fid] show ?thesis by auto
  next
    case False
    then show ?thesis by (simp add: transform_def)
  qed
qed

theorem transform_never_throws_witness:
  "''every'' \<in> set (namedImportNames ''isEqual, every '')
   \<and> ''every'' \<noteq> [] \<and> hd ''every'' \<noteq> CHR '' ''
   \<and> (\<exists>n. parseNamedImport ''every'' = Inr n)"
proof -
  have mem: "''every'' \<in> set (namedImportNames ''isEqual, every '')"
    by code_simp
  from transform_never_throws[of "''isEqual, every ''"] mem show ?thesis
    by blast
qed

text \<open>
  C3. For every input string the transform returns the ``no transformation'' signal
  (\<open>undefined\<close>, here \<open>None\<close>) exactly when the library name \<open>lodash\<close> does not occur in the
  input as a substring, and then it writes no warning and does no work. Otherwise it
  returns a result made of the rewritten text and a null source map: the text is the input
  after the three passes in turn, each pass putting what its callback returns in the place
  of every match of its expression and keeping every other code unit, and the warnings are
  those the callbacks wrote, pass by pass and match by match. A pass whose callback returns
  each match as it is gives the text back. For the two lines
  \<open>import { isEqual } from 'lodash';\<close> and \<open>import m from 'lodash/map.js';\<close> (the second
  with double quotes), \<open>isEqual\<close> and \<open>map\<close> supported, the result is the two rewritten
  imports on their two lines, and no warning.
\<close>

theorem transform_unchanged_iff_no_lodash:
  "(snd (snd (transform supp st src fid)) = Inr None \<longleftrightarrow> \<not> sublist ''lodash'' src)
   \<and> (\<not> sublist ''lodash'' src \<longrightarrow> transform supp st src fid = (st, [], Inr None))
   \<and> (sublist ''lodash'' src \<longrightarrow>
        snd (transform supp st src fid)
          = (warned (defaultImport_replacer supp src) (scan defaultImportRegex None src)
             @ warned (namedImports_replacer supp)
                 (scan namedImportsRegex None (after_defaultImport supp src))
             @ warned (defaultSingleImport_replacer supp)
                 (scan defaultSingleImportRegex None (after_namedImports supp src)),
             Inr (Some \<lparr>code = after_defaultSingleImport supp src, source_map = None\<rparr>)))
   \<and> ((\<forall>m caps. snd (f m caps) = Inr m) \<longrightarrow> rewritten f (scan rx prev s) = s)
   \<and> (''isEqual'' \<in> set supp \<and> ''map'' \<in> set supp \<longrightarrow>
        snd (transform supp st
               ''import { isEqual } from 'lodash';\<newline>import m from \"lodash/map.js\";'' fid)
          = ([], Inr (Some \<lparr>code = ''import { isEqual } from 'es-toolkit/compat';\<newline>import { map as m } from 'es-toolkit/compat';'',
                            source_map = None\<rparr>)))"
proof (intro conjI impI)
  show "snd (snd (transform supp st src fid)) = Inr None \<longleftrightarrow> \<not> sublist ''lodash'' src"
  proof (cases "includes_str src ''lodash''")
    case True
    from transform_ok[OF True, of supp st fid] obtain w c where
      "snd (transform supp st src fid) = (w, Inr (Some \<lparr>code = c, source_map = None\<rparr>))"
      by auto
    with True show ?thesis by (auto simp: includes_str_sublist)
  next
    case False
    then have "transform supp st src fid = (st, [], Inr None)"
      by (simp add: transform_def)
    with False show ?thesis by (simp add: includes_str_sublist)
  qed
next
  assume "\<not> sublist ''lodash'' src"
  then show "transform supp st src fid = (st, [], Inr None)"
    by (simp add: transform_def includes_str_sublist)
next
  assume "sublist ''lodash'' src"
  then have "includes_str src ''lodash''" by (simp add: includes_str_sublist)
  from transform_in_place[OF this, of supp st fid]
  show "snd (transform supp st src fid)
          = (warned (defaultImport_replacer supp src) (scan defaultImportRegex None src)
             @ warned (namedImports_replacer supp)
                 (scan namedImportsRegex None (after_defaultImport supp src))
             @ warned (defaultSingleImport_replacer supp)
                 (scan defaultSingleImportRegex None (after_namedImports supp src)),
             Inr (Some \<lparr>code = after_defaultSingleImport supp src, source_map = None\<rparr>))" .
next
  assume "\<forall>m caps. snd (f m caps) = Inr m"
  then show "rewritten f (scan rx prev s) = s"
    using rewritten_unchanged[of f rx prev s] by blast
next
  assume sup: "''isEqual'' \<in> set supp \<and> ''map'' \<in> set supp"
  let ?src = "''import { isEqual } from 'lodash';\<newline>import m from \"lodash/map.js\";''"
  let ?mid = "''import { isEqual } from 'es-toolkit/compat';\<newline>import m from \"lodash/map.js\";''"
  let ?out = "''import { isEqual } from 'es-toolkit/compat';\<newline>import { map as m } from 'es-toolkit/compat';''"
  have inc: "includes_str ?src ''lodash''" by code_simp
  have s1: "scan defaultImportRegex None ?src = map Skip ?src" by code_simp
  have s2: "scan namedImportsRegex None ?src
      = Hit (''import { isEqual } from 'lodash'' @ sq) [''isEqual '']
          # map Skip '';\<newline>import m from \"lodash/map.js\";''"
    by code_simp
  have prs: "map_parse (namedImportNames ''isEqual '')
      = Inr [\<lparr>actualName = ''isEqual'', customName = ''isEqual''\<rparr>]"
    by code_simp
  have cb2: "namedImports_callback supp m ''isEqual ''
      = ([], Inr (''import { isEqual } from 'es-toolkit/compat'' @ sq))" for m
    unfolding namedImports_callback_def prs using sup
    by (simp add: isUnsupportedFunction_def isSupportedFunction_def
        renderNamedImports_def renderNamedImport_def)
  have s3: "scan defaultSingleImportRegex None ?mid
      = map Skip ''import { isEqual } from 'es-toolkit/compat';\<newline>''
          @ Hit ''import m from \"lodash/map.js\"'' [''m'', ''map'']
          # map Skip '';''"
    by code_simp
  have a1: "after_defaultImport supp ?src = ?src"
    unfolding after_defaultImport_def s1 by (simp only: rewritten_simps)
  have w1: "warned (defaultImport_replacer supp ?src) (scan defaultImportRegex None ?src) = []"
    unfolding s1 by (simp only: warned_simps)
  have a2: "after_namedImports supp ?src = ?mid"
    unfolding after_namedImports_def a1 s2
    by (simp add: rewritten_simps namedImports_replacer_def capture_def cb2[simplified]
        del: scan.simps)
  have w2: "warned (namedImports_replacer supp)
      (scan namedImportsRegex None (after_defaultImport supp ?src)) = []"
    unfolding a1 s2
    by (simp add: warned_simps namedImports_replacer_def capture_def cb2[simplified]
        del: scan.simps)
  have a3: "after_defaultSingleImport supp ?src = ?out"
    unfolding after_defaultSingleImport_def a2 s3 using sup
    by (simp add: rewritten_simps defaultSingleImport_replacer_def capture_def
        defaultSingleImport_callback_def isUnsupportedFunction_def isSupportedFunction_def
        del: scan.simps)
  have w3: "warned (defaultSingleImport_replacer supp)
      (scan defaultSingleImportRegex None (after_namedImports supp ?src)) = []"
    unfolding a2 s3 using sup
    by (simp add: warned_simps defaultSingleImport_replacer_def capture_def
        defaultSingleImport_callback_def isUnsupportedFunction_def isSupportedFunction_def
        del: scan.simps)
  show "snd (transform supp st ?src fid) = ([], Inr (Some \<lparr>code = ?out, source_map = None\<rparr>))"
    unfolding transform_in_place[OF inc] w1 w2 w3 a3 by simp
qed

theorem transform_unchanged_iff_no_lodash_witness:
  "\<not> sublist ''lodash'' ''const x = 1;''
   \<and> transform [] \<lparr>defaultImport_lastIndex = 3, namedImports_lastIndex = 0,
                     defaultSingleImport_lastIndex = 7\<rparr> ''const x = 1;'' ''a.ts''
       = (\<lparr>defaultImport_lastIndex = 3, namedImports_lastIndex = 0,
             defaultSingleImport_lastIndex = 7\<rparr>, [], Inr None)
   \<and> sublist ''lodash''
        ''import { isEqual } from 'lodash';\<newline>import m from \"lodash/map.js\";''
   \<and> snd (transform [''isEqual'', ''map'']
             \<lparr>defaultImport_lastIndex = 3, namedImports_lastIndex = 0,
              defaultSingleImport_lastIndex = 7\<rparr>
             ''import { isEqual } from 'lodash';\<newline>import m from \"lodash/map.js\";''
             ''a.ts'')
       = ([], Inr (Some \<lparr>code = ''import { isEqual } from 'es-toolkit/compat';\<newline>import { map as m } from 'es-toolkit/compat';'',
                         source_map = None\<rparr>))
   \<and> after_defaultSingleImport [''isEqual'', ''map'']
        ''import { isEqual } from 'lodash';\<newline>import m from \"lodash/map.js\";''
       = ''import { isEqual } from 'es-toolkit/compat';\<newline>import { map as m } from 'es-toolkit/compat';''
   \<and> rewritten (\<lambda>match caps. ([], Inr match))
         (scan defaultImportRegex None ''import _ from \"lodash\";'')
       = ''import _ from \"lodash\";''"
proof -
  let ?st = "\<lparr>defaultImport_lastIndex = 3, namedImports_lastIndex = 0,
              defaultSingleImport_lastIndex = 7\<rparr>"
  let ?two = "''import { isEqual } from 'lodash';\<newline>import m from \"lodash/map.js\";''"
  let ?out = "''import { isEqual } from 'es-toolkit/compat';\<newline>import { map as m } from 'es-toolkit/compat';''"
  have a: "\<not> sublist ''lodash'' ''const x = 1;''"
    unfolding includes_str_sublist[symmetric] by code_simp
  have b: "sublist ''lodash'' ?two"
    unfolding includes_str_sublist[symmetric] by code_simp
  note T0 = transform_unchanged_iff_no_lodash[where src="''const x = 1;''" and supp="[]"
      and fid="''a.ts''" and st="?st" and f="\<lambda>match caps. ([], Inr match)"
      and rx=defaultImportRegex and prev=None and s="''import _ from \"lodash\";''"]
  note T1 = transform_unchanged_iff_no_lodash[where src="?two" and supp="[''isEqual'', ''map'']"
      and fid="''a.ts''" and st="?st" and f="\<lambda>match caps. ([], Inr match)"
      and rx=defaultImportRegex and prev=None and s="''import _ from \"lodash\";''"]
  have c2: "transform [] ?st ''const x = 1;'' ''a.ts'' = (?st, [], Inr None)"
    using T0 a by blast
  have c4: "snd (transform [''isEqual'', ''map''] ?st ?two ''a.ts'')
       = ([], Inr (Some \<lparr>code = ?out, source_map = None\<rparr>))"
    using T1 by simp
  have "snd (transform [''isEqual'', ''map''] ?st ?two ''a.ts'')
       = (warned (defaultImport_replacer [''isEqual'', ''map''] ?two)
            (scan defaultImportRegex None ?two)
          @ warned (namedImports_replacer [''isEqual'', ''map''])
              (scan namedImportsRegex None (after_defaultImport [''isEqual'', ''map''] ?two))
          @ warned (defaultSingleImport_replacer [''isEqual'', ''map''])
              (scan defaultSingleImportRegex None
                 (after_namedImports [''isEqual'', ''map''] ?two)),
          Inr (Some \<lparr>code = after_defaultSingleImport [''isEqual'', ''map''] ?two,
                      source_map = None\<rparr>))"
    using T1 b by blast
  with c4 have c5: "after_defaultSingleImport [''isEqual'', ''map''] ?two = ?out"
    by simp
  have c6: "rewritten (\<lambda>match caps. ([], Inr match))
         (scan defaultImportRegex None ''import _ from \"lodash\";'')
       = ''import _ from \"lodash\";''"
    using T1 by simp
  from a c2 b c4 c5 c6 show ?thesis by (simp only: simp_thms)
qed

text \<open>
  C9. The transform is a function of the source text and the supported set alone: two
  calls on the same text with the same set write the same warnings and return the same
  result, whatever the file identifiers and whatever earlier calls left in the shared
  expression objects; in particular a call made after an earlier call on any other text
  returns what it would have returned without it.
\<close>

theorem transform_pure:
  "snd (transform supp st1 src fid1) = snd (transform supp st2 src fid2)
   \<and> snd (transform supp (fst (transform supp st earlier fid0)) src fid1)
       = snd (transform supp st src fid2)"
proof -
  have same: "snd (transform supp a src f) = snd (transform supp b src g)" for a b f g
    by (simp add: transform_def String_replace_def Let_def split: prod.splits sum.splits)
  show ?thesis
    using same[of st1 fid1 st2 fid2] same[of "fst (transform supp st earlier fid0)" fid1 st fid2]
    by simp
qed

text \<open>
  C7. Parsing a named-import token splits it on the literal sequence \<open>' as '\<close>. The left
  side, the text in front of the first occurrence, becomes \<open>actualName\<close>; the right side,
  the text behind it up to the next occurrence if there is one, becomes \<open>customName\<close> when it
  is there and non-empty, otherwise \<open>customName\<close> is \<open>actualName\<close>. Parsing fails with the
  parsing error exactly when the left side is empty: the token is empty or begins with
  \<open>' as '\<close>.
\<close>

theorem parseNamedImport_splits_on_as:
  "(parseNamedImport t = Inl Invalid_named_import \<longleftrightarrow> hd (split_str t '' as '') = [])
   \<and> (hd (split_str t '' as '') = [] \<longleftrightarrow> t = [] \<or> prefix '' as '' t)
   \<and> (t \<noteq> [] \<and> \<not> sublist '' as '' t \<longrightarrow>
        split_str t '' as '' = [t]
        \<and> parseNamedImport t = Inr \<lparr>actualName = t, customName = t\<rparr>)
   \<and> (\<not> sublist '' as '' (X @ '' as'') \<longrightarrow>
        split_str (X @ '' as '' @ R) '' as '' = X # split_str R '' as '')
   \<and> (X \<noteq> [] \<and> \<not> sublist '' as '' (X @ '' as'') \<longrightarrow>
        parseNamedImport (X @ '' as '' @ R) =
          Inr \<lparr>actualName = X,
               customName = (if hd (split_str R '' as '') = [] then X
                             else hd (split_str R '' as ''))\<rparr>)
   \<and> (X \<noteq> [] \<and> \<not> sublist '' as '' (X @ '' as'') \<and> Y \<noteq> [] \<and> \<not> sublist '' as '' Y \<longrightarrow>
        parseNamedImport (X @ '' as '' @ Y) = Inr \<lparr>actualName = X, customName = Y\<rparr>)"
proof (intro conjI impI)
  show h: "hd (split_str t '' as '') = [] \<longleftrightarrow> t = [] \<or> prefix '' as '' t"
    by (simp add: split_str_def hd_split_from)
  show "parseNamedImport t = Inl Invalid_named_import \<longleftrightarrow> hd (split_str t '' as '') = []"
    unfolding h by (rule parse_fails_iff)
next
  assume a: "t \<noteq> [] \<and> \<not> sublist '' as '' t"
  then show "split_str t '' as '' = [t]"
    by (simp add: split_str_def split_from_no_sep includes_str_sublist)
  from a show "parseNamedImport t = Inr \<lparr>actualName = t, customName = t\<rparr>"
    by (simp add: parse_no_sep includes_str_sublist)
next
  assume "\<not> sublist '' as '' (X @ '' as'')"
  then show "split_str (X @ '' as '' @ R) '' as '' = X # split_str R '' as ''"
    using split_from_first[of "'' as ''" X "[]" R]
    by (simp add: split_str_def includes_str_sublist)
next
  assume "X \<noteq> [] \<and> \<not> sublist '' as '' (X @ '' as'')"
  then show "parseNamedImport (X @ '' as '' @ R) =
          Inr \<lparr>actualName = X,
               customName = (if hd (split_str R '' as '') = [] then X
                             else hd (split_str R '' as ''))\<rparr>"
    using parse_sep[of X R] by (simp add: includes_str_sublist)
next
  assume a: "X \<noteq> [] \<and> \<not> sublist '' as '' (X @ '' as'') \<and> Y \<noteq> [] \<and> \<not> sublist '' as '' Y"
  then have "split_str Y '' as '' = [Y]"
    by (simp add: split_str_def split_from_no_sep includes_str_sublist)
  with a show "parseNamedImport (X @ '' as '' @ Y) = Inr \<lparr>actualName = X, customName = Y\<rparr>"
    using parse_sep[of X Y] by (simp add: includes_str_sublist)
qed

theorem parseNamedImport_splits_on_as_witness:
  "parseNamedImport ''isEqual'' = Inr \<lparr>actualName = ''isEqual'', customName = ''isEqual''\<rparr>
   \<and> parseNamedImport ''isEqual as lodashIsEqual''
       = Inr \<lparr>actualName = ''isEqual'', customName = ''lodashIsEqual''\<rparr>
   \<and> parseNamedImport '' as lodashIsEqual'' = Inl Invalid_named_import"
proof -
  have a: "\<not> sublist '' as '' ''isEqual''"
    unfolding includes_str_sublist[symmetric] by code_simp
  have b: "\<not> sublist '' as '' (''isEqual'' @ '' as'')"
    unfolding includes_str_sublist[symmetric] by code_simp
  have c: "\<not> sublist '' as '' ''lodashIsEqual''"
    unfolding includes_str_sublist[symmetric] by code_simp
  from a b c
    parseNamedImport_splits_on_as[where t="''isEqual''" and X="''isEqual''"
      and Y="''lodashIsEqual''" and R="[]"]
    parseNamedImport_splits_on_as[where t="'' as lodashIsEqual''" and X="[]" and Y="[]"
      and R="[]"]
  show ?thesis by simp
qed

text \<open>
  C6, as amended. For every non-empty named-import token without a rename clause,
  rendering the parsed token gives the token back. For every token \<open>X as Y\<close> (\<open>X\<close> and \<open>Y\<close>
  non-empty, \<open>' as '\<close> occurring only between them) with \<open>Y\<close> different from \<open>X\<close>, rendering
  the parsed token gives \<open>X as Y\<close> back byte for byte; when \<open>Y\<close> is \<open>X\<close> the renderer drops
  the rename clause and gives the bare \<open>X\<close>.
\<close>

theorem render_parse_roundtrip:
  "(t \<noteq> [] \<and> \<not> sublist '' as '' t \<longrightarrow>
        map_sum id renderNamedImport (parseNamedImport t) = Inr t)
   \<and> (X \<noteq> [] \<and> \<not> sublist '' as '' (X @ '' as'') \<and> Y \<noteq> [] \<and> \<not> sublist '' as '' Y \<longrightarrow>
        map_sum id renderNamedImport (parseNamedImport (X @ '' as '' @ Y))
          = Inr (if X = Y then X else X @ '' as '' @ Y))"
proof (intro conjI impI)
  assume "t \<noteq> [] \<and> \<not> sublist '' as '' t"
  then show "map_sum id renderNamedImport (parseNamedImport t) = Inr t"
    by (simp add: parse_no_sep includes_str_sublist renderNamedImport_def)
next
  assume a: "X \<noteq> [] \<and> \<not> sublist '' as '' (X @ '' as'') \<and> Y \<noteq> [] \<and> \<not> sublist '' as '' Y"
  then have "split_str Y '' as '' = [Y]"
    by (simp add: split_str_def split_from_no_sep includes_str_sublist)
  with a have "parseNamedImport (X @ '' as '' @ Y) = Inr \<lparr>actualName = X, customName = Y\<rparr>"
    using parse_sep[of X Y] by (simp add: includes_str_sublist)
  then show "map_sum id renderNamedImport (parseNamedImport (X @ '' as '' @ Y))
          = Inr (if X = Y then X else X @ '' as '' @ Y)"
    by (simp add: renderNamedImport_def)
qed

theorem render_parse_roundtrip_witness:
  "map_sum id renderNamedImport (parseNamedImport ''isEqual'') = Inr ''isEqual''
   \<and> map_sum id renderNamedImport (parseNamedImport ''isEqual as lodashIsEqual'')
       = Inr ''isEqual as lodashIsEqual''"
proof -
  have a: "\<not> sublist '' as '' ''isEqual''"
    unfolding includes_str_sublist[symmetric] by code_simp
  have b: "\<not> sublist '' as '' (''isEqual'' @ '' as'')"
    unfolding includes_str_sublist[symmetric] by code_simp
  have c: "\<not> sublist '' as '' ''lodashIsEqual''"
    unfolding includes_str_sublist[symmetric] by code_simp
  from a b c
    render_parse_roundtrip[where t="''isEqual''" and X="''isEqual''" and Y="''lodashIsEqual''"]
  show ?thesis by simp
qed

text \<open>
  C6 as stated fails for a rename to the same name: \<open>isEqual as isEqual\<close> is rendered as
  \<open>isEqual\<close>.
\<close>

theorem render_parse_same_alias_counterexample:
  "map_sum id renderNamedImport (parseNamedImport ''isEqual as isEqual'') = Inr ''isEqual''
   \<and> ''isEqual'' \<noteq> ''isEqual as isEqual''"
  by code_simp

text \<open>
  C1. A namespace-default import \<open>import Name from 'lodash'\<close> whose binding has at least
  one usage \<open>Name.symbol\<close> in the source text, every used symbol being supported, is to be
  replaced by the namespace import of \<open>Name\<close> from \<open>'es-toolkit/compat'\<close>. The callback
  does rewrite such an import, without a warning, but the text it writes is
  \<open>import { * as Name } from 'es-toolkit/compat'\<close>: the clause \<open>* as Name\<close> stands inside
  braces, so the text is not the namespace import \<open>import * as Name from
  'es-toolkit/compat'\<close>, and the plugin's own pattern for imports in braces does not accept
  it, \<open>*\<close> being no name. Every match of the first pass is an import of the shape above
  and hands its \<open>Name\<close> to the callback, and every usage found for \<open>Name\<close> is \<open>Name.symbol\<close>
  with \<open>symbol\<close> the used function. For the source text
  \<open>import _ from 'lodash'; _.isEqual(1,1);\<close> with \<open>isEqual\<close> supported the transform
  returns \<open>import { * as _ } from 'es-toolkit/compat'; _.isEqual(1,1);\<close>.
\<close>

theorem namespace_import_written_in_braces:
  "(String_match src (usageRegex name) \<noteq> []
      \<and> (\<forall>u \<in> set (String_match src (usageRegex name)).
             isSupportedFunction supp (usedFunction u))
     \<longrightarrow> defaultImport_callback supp src m name
           = ([], Inr (''import { * as '' @ name @ '' } from 'es-toolkit/compat'' @ sq)))
   \<and> ''import { * as '' @ name @ '' } from 'es-toolkit/compat'' @ sq
       \<noteq> namespace_import name ''es-toolkit/compat''
   \<and> (Hit m' caps \<in> set (scan defaultImportRegex None src) \<longrightarrow>
        (\<exists>ws1 ws2 ws3 q1 q2.
            m' = ''import'' @ ws1 @ capture caps 0 @ ws2 @ ''from'' @ ws3 @ [q1] @ ''lodash'' @ [q2]
            \<and> space_run ws1 \<and> word_run (capture caps 0) \<and> space_run ws2 \<and> space_run ws3
            \<and> is_quote q1 \<and> is_quote q2))
   \<and> (word_run name \<and> u \<in> set (String_match src (usageRegex name)) \<longrightarrow>
        (\<exists>symb. u = name @ ''.'' @ symb \<and> word_run symb \<and> usedFunction u = symb))
   \<and> (''isEqual'' \<in> set supp \<longrightarrow>
        snd (transform supp st (''import _ from 'lodash'; _.isEqual(1,1);'') fid)
          = ([], Inr (Some \<lparr>code = ''import { * as _ } from 'es-toolkit/compat'; _.isEqual(1,1);'',
                            source_map = None\<rparr>)))
   \<and> ''import { * as _ } from 'es-toolkit/compat'; _.isEqual(1,1);''
       \<noteq> namespace_import ''_'' ''es-toolkit/compat'' @ ''; _.isEqual(1,1);''
   \<and> rx_match_here namedImportsRegex None (''import { * as _ } from 'lodash'' @ sq) = None"
proof (intro conjI impI)
  show "''import { * as '' @ name @ '' } from 'es-toolkit/compat'' @ sq
       \<noteq> namespace_import name ''es-toolkit/compat''"
    by (simp add: namespace_import_def)
  show "''import { * as _ } from 'es-toolkit/compat'; _.isEqual(1,1);''
       \<noteq> namespace_import ''_'' ''es-toolkit/compat'' @ ''; _.isEqual(1,1);''"
    by (simp add: namespace_import_def)
  show "rx_match_here namedImportsRegex None (''import { * as _ } from 'lodash'' @ sq) = None"
    by code_simp
next
  assume "String_match src (usageRegex name) \<noteq> []
      \<and> (\<forall>u \<in> set (String_match src (usageRegex name)).
             isSupportedFunction supp (usedFunction u))"
  then show "defaultImport_callback supp src m name
           = ([], Inr (''import { * as '' @ name @ '' } from 'es-toolkit/compat'' @ sq))"
    by (simp add: defaultImport_callback_def Let_def isUnsupportedFunction_def filter_empty_conv)
next
  assume "Hit m' caps \<in> set (scan defaultImportRegex None src)"
  from scan_hit_is_match[OF this] obtain prev' s' where
    "rx_match_here defaultImportRegex prev' s' = Some (m', caps)" by blast
  from defaultImportRegex_shape[OF this]
  show "\<exists>ws1 ws2 ws3 q1 q2.
            m' = ''import'' @ ws1 @ capture caps 0 @ ws2 @ ''from'' @ ws3 @ [q1] @ ''lodash'' @ [q2]
            \<and> space_run ws1 \<and> word_run (capture caps 0) \<and> space_run ws2 \<and> space_run ws3
            \<and> is_quote q1 \<and> is_quote q2"
    by (clarsimp simp: capture_def) blast
next
  assume a: "word_run name \<and> u \<in> set (String_match src (usageRegex name))"
  then obtain symb where s: "u = name @ ''.'' @ symb" "word_run symb"
    using usage_shape by blast
  have "CHR ''.'' \<notin> set name"
    using a not_word_dot by (auto simp: word_run_def list_all_iff)
  then have "usedFunction u = symb" using s usedFunction_usage by simp
  with s show "\<exists>symb. u = name @ ''.'' @ symb \<and> word_run symb \<and> usedFunction u = symb" by blast
next
  assume sup: "''isEqual'' \<in> set supp"
  let ?src = "''import _ from 'lodash'; _.isEqual(1,1);''"
  let ?out = "''import { * as _ } from 'es-toolkit/compat'; _.isEqual(1,1);''"
  have inc: "includes_str ?src ''lodash''" by code_simp
  have s1: "scan defaultImportRegex None ?src
      = Hit (''import _ from 'lodash'' @ sq) [''_''] # map Skip ''; _.isEqual(1,1);''"
    by code_simp
  have us: "String_match ?src (usageRegex ''_'') = [''_.isEqual'']" by code_simp
  have uf: "usedFunction ''_.isEqual'' = ''isEqual''" by code_simp
  have cb: "defaultImport_callback supp ?src (''import _ from 'lodash'' @ sq) ''_''
      = ([], Inr (''import { * as _ } from 'es-toolkit/compat'' @ sq))"
    using sup
    by (simp add: defaultImport_callback_def us uf isUnsupportedFunction_def isSupportedFunction_def
        del: scan.simps)
  have s2: "scan namedImportsRegex None ?out = map Skip ?out" by code_simp
  have s3: "scan defaultSingleImportRegex None ?out = map Skip ?out" by code_simp
  have p1: "run_callbacks (\<lambda>match caps. defaultImport_callback supp ?src match (capture caps 0))
        (scan defaultImportRegex None ?src) = ([], Inr ?out)"
    unfolding s1 by (simp add: capture_def cb[simplified] run_callbacks_Skips del: map_map)
  show "snd (transform supp st ?src fid)
          = ([], Inr (Some \<lparr>code = ?out, source_map = None\<rparr>))"
    unfolding transform_def String_replace_def
    by (simp only: inc p1 s2 s3 run_callbacks_Skips if_True Let_def prod.case sum.case snd_conv append_Nil)
qed

theorem namespace_import_written_in_braces_witness:
  "defaultImport_callback [''isEqual''] (''import _ from 'lodash'; _.isEqual(1,1);'')
       (''import _ from 'lodash'' @ sq) ''_''
     = ([], Inr (''import { * as _ } from 'es-toolkit/compat'' @ sq))
   \<and> (\<exists>ws1 ws2 ws3 q1 q2.
          ''import _ from 'lodash'' @ sq
            = ''import'' @ ws1 @ ''_'' @ ws2 @ ''from'' @ ws3 @ [q1] @ ''lodash'' @ [q2]
          \<and> space_run ws1 \<and> word_run ''_'' \<and> space_run ws2 \<and> space_run ws3
          \<and> is_quote q1 \<and> is_quote q2)
   \<and> usedFunction ''_.isEqual'' = ''isEqual''
   \<and> snd (transform [''isEqual'']
             \<lparr>defaultImport_lastIndex = 0, namedImports_lastIndex = 0,
              defaultSingleImport_lastIndex = 0\<rparr>
             (''import _ from 'lodash'; _.isEqual(1,1);'') ''a.ts'')
       = ([], Inr (Some \<lparr>code = ''import { * as _ } from 'es-toolkit/compat'; _.isEqual(1,1);'',
                         source_map = None\<rparr>))"
proof -
  let ?src = "''import _ from 'lodash'; _.isEqual(1,1);''"
  have us: "String_match ?src (usageRegex ''_'') = [''_.isEqual'']" by code_simp
  have uf: "usedFunction ''_.isEqual'' = ''isEqual''" by code_simp
  have hit: "Hit (''import _ from 'lodash'' @ sq) [''_''] \<in> set (scan defaultImportRegex None ?src)"
    by code_simp
  have wr: "word_run ''_''" by code_simp
  note T = namespace_import_written_in_braces[where supp="[''isEqual'']" and src="?src" and name="''_''"
      and m="''import _ from 'lodash'' @ sq" and m'="''import _ from 'lodash'' @ sq"
      and caps="[''_'']" and u="''_.isEqual''" and fid="''a.ts''"
      and st="\<lparr>defaultImport_lastIndex = 0, namedImports_lastIndex = 0,
              defaultSingleImport_lastIndex = 0\<rparr>"]
  from T us uf hit wr show ?thesis
    by (simp add: isSupportedFunction_def capture_def del: scan.simps)
qed

text \<open>
  C5. For a namespace-default import \<open>import Name from 'lodash'\<close>: when the usage scan
  for \<open>Name\<close> finds nothing, the import is left as it is and nothing is written; when some
  used symbol is unsupported, one warning lists all the unsupported symbols found for the
  binding, in the order of their usages (\<open>Unsupported lodash function: f\<close> for one symbol,
  \<open>Unsupported lodash functions: f, g\<close> for several), and the whole import is left as it is.
  The usage scan finds every usage: a usage \<open>Name.symbol\<close> at the scan position, not in
  the middle of a longer word, is recorded and the scan goes on behind it; text that does
  not begin with \<open>Name.\<close> is passed one code unit further; and every usage found is
  \<open>Name.symbol\<close> with \<open>symbol\<close> the used function. The first pass treats every import of
  the text so: it returns the text with what the callback returned in the place of every
  match; where its scan stands in front of an import of this shape, with either quote and
  any white space between the words, it matches exactly that import, keeps it, writes the
  warning if there is one, and goes on behind it; and the transform returns what the two
  later passes make of the text of the first, with the warnings of the three passes in
  order; so for an input that begins with such an import, unused or with an unsupported
  usage, the two later passes finding nothing in the text of the first, the transform
  returns the import as it was followed by what the first pass makes of the rest, the
  warning first. For \<open>import _ from 'lodash'; _.unknownFn();\<close> with \<open>unknownFn\<close> unsupported the
  output is the input and the one warning names \<open>unknownFn\<close>. For a text with two such
  imports, \<open>u\<close> never used and \<open>l\<close> used as \<open>l.foo\<close>, \<open>l.map\<close> and \<open>l.bar\<close> with only \<open>map\<close>
  supported, the output is the input and the one warning is
  \<open>Unsupported lodash functions: foo, bar\<close>.
\<close>

theorem namespace_import_kept:
  "(String_match src (usageRegex name) = [] \<longrightarrow>
        defaultImport_callback supp src m name = ([], Inr m))
   \<and> ((\<exists>u \<in> set (String_match src (usageRegex name)).
          isUnsupportedFunction supp (usedFunction u)) \<longrightarrow>
        (let unsupportedFunctions =
               filter (isUnsupportedFunction supp)
                 (map usedFunction (String_match src (usageRegex name)))
         in defaultImport_callback supp src m name
              = ([''Unsupported lodash function''
                    @ (if length unsupportedFunctions > 1 then ''s'' else [])
                    @ '': '' @ join_str unsupportedFunctions '', ''],
                 Inr m)))
   \<and> (word_run name \<and> u \<in> set (String_match src (usageRegex name)) \<longrightarrow>
        (\<exists>symb. u = name @ ''.'' @ symb \<and> word_run symb \<and> usedFunction u = symb))
   \<and> (word_run name \<and> word_run symb \<and> (rest = [] \<or> \<not> is_word_char (hd rest))
        \<and> (case front of None \<Rightarrow> True | Some c \<Rightarrow> \<not> is_word_char c) \<longrightarrow>
        scan (usageRegex name) front (name @ ''.'' @ symb @ rest)
          = Hit (name @ ''.'' @ symb) [] # scan (usageRegex name) (Some (last symb)) rest
        \<and> String_match (name @ ''.'' @ symb @ rest) (usageRegex name)
          = (name @ ''.'' @ symb) # hits (scan (usageRegex name) (Some (last symb)) rest))
   \<and> (\<not> prefix (name @ ''.'') (c # cs) \<longrightarrow>
        scan (usageRegex name) front (c # cs) = Skip c # scan (usageRegex name) (Some c) cs)
   \<and> (space_run ws1 \<and> word_run name \<and> space_run ws2 \<and> space_run ws3 \<and> is_quote q1
        \<and> is_quote q2 \<longrightarrow>
        scan defaultImportRegex prev
           (''import'' @ ws1 @ name @ ws2 @ ''from'' @ ws3 @ [q1] @ ''lodash'' @ [q2] @ rest)
         = Hit (''import'' @ ws1 @ name @ ws2 @ ''from'' @ ws3 @ [q1] @ ''lodash'' @ [q2])
             [name]
           # scan defaultImportRegex (Some q2) rest)
   \<and> String_replace s defaultImportRegex lastIndex (defaultImport_replacer supp src)
       = (0, warned (defaultImport_replacer supp src) (scan defaultImportRegex None s),
          Inr (rewritten (defaultImport_replacer supp src) (scan defaultImportRegex None s)))
   \<and> (space_run ws1 \<and> word_run name \<and> space_run ws2 \<and> space_run ws3 \<and> is_quote q1
        \<and> is_quote q2 \<and> String_match src (usageRegex name) = [] \<longrightarrow>
        rewritten (defaultImport_replacer supp src)
           (scan defaultImportRegex prev
              (''import'' @ ws1 @ name @ ws2 @ ''from'' @ ws3 @ [q1] @ ''lodash'' @ [q2] @ rest))
         = ''import'' @ ws1 @ name @ ws2 @ ''from'' @ ws3 @ [q1] @ ''lodash'' @ [q2]
           @ rewritten (defaultImport_replacer supp src) (scan defaultImportRegex (Some q2) rest)
        \<and> warned (defaultImport_replacer supp src)
           (scan defaultImportRegex prev
              (''import'' @ ws1 @ name @ ws2 @ ''from'' @ ws3 @ [q1] @ ''lodash'' @ [q2] @ rest))
         = warned (defaultImport_replacer supp src) (scan defaultImportRegex (Some q2) rest))
   \<and> (space_run ws1 \<and> word_run name \<and> space_run ws2 \<and> space_run ws3 \<and> is_quote q1
        \<and> is_quote q2
        \<and> (\<exists>u \<in> set (String_match src (usageRegex name)).
              isUnsupportedFunction supp (usedFunction u)) \<longrightarrow>
        rewritten (defaultImport_replacer supp src)
           (scan defaultImportRegex prev
              (''import'' @ ws1 @ name @ ws2 @ ''from'' @ ws3 @ [q1] @ ''lodash'' @ [q2] @ rest))
         = ''import'' @ ws1 @ name @ ws2 @ ''from'' @ ws3 @ [q1] @ ''lodash'' @ [q2]
           @ rewritten (defaultImport_replacer supp src) (scan defaultImportRegex (Some q2) rest)
        \<and> (let unsupportedFunctions =
                  filter (isUnsupportedFunction supp)
                    (map usedFunction (String_match src (usageRegex name)))
            in warned (defaultImport_replacer supp src)
                 (scan defaultImportRegex prev
                    (''import'' @ ws1 @ name @ ws2 @ ''from'' @ ws3 @ [q1] @ ''lodash'' @ [q2]
                       @ rest))
               = (''Unsupported lodash function''
                    @ (if length unsupportedFunctions > 1 then ''s'' else [])
                    @ '': '' @ join_str unsupportedFunctions '', '')
                 # warned (defaultImport_replacer supp src)
                     (scan defaultImportRegex (Some q2) rest)))
   \<and> (sublist ''lodash'' src \<longrightarrow>
        snd (transform supp st src fid)
          = (warned (defaultImport_replacer supp src) (scan defaultImportRegex None src)
             @ warned (namedImports_replacer supp)
                 (scan namedImportsRegex None (after_defaultImport supp src))
             @ warned (defaultSingleImport_replacer supp)
                 (scan defaultSingleImportRegex None (after_namedImports supp src)),
             Inr (Some \<lparr>code = after_defaultSingleImport supp src, source_map = None\<rparr>))
        \<and> after_defaultImport supp src
          = rewritten (defaultImport_replacer supp src) (scan defaultImportRegex None src))
   \<and> (space_run ws1 \<and> word_run name \<and> space_run ws2 \<and> space_run ws3 \<and> is_quote q1
         \<and> is_quote q2 \<longrightarrow>
        (let stmt = ''import'' @ ws1 @ name @ ws2 @ ''from'' @ ws3 @ [q1] @ ''lodash'' @ [q2];
                text = stmt @ rest;
                usages = String_match text (usageRegex name);
                unsupportedFunctions = filter (isUnsupportedFunction supp) (map usedFunction usages);
                behind = rewritten (defaultImport_replacer supp text)
                           (scan defaultImportRegex (Some q2) rest)
            in (usages = [] \<or> unsupportedFunctions \<noteq> [])
               \<and> hits (scan namedImportsRegex None (stmt @ behind)) = []
               \<and> hits (scan defaultSingleImportRegex None (stmt @ behind)) = [] \<longrightarrow>
               snd (transform supp st text fid)
                 = ((if usages = [] then []
                     else [''Unsupported lodash function''
                             @ (if length unsupportedFunctions > 1 then ''s'' else [])
                             @ '': '' @ join_str unsupportedFunctions '', ''])
                    @ warned (defaultImport_replacer supp text)
                        (scan defaultImportRegex (Some q2) rest),
                    Inr (Some \<lparr>code = stmt @ behind, source_map = None\<rparr>))))
   \<and> (''unknownFn'' \<notin> set supp \<longrightarrow>
        snd (transform supp st (''import _ from 'lodash'; _.unknownFn();'') fid)
          = ([''Unsupported lodash function: unknownFn''],
             Inr (Some \<lparr>code = ''import _ from 'lodash'; _.unknownFn();'',
                         source_map = None\<rparr>)))
   \<and> (''map'' \<in> set supp \<and> ''foo'' \<notin> set supp \<and> ''bar'' \<notin> set supp \<longrightarrow>
        snd (transform supp st
               ''import u from 'lodash';\<newline>import l from \"lodash\";\<newline>l.foo(); l.map(); l.bar();''
               fid)
          = ([''Unsupported lodash functions: foo, bar''],
             Inr (Some \<lparr>code = ''import u from 'lodash';\<newline>import l from \"lodash\";\<newline>l.foo(); l.map(); l.bar();'',
                         source_map = None\<rparr>)))"
proof (intro conjI impI)
  assume "String_match src (usageRegex name) = []"
  then show "defaultImport_callback supp src m name = ([], Inr m)"
    by (simp add: defaultImport_callback_def)
next
  assume a: "\<exists>u \<in> set (String_match src (usageRegex name)).
          isUnsupportedFunction supp (usedFunction u)"
  then have ne: "String_match src (usageRegex name) \<noteq> []" by auto
  from a have "filter (isUnsupportedFunction supp)
                   (map usedFunction (String_match src (usageRegex name))) \<noteq> []"
    by (auto simp: filter_empty_conv)
  with ne show "let unsupportedFunctions =
               filter (isUnsupportedFunction supp)
                 (map usedFunction (String_match src (usageRegex name)))
         in defaultImport_callback supp src m name
              = ([''Unsupported lodash function''
                    @ (if length unsupportedFunctions > 1 then ''s'' else [])
                    @ '': '' @ join_str unsupportedFunctions '', ''],
                 Inr m)"
    by (simp add: defaultImport_callback_def Let_def warnUnsupportedFunction_def)
next
  assume a: "word_run name \<and> u \<in> set (String_match src (usageRegex name))"
  then obtain symb where s: "u = name @ ''.'' @ symb" "word_run symb"
    using usage_shape by blast
  have "CHR ''.'' \<notin> set name"
    using a not_word_dot by (auto simp: word_run_def list_all_iff)
  then have "usedFunction u = symb" using s usedFunction_usage by simp
  with s show "\<exists>symb. u = name @ ''.'' @ symb \<and> word_run symb \<and> usedFunction u = symb"
    by blast
next
  assume a: "word_run name \<and> word_run symb \<and> (rest = [] \<or> \<not> is_word_char (hd rest))
        \<and> (case front of None \<Rightarrow> True | Some c \<Rightarrow> \<not> is_word_char c)"
  then show "scan (usageRegex name) front (name @ ''.'' @ symb @ rest)
          = Hit (name @ ''.'' @ symb) [] # scan (usageRegex name) (Some (last symb)) rest"
    using usage_at_front[of name symb rest front] by blast
  from a show "String_match (name @ ''.'' @ symb @ rest) (usageRegex name)
          = (name @ ''.'' @ symb) # hits (scan (usageRegex name) (Some (last symb)) rest)"
    unfolding String_match_def using usage_at_front[of name symb rest None]
    by (simp del: scan.simps)
next
  assume "\<not> prefix (name @ ''.'') (c # cs)"
  then show "scan (usageRegex name) front (c # cs)
      = Skip c # scan (usageRegex name) (Some c) cs"
    by (rule usage_skip)
next
  assume "space_run ws1 \<and> word_run name \<and> space_run ws2 \<and> space_run ws3 \<and> is_quote q1
        \<and> is_quote q2"
  then have "rx_match_here defaultImportRegex prev
           ((''import'' @ ws1 @ name @ ws2 @ ''from'' @ ws3 @ [q1] @ ''lodash'' @ [q2]) @ rest)
         = Some (''import'' @ ws1 @ name @ ws2 @ ''from'' @ ws3 @ [q1] @ ''lodash'' @ [q2],
                 [name])"
    using defaultImportRegex_accepts[of ws1 name ws2 ws3 q1 q2 prev rest] by simp
  from scan_at_match[OF this]
  show "scan defaultImportRegex prev
           (''import'' @ ws1 @ name @ ws2 @ ''from'' @ ws3 @ [q1] @ ''lodash'' @ [q2] @ rest)
         = Hit (''import'' @ ws1 @ name @ ws2 @ ''from'' @ ws3 @ [q1] @ ''lodash'' @ [q2])
             [name]
           # scan defaultImportRegex (Some q2) rest"
    by (simp del: scan.simps)
next
  show "String_replace s defaultImportRegex lastIndex (defaultImport_replacer supp src)
       = (0, warned (defaultImport_replacer supp src) (scan defaultImportRegex None s),
          Inr (rewritten (defaultImport_replacer supp src) (scan defaultImportRegex None s)))"
    by (rule String_replace_in_place) (rule replacers_ok)
next
  assume a: "space_run ws1 \<and> word_run name \<and> space_run ws2 \<and> space_run ws3 \<and> is_quote q1
        \<and> is_quote q2 \<and> String_match src (usageRegex name) = []"
  let ?stmt = "''import'' @ ws1 @ name @ ws2 @ ''from'' @ ws3 @ [q1] @ ''lodash'' @ [q2]"
  from a have "rx_match_here defaultImportRegex prev (?stmt @ rest) = Some (?stmt, [name])"
    using defaultImportRegex_accepts[of ws1 name ws2 ws3 q1 q2 prev rest] by simp
  from scan_at_match[OF this]
  have sc: "scan defaultImportRegex prev
           (''import'' @ ws1 @ name @ ws2 @ ''from'' @ ws3 @ [q1] @ ''lodash'' @ [q2] @ rest)
         = Hit ?stmt [name] # scan defaultImportRegex (Some q2) rest"
    by (simp del: scan.simps)
  have cb: "defaultImport_callback supp src m name = ([], Inr m)" for m
    using a by (simp add: defaultImport_callback_def)
  show "rewritten (defaultImport_replacer supp src)
           (scan defaultImportRegex prev
              (''import'' @ ws1 @ name @ ws2 @ ''from'' @ ws3 @ [q1] @ ''lodash'' @ [q2] @ rest))
         = ''import'' @ ws1 @ name @ ws2 @ ''from'' @ ws3 @ [q1] @ ''lodash'' @ [q2]
           @ rewritten (defaultImport_replacer supp src) (scan defaultImportRegex (Some q2) rest)"
    unfolding sc
    by (simp add: rewritten_simps defaultImport_replacer_def capture_def cb del: scan.simps)
  show "warned (defaultImport_replacer supp src)
           (scan defaultImportRegex prev
              (''import'' @ ws1 @ name @ ws2 @ ''from'' @ ws3 @ [q1] @ ''lodash'' @ [q2] @ rest))
         = warned (defaultImport_replacer supp src) (scan defaultImportRegex (Some q2) rest)"
    unfolding sc
    by (simp add: warned_simps defaultImport_replacer_def capture_def cb del: scan.simps)
next
  assume a: "space_run ws1 \<and> word_run name \<and> space_run ws2 \<and> space_run ws3 \<and> is_quote q1
        \<and> is_quote q2
        \<and> (\<exists>u \<in> set (String_match src (usageRegex name)).
              isUnsupportedFunction supp (usedFunction u))"
  let ?stmt = "''import'' @ ws1 @ name @ ws2 @ ''from'' @ ws3 @ [q1] @ ''lodash'' @ [q2]"
  let ?us = "filter (isUnsupportedFunction supp)
                    (map usedFunction (String_match src (usageRegex name)))"
  from a have "rx_match_here defaultImportRegex prev (?stmt @ rest) = Some (?stmt, [name])"
    using defaultImportRegex_accepts[of ws1 name ws2 ws3 q1 q2 prev rest] by simp
  from scan_at_match[OF this]
  have sc: "scan defaultImportRegex prev
           (''import'' @ ws1 @ name @ ws2 @ ''from'' @ ws3 @ [q1] @ ''lodash'' @ [q2] @ rest)
         = Hit ?stmt [name] # scan defaultImportRegex (Some q2) rest"
    by (simp del: scan.simps)
  from a have ne: "String_match src (usageRegex name) \<noteq> []" by auto
  from a have "?us \<noteq> []" by (auto simp: filter_empty_conv)
  with ne have cb: "defaultImport_callback supp src m name
      = ([''Unsupported lodash function'' @ (if length ?us > 1 then ''s'' else [])
            @ '': '' @ join_str ?us '', ''], Inr m)" for m
    by (simp add: defaultImport_callback_def Let_def warnUnsupportedFunction_def)
  show "rewritten (defaultImport_replacer supp src)
           (scan defaultImportRegex prev
              (''import'' @ ws1 @ name @ ws2 @ ''from'' @ ws3 @ [q1] @ ''lodash'' @ [q2] @ rest))
         = ''import'' @ ws1 @ name @ ws2 @ ''from'' @ ws3 @ [q1] @ ''lodash'' @ [q2]
           @ rewritten (defaultImport_replacer supp src) (scan defaultImportRegex (Some q2) rest)"
    unfolding sc
    by (simp add: rewritten_simps defaultImport_replacer_def capture_def cb del: scan.simps)
  show "let unsupportedFunctions =
                  filter (isUnsupportedFunction supp)
                    (map usedFunction (String_match src (usageRegex name)))
            in warned (defaultImport_replacer supp src)
                 (scan defaultImportRegex prev
                    (''import'' @ ws1 @ name @ ws2 @ ''from'' @ ws3 @ [q1] @ ''lodash'' @ [q2]
                       @ rest))
               = (''Unsupported lodash function''
                    @ (if length unsupportedFunctions > 1 then ''s'' else [])
                    @ '': '' @ join_str unsupportedFunctions '', '')
                 # warned (defaultImport_replacer supp src)
                     (scan defaultImportRegex (Some q2) rest)"
    unfolding sc Let_def
    by (simp add: warned_simps defaultImport_replacer_def capture_def cb del: scan.simps)
next
  assume "sublist ''lodash'' src"
  then have "includes_str src ''lodash''" by (simp add: includes_str_sublist)
  from transform_in_place[OF this, of supp st fid]
  show "snd (transform supp st src fid)
          = (warned (defaultImport_replacer supp src) (scan defaultImportRegex None src)
             @ warned (namedImports_replacer supp)
                 (scan namedImportsRegex None (after_defaultImport supp src))
             @ warned (defaultSingleImport_replacer supp)
                 (scan defaultSingleImportRegex None (after_namedImports supp src)),
             Inr (Some \<lparr>code = after_defaultSingleImport supp src, source_map = None\<rparr>))" .
  show "after_defaultImport supp src
          = rewritten (defaultImport_replacer supp src) (scan defaultImportRegex None src)"
    by (simp add: after_defaultImport_def)
next
  assume a: "space_run ws1 \<and> word_run name \<and> space_run ws2 \<and> space_run ws3 \<and> is_quote q1
        \<and> is_quote q2"
  show "let stmt = ''import'' @ ws1 @ name @ ws2 @ ''from'' @ ws3 @ [q1] @ ''lodash'' @ [q2];
             text = stmt @ rest;
             usages = String_match text (usageRegex name);
             unsupportedFunctions = filter (isUnsupportedFunction supp) (map usedFunction usages);
             behind = rewritten (defaultImport_replacer supp text)
                        (scan defaultImportRegex (Some q2) rest)
         in (usages = [] \<or> unsupportedFunctions \<noteq> [])
            \<and> hits (scan namedImportsRegex None (stmt @ behind)) = []
            \<and> hits (scan defaultSingleImportRegex None (stmt @ behind)) = [] \<longrightarrow>
            snd (transform supp st text fid)
              = ((if usages = [] then []
                  else [''Unsupported lodash function''
                          @ (if length unsupportedFunctions > 1 then ''s'' else [])
                          @ '': '' @ join_str unsupportedFunctions '', ''])
                 @ warned (defaultImport_replacer supp text)
                     (scan defaultImportRegex (Some q2) rest),
                 Inr (Some \<lparr>code = stmt @ behind, source_map = None\<rparr>))"
    by (rule namespace_import_at_front[OF a])
next
  assume sup: "''unknownFn'' \<notin> set supp"
  let ?src = "''import _ from 'lodash'; _.unknownFn();''"
  have inc: "includes_str ?src ''lodash''" by code_simp
  have s1: "scan defaultImportRegex None ?src
      = Hit (''import _ from 'lodash'' @ sq) [''_''] # map Skip ''; _.unknownFn();''"
    by code_simp
  have us: "String_match ?src (usageRegex ''_'') = [''_.unknownFn'']" by code_simp
  have uf: "usedFunction ''_.unknownFn'' = ''unknownFn''" by code_simp
  have cb: "defaultImport_callback supp ?src (''import _ from 'lodash'' @ sq) ''_''
      = ([''Unsupported lodash function: unknownFn''], Inr (''import _ from 'lodash'' @ sq))"
    using sup
    by (simp add: defaultImport_callback_def us uf isUnsupportedFunction_def
        isSupportedFunction_def warnUnsupportedFunction_def del: scan.simps)
  have s2: "scan namedImportsRegex None ?src = map Skip ?src" by code_simp
  have s3: "scan defaultSingleImportRegex None ?src = map Skip ?src" by code_simp
  have p1: "run_callbacks (\<lambda>match caps. defaultImport_callback supp ?src match (capture caps 0))
        (scan defaultImportRegex None ?src)
      = ([''Unsupported lodash function: unknownFn''], Inr ?src)"
    unfolding s1 by (simp add: capture_def cb[simplified] run_callbacks_Skips del: map_map)
  show "snd (transform supp st ?src fid)
          = ([''Unsupported lodash function: unknownFn''],
             Inr (Some \<lparr>code = ?src, source_map = None\<rparr>))"
    unfolding transform_def String_replace_def
    by (simp only: inc p1 s2 s3 run_callbacks_Skips if_True Let_def prod.case sum.case
        snd_conv append_Nil append_Nil2)
next
  assume sup: "''map'' \<in> set supp \<and> ''foo'' \<notin> set supp \<and> ''bar'' \<notin> set supp"
  let ?src = "''import u from 'lodash';\<newline>import l from \"lodash\";\<newline>l.foo(); l.map(); l.bar();''"
  have inc: "includes_str ?src ''lodash''" by code_simp
  have s1: "scan defaultImportRegex None ?src
      = Hit (''import u from 'lodash'' @ sq) [''u'']
          # map Skip '';\<newline>''
          @ Hit ''import l from \"lodash\"'' [''l'']
          # map Skip '';\<newline>l.foo(); l.map(); l.bar();''"
    by code_simp
  have us_u: "String_match ?src (usageRegex ''u'') = []" by code_simp
  have us_l: "String_match ?src (usageRegex ''l'') = [''l.foo'', ''l.map'', ''l.bar'']"
    by code_simp
  have uf: "usedFunction ''l.foo'' = ''foo''" "usedFunction ''l.map'' = ''map''"
    "usedFunction ''l.bar'' = ''bar''"
    by code_simp+
  have cb_u: "defaultImport_callback supp ?src m ''u'' = ([], Inr m)" for m
    by (simp add: defaultImport_callback_def us_u del: scan.simps)
  have cb_l: "defaultImport_callback supp ?src m ''l''
      = ([''Unsupported lodash functions: foo, bar''], Inr m)" for m
    unfolding defaultImport_callback_def us_l using sup
    by (simp add: uf isUnsupportedFunction_def isSupportedFunction_def
        warnUnsupportedFunction_def)
  have a1: "after_defaultImport supp ?src = ?src"
    unfolding after_defaultImport_def s1
    by (simp add: rewritten_simps defaultImport_replacer_def capture_def cb_u cb_l
        del: scan.simps)
  have w1: "warned (defaultImport_replacer supp ?src) (scan defaultImportRegex None ?src)
      = [''Unsupported lodash functions: foo, bar'']"
    unfolding s1
    by (simp add: warned_simps defaultImport_replacer_def capture_def cb_u cb_l
        del: scan.simps)
  have s2: "scan namedImportsRegex None ?src = map Skip ?src" by code_simp
  have s3: "scan defaultSingleImportRegex None ?src = map Skip ?src" by code_simp
  have a2: "after_namedImports supp ?src = ?src"
    unfolding after_namedImports_def a1 s2 by (simp only: rewritten_simps)
  have a3: "after_defaultSingleImport supp ?src = ?src"
    unfolding after_defaultSingleImport_def a2 s3 by (simp only: rewritten_simps)
  have w2: "warned (namedImports_replacer supp)
      (scan namedImportsRegex None (after_defaultImport supp ?src)) = []"
    unfolding a1 s2 by (simp only: warned_simps)
  have w3: "warned (defaultSingleImport_replacer supp)
      (scan defaultSingleImportRegex None (after_namedImports supp ?src)) = []"
    unfolding a2 s3 by (simp only: warned_simps)
  show "snd (transform supp st ?src fid)
          = ([''Unsupported lodash functions: foo, bar''],
             Inr (Some \<lparr>code = ?src, source_map = None\<rparr>))"
    unfolding transform_in_place[OF inc] w1 w2 w3 a3 by simp
qed

theorem namespace_import_kept_witness:
  "defaultImport_callback [''isEqual''] ''import _ from \"lodash\";'' ''import _ from \"lodash\"'' ''_''
     = ([], Inr ''import _ from \"lodash\"'')
   \<and> defaultImport_callback [''isEqual''] (''import _ from 'lodash'; _.unknownFn();'')
         (''import _ from 'lodash'' @ sq) ''_''
       = ([''Unsupported lodash function: unknownFn''], Inr (''import _ from 'lodash'' @ sq))
   \<and> defaultImport_callback [''map'']
         ''import u from 'lodash';\<newline>import l from \"lodash\";\<newline>l.foo(); l.map(); l.bar();''
         ''import l from \"lodash\"'' ''l''
       = ([''Unsupported lodash functions: foo, bar''], Inr ''import l from \"lodash\"'')
   \<and> usedFunction ''_.unknownFn'' = ''unknownFn''
   \<and> String_match ''l.foo(); l.map();'' (usageRegex ''l'') = [''l.foo'', ''l.map'']
   \<and> scan (usageRegex ''l'') None ''; l.x''
       = [Skip CHR '';'', Skip CHR '' '', Hit ''l.x'' []]
   \<and> scan defaultImportRegex None ''import _ from \"lodash\";''
       = [Hit ''import _ from \"lodash\"'' [''_''], Skip CHR '';'']
   \<and> String_replace (''import _ from 'lodash'; _.unknownFn();'') defaultImportRegex 4
         (defaultImport_replacer [''isEqual''] (''import _ from 'lodash'; _.unknownFn();''))
       = (0, [''Unsupported lodash function: unknownFn''],
          Inr (''import _ from 'lodash'; _.unknownFn();''))
   \<and> rewritten (defaultImport_replacer [''isEqual''] ''import _ from \"lodash\";'')
         (scan defaultImportRegex None ''import _ from \"lodash\";'')
       = ''import _ from \"lodash\";''
   \<and> warned (defaultImport_replacer [''isEqual''] ''import _ from \"lodash\";'')
         (scan defaultImportRegex None ''import _ from \"lodash\";'')
       = []
   \<and> after_defaultImport [''isEqual''] (''import _ from 'lodash'; _.unknownFn();'')
       = ''import _ from 'lodash'; _.unknownFn();''
   \<and> snd (transform [''isEqual'']
             \<lparr>defaultImport_lastIndex = 0, namedImports_lastIndex = 0,
              defaultSingleImport_lastIndex = 0\<rparr>
             (''import _ from 'lodash'; _.unknownFn();'') ''a.ts'')
       = ([''Unsupported lodash function: unknownFn''],
          Inr (Some \<lparr>code = ''import _ from 'lodash'; _.unknownFn();'', source_map = None\<rparr>))
   \<and> snd (transform [''map'']
             \<lparr>defaultImport_lastIndex = 0, namedImports_lastIndex = 0,
              defaultSingleImport_lastIndex = 0\<rparr>
             ''import u from 'lodash';\<newline>import l from \"lodash\";\<newline>l.foo(); l.map(); l.bar();''
             ''a.ts'')
       = ([''Unsupported lodash functions: foo, bar''],
          Inr (Some \<lparr>code = ''import u from 'lodash';\<newline>import l from \"lodash\";\<newline>l.foo(); l.map(); l.bar();'',
                      source_map = None\<rparr>))
   \<and> snd (transform [''map'']
             \<lparr>defaultImport_lastIndex = 0, namedImports_lastIndex = 0,
              defaultSingleImport_lastIndex = 0\<rparr>
             ''import l from \"lodash\";'' ''a.ts'')
       = ([], Inr (Some \<lparr>code = ''import l from \"lodash\";'', source_map = None\<rparr>))"
proof -
  let ?src = "''import _ from 'lodash'; _.unknownFn();''"
  let ?plain = "''import _ from \"lodash\";''"
  let ?multi = "''import u from 'lodash';\<newline>import l from \"lodash\";\<newline>l.foo(); l.map(); l.bar();''"
  let ?st = "\<lparr>defaultImport_lastIndex = 0, namedImports_lastIndex = 0,
              defaultSingleImport_lastIndex = 0\<rparr>"
  have u0: "String_match ?plain (usageRegex ''_'') = []" by code_simp
  have us: "String_match ?src (usageRegex ''_'') = [''_.unknownFn'']" by code_simp
  have uf: "usedFunction ''_.unknownFn'' = ''unknownFn''" by code_simp
  have us5: "String_match ?multi (usageRegex ''l'') = [''l.foo'', ''l.map'', ''l.bar'']"
    by code_simp
  have uf5: "usedFunction ''l.foo'' = ''foo''" "usedFunction ''l.map'' = ''map''"
    "usedFunction ''l.bar'' = ''bar''"
    by code_simp+
  have wr: "word_run ''_''" "space_run '' ''" "is_quote (CHR 0x22)" "is_quote (CHR 0x27)"
    "word_run ''l''" "word_run ''foo''"
    "scan defaultImportRegex (Some (CHR 0x22)) '';'' = [Skip CHR '';'']"
    "scan defaultImportRegex (Some (CHR 0x27)) ''; _.unknownFn();''
       = map Skip ''; _.unknownFn();''"
    "hits (scan (usageRegex ''l'') (Some CHR ''o'') ''(); l.map();'') = [''l.map'']"
    "scan (usageRegex ''l'') (Some CHR '';'') '' l.x'' = [Skip CHR '' '', Hit ''l.x'' []]"
    "\<not> is_word_char CHR ''(''" "\<not> prefix ''l.'' ''; l.x''"
    "sublist ''lodash'' ?src"
    unfolding includes_str_sublist[symmetric] by code_simp+
  note TA = namespace_import_kept[where supp="[''isEqual'']" and src="?plain"
      and name="''_''" and m="''import _ from \"lodash\"''" and u="''_.unknownFn''"
      and fid="''a.ts''" and st="?st" and ?ws1.0="'' ''" and ?ws2.0="'' ''" and ?ws3.0="'' ''"
      and ?q1.0="CHR 0x22" and ?q2.0="CHR 0x22" and prev=None and rest="'';''"
      and symb="''foo''" and front=None and c="CHR '';''" and cs="'' l.x''" and s="?plain"
      and lastIndex=4]
  note TB = namespace_import_kept[where supp="[''isEqual'']" and src="?src" and name="''_''"
      and m="''import _ from 'lodash'' @ sq" and u="''_.unknownFn''" and fid="''a.ts''"
      and st="?st" and ?ws1.0="'' ''" and ?ws2.0="'' ''" and ?ws3.0="'' ''"
      and ?q1.0="CHR 0x27" and ?q2.0="CHR 0x27" and prev=None and rest="''; _.unknownFn();''"
      and symb="''foo''" and front=None and c="CHR '';''" and cs="'' l.x''" and s="?src"
      and lastIndex=4]
  note TC = namespace_import_kept[where supp="[''isEqual'']" and src="?plain"
      and name="''l''" and m="''import _ from \"lodash\"''" and u="''_.unknownFn''"
      and fid="''a.ts''" and st="?st" and ?ws1.0="'' ''" and ?ws2.0="'' ''" and ?ws3.0="'' ''"
      and ?q1.0="CHR 0x22" and ?q2.0="CHR 0x22" and prev=None and rest="''(); l.map();''"
      and symb="''foo''" and front=None and c="CHR '';''" and cs="'' l.x''" and s="?plain"
      and lastIndex=4]
  note TD = namespace_import_kept[where supp="[''map'']" and src="?multi"
      and name="''l''" and m="''import l from \"lodash\"''" and u="''l.foo''"
      and fid="''a.ts''" and st="?st" and ?ws1.0="'' ''" and ?ws2.0="'' ''" and ?ws3.0="'' ''"
      and ?q1.0="CHR 0x22" and ?q2.0="CHR 0x22" and prev=None and rest="'';''"
      and symb="''foo''" and front=None and c="CHR '';''" and cs="'' l.x''" and s="?multi"
      and lastIndex=4]
  have c1: "defaultImport_callback [''isEqual''] ?plain ''import _ from \"lodash\"'' ''_''
      = ([], Inr ''import _ from \"lodash\"'')"
    using TA u0 by blast
  have c2: "defaultImport_callback [''isEqual''] ?src (''import _ from 'lodash'' @ sq) ''_''
       = ([''Unsupported lodash function: unknownFn''], Inr (''import _ from 'lodash'' @ sq))"
    using TB us uf
    by (simp add: isUnsupportedFunction_def isSupportedFunction_def del: scan.simps)
  have c3: "defaultImport_callback [''map''] ?multi ''import l from \"lodash\"'' ''l''
       = ([''Unsupported lodash functions: foo, bar''], Inr ''import l from \"lodash\"'')"
    using TD us5 uf5
    by (simp add: isUnsupportedFunction_def isSupportedFunction_def del: scan.simps)
  have c5: "String_match ''l.foo(); l.map();'' (usageRegex ''l'') = [''l.foo'', ''l.map'']"
    using TC wr by (simp del: scan.simps)
  have c6: "scan (usageRegex ''l'') None ''; l.x''
       = [Skip CHR '';'', Skip CHR '' '', Hit ''l.x'' []]"
    using TC wr by (simp del: scan.simps)
  have c7: "scan defaultImportRegex None ?plain
       = [Hit ''import _ from \"lodash\"'' [''_''], Skip CHR '';'']"
    using TA wr by (simp del: scan.simps)
  have c9: "rewritten (defaultImport_replacer [''isEqual''] ?plain)
         (scan defaultImportRegex None ?plain) = ?plain"
    and c10: "warned (defaultImport_replacer [''isEqual''] ?plain)
         (scan defaultImportRegex None ?plain) = []"
    using TA wr u0
    by (simp_all add: rewritten_simps warned_simps defaultImport_replacer_def capture_def c1
        del: scan.simps)
  have r8: "rewritten (defaultImport_replacer [''isEqual''] ?src)
         (scan defaultImportRegex None ?src) = ?src"
    and w8: "warned (defaultImport_replacer [''isEqual''] ?src)
         (scan defaultImportRegex None ?src) = [''Unsupported lodash function: unknownFn'']"
    using TB wr us uf
    by (simp_all add: rewritten_simps warned_simps isUnsupportedFunction_def
        isSupportedFunction_def defaultImport_replacer_def capture_def c2[simplified]
        del: scan.simps)
  have c8: "String_replace ?src defaultImportRegex 4 (defaultImport_replacer [''isEqual''] ?src)
       = (0, [''Unsupported lodash function: unknownFn''], Inr ?src)"
    using TB r8 w8 by (simp del: scan.simps)
  have c11: "after_defaultImport [''isEqual''] ?src = ?src"
    using TB wr r8 by (simp del: scan.simps)
  have c12: "snd (transform [''isEqual''] ?st ?src ''a.ts'')
       = ([''Unsupported lodash function: unknownFn''],
          Inr (Some \<lparr>code = ?src, source_map = None\<rparr>))"
    using TB by simp
  have c13: "snd (transform [''map''] ?st ?multi ''a.ts'')
       = ([''Unsupported lodash functions: foo, bar''],
          Inr (Some \<lparr>code = ?multi, source_map = None\<rparr>))"
    using TD by simp
  have h: "String_match ''import l from \"lodash\";'' (usageRegex ''l'') = []"
    "hits (scan namedImportsRegex None ''import l from \"lodash\";'') = []"
    "hits (scan defaultSingleImportRegex None ''import l from \"lodash\";'') = []"
    by code_simp+
  have c14: "snd (transform [''map''] ?st ''import l from \"lodash\";'' ''a.ts'')
       = ([], Inr (Some \<lparr>code = ''import l from \"lodash\";'', source_map = None\<rparr>))"
    using TD wr h
    by (simp add: Let_def rewritten_simps warned_simps del: scan.simps)
  from c1 c2 c3 uf c5 c6 c7 c8 c9 c10 c11 c12 c13 c14 show ?thesis by (simp only: simp_thms)
qed

text \<open>
  C4. For a single-function-default import \<open>import Name from 'lodash/symbol'\<close>, with or
  without a trailing \<open>.js\<close> and with either quote: when \<open>symbol\<close> is unsupported the
  transform warns and leaves the statement as it is; when it is supported the statement
  becomes a named import from \<open>'es-toolkit/compat'\<close>, written \<open>symbol as Name\<close> exactly
  when \<open>Name\<close> differs from \<open>symbol\<close> and plain \<open>symbol\<close> otherwise. The third expression
  matches every statement of this shape, handing \<open>Name\<close> and \<open>symbol\<close> to the callback,
  and matches nothing else. The third pass treats every such import of its text so: it
  returns the text with what the callback returned in the place of every match; where its
  scan stands in front of a statement of this shape it replaces or keeps that statement as
  said, writes the warning if there is one, and goes on behind it; and the text the
  transform returns is the text of this pass, run on what the two earlier passes made of
  the input; so for an input that begins with such a statement and holds no import of the
  other two shapes the transform returns the replacement, or the statement kept, followed by
  what the pass makes of the rest, the warning first. \<open>import lodashIsEqual from
  'lodash/isEqual';\<close> with \<open>isEqual\<close>
  supported becomes \<open>import { isEqual as lodashIsEqual } from 'es-toolkit/compat';\<close>, the
  semicolon behind the statement staying where it was. Of three imports on three lines,
  \<open>isEqual\<close> from \<open>'lodash/isEqual'\<close>, \<open>e\<close> from \<open>'lodash/every.js'\<close> and \<open>lodashIsEqual\<close>
  from \<open>'lodash/isEqual'\<close>, with \<open>isEqual\<close> supported and \<open>every\<close> not, the first and the
  third are rewritten, the second is kept, and the one warning names \<open>every\<close>.
\<close>

theorem single_function_import_rewritten:
  "(isUnsupportedFunction supp actual \<longrightarrow>
        defaultSingleImport_callback supp m custom actual
          = ([''Unsupported lodash function: '' @ actual], Inr m))
   \<and> (isSupportedFunction supp actual \<longrightarrow>
        defaultSingleImport_callback supp m custom actual
          = ([], Inr (''import { ''
                        @ (if custom = actual then actual else actual @ '' as '' @ custom)
                        @ '' } from 'es-toolkit/compat'' @ sq)))
   \<and> (space_run ws1 \<and> word_run name \<and> space_run ws2 \<and> space_run ws3 \<and> is_quote q1
        \<and> word_run symb \<and> (ext = [] \<or> ext = ''.js'') \<and> is_quote q2 \<longrightarrow>
        scan defaultSingleImportRegex prev
           (''import'' @ ws1 @ name @ ws2 @ ''from'' @ ws3 @ [q1] @ ''lodash/'' @ symb @ ext
              @ [q2] @ rest)
         = Hit (''import'' @ ws1 @ name @ ws2 @ ''from'' @ ws3 @ [q1] @ ''lodash/'' @ symb
                  @ ext @ [q2])
             [name, symb]
           # scan defaultSingleImportRegex (Some q2) rest)
   \<and> (Hit m' caps \<in> set (scan defaultSingleImportRegex None src) \<longrightarrow>
        (\<exists>ws1 ws2 ws3 q1 q2 ext.
            m' = ''import'' @ ws1 @ capture caps 0 @ ws2 @ ''from'' @ ws3 @ [q1] @ ''lodash/''
                   @ capture caps 1 @ ext @ [q2]
            \<and> space_run ws1 \<and> word_run (capture caps 0) \<and> space_run ws2 \<and> space_run ws3
            \<and> is_quote q1 \<and> word_run (capture caps 1) \<and> (ext = [] \<or> ext = ''.js'')
            \<and> is_quote q2))
   \<and> String_replace s defaultSingleImportRegex lastIndex (defaultSingleImport_replacer supp)
       = (0, warned (defaultSingleImport_replacer supp) (scan defaultSingleImportRegex None s),
          Inr (rewritten (defaultSingleImport_replacer supp)
                 (scan defaultSingleImportRegex None s)))
   \<and> (space_run ws1 \<and> word_run name \<and> space_run ws2 \<and> space_run ws3 \<and> is_quote q1
        \<and> word_run symb \<and> (ext = [] \<or> ext = ''.js'') \<and> is_quote q2 \<longrightarrow>
        rewritten (defaultSingleImport_replacer supp)
           (scan defaultSingleImportRegex prev
              (''import'' @ ws1 @ name @ ws2 @ ''from'' @ ws3 @ [q1] @ ''lodash/'' @ symb @ ext
                 @ [q2] @ rest))
         = (if isSupportedFunction supp symb
            then ''import { '' @ (if name = symb then symb else symb @ '' as '' @ name)
                   @ '' } from 'es-toolkit/compat'' @ sq
            else ''import'' @ ws1 @ name @ ws2 @ ''from'' @ ws3 @ [q1] @ ''lodash/'' @ symb
                   @ ext @ [q2])
           @ rewritten (defaultSingleImport_replacer supp)
               (scan defaultSingleImportRegex (Some q2) rest)
        \<and> warned (defaultSingleImport_replacer supp)
           (scan defaultSingleImportRegex prev
              (''import'' @ ws1 @ name @ ws2 @ ''from'' @ ws3 @ [q1] @ ''lodash/'' @ symb @ ext
                 @ [q2] @ rest))
         = (if isSupportedFunction supp symb then []
            else [''Unsupported lodash function: '' @ symb])
           @ warned (defaultSingleImport_replacer supp)
               (scan defaultSingleImportRegex (Some q2) rest))
   \<and> (sublist ''lodash'' src' \<longrightarrow>
        snd (transform supp st src' fid)
          = (warned (defaultImport_replacer supp src') (scan defaultImportRegex None src')
             @ warned (namedImports_replacer supp)
                 (scan namedImportsRegex None (after_defaultImport supp src'))
             @ warned (defaultSingleImport_replacer supp)
                 (scan defaultSingleImportRegex None (after_namedImports supp src')),
             Inr (Some \<lparr>code = rewritten (defaultSingleImport_replacer supp)
                                 (scan defaultSingleImportRegex None
                                    (after_namedImports supp src')),
                         source_map = None\<rparr>)))
   \<and> (space_run ws1 \<and> word_run name \<and> space_run ws2 \<and> space_run ws3 \<and> is_quote q1
         \<and> word_run symb \<and> (ext = [] \<or> ext = ''.js'') \<and> is_quote q2 \<longrightarrow>
        (let stmt = ''import'' @ ws1 @ name @ ws2 @ ''from'' @ ws3 @ [q1] @ ''lodash/'' @ symb
                         @ ext @ [q2]
            in hits (scan defaultImportRegex None (stmt @ rest)) = []
               \<and> hits (scan namedImportsRegex None (stmt @ rest)) = [] \<longrightarrow>
               snd (transform supp st (stmt @ rest) fid)
                 = ((if isSupportedFunction supp symb then []
                     else [''Unsupported lodash function: '' @ symb])
                    @ warned (defaultSingleImport_replacer supp)
                        (scan defaultSingleImportRegex (Some q2) rest),
                    Inr (Some \<lparr>code =
                           (if isSupportedFunction supp symb
                            then ''import { '' @ (if name = symb then symb else symb @ '' as '' @ name)
                                   @ '' } from 'es-toolkit/compat'' @ sq
                            else stmt)
                           @ rewritten (defaultSingleImport_replacer supp)
                               (scan defaultSingleImportRegex (Some q2) rest),
                         source_map = None\<rparr>))))
   \<and> (''isEqual'' \<in> set supp \<longrightarrow>
        scan defaultSingleImportRegex None (''import lodashIsEqual from 'lodash/isEqual';'')
          = [Hit (''import lodashIsEqual from 'lodash/isEqual'' @ sq)
               [''lodashIsEqual'', ''isEqual''],
             Skip CHR '';'']
        \<and> defaultSingleImport_callback supp (''import lodashIsEqual from 'lodash/isEqual'' @ sq)
            ''lodashIsEqual'' ''isEqual''
          = ([], Inr (''import { isEqual as lodashIsEqual } from 'es-toolkit/compat'' @ sq))
        \<and> snd (transform supp st (''import lodashIsEqual from 'lodash/isEqual';'') fid)
          = ([], Inr (Some \<lparr>code = ''import { isEqual as lodashIsEqual } from 'es-toolkit/compat';'',
                            source_map = None\<rparr>)))
   \<and> (''isEqual'' \<in> set supp \<and> ''every'' \<notin> set supp \<longrightarrow>
        snd (transform supp st
               ''import isEqual from 'lodash/isEqual';\<newline>import e from \"lodash/every.js\";\<newline>import lodashIsEqual from 'lodash/isEqual';''
               fid)
          = ([''Unsupported lodash function: every''],
             Inr (Some \<lparr>code = ''import { isEqual } from 'es-toolkit/compat';\<newline>import e from \"lodash/every.js\";\<newline>import { isEqual as lodashIsEqual } from 'es-toolkit/compat';'',
                         source_map = None\<rparr>)))"
proof (intro conjI impI)
  assume "isUnsupportedFunction supp actual"
  then show "defaultSingleImport_callback supp m custom actual
          = ([''Unsupported lodash function: '' @ actual], Inr m)"
    by (simp add: defaultSingleImport_callback_def warnUnsupportedFunction_def)
next
  assume "isSupportedFunction supp actual"
  then show "defaultSingleImport_callback supp m custom actual
          = ([], Inr (''import { ''
                        @ (if custom = actual then actual else actual @ '' as '' @ custom)
                        @ '' } from 'es-toolkit/compat'' @ sq))"
    by (auto simp: defaultSingleImport_callback_def isUnsupportedFunction_def)
next
  assume "space_run ws1 \<and> word_run name \<and> space_run ws2 \<and> space_run ws3 \<and> is_quote q1
        \<and> word_run symb \<and> (ext = [] \<or> ext = ''.js'') \<and> is_quote q2"
  then have "rx_match_here defaultSingleImportRegex prev
           ((''import'' @ ws1 @ name @ ws2 @ ''from'' @ ws3 @ [q1] @ ''lodash/'' @ symb @ ext
              @ [q2]) @ rest)
         = Some (''import'' @ ws1 @ name @ ws2 @ ''from'' @ ws3 @ [q1] @ ''lodash/'' @ symb
                   @ ext @ [q2],
                 [name, symb])"
    using defaultSingleImportRegex_accepts[of ws1 name ws2 ws3 q1 symb ext q2 prev rest] by simp
  from scan_at_match[OF this]
  show "scan defaultSingleImportRegex prev
           (''import'' @ ws1 @ name @ ws2 @ ''from'' @ ws3 @ [q1] @ ''lodash/'' @ symb @ ext
              @ [q2] @ rest)
         = Hit (''import'' @ ws1 @ name @ ws2 @ ''from'' @ ws3 @ [q1] @ ''lodash/'' @ symb
                  @ ext @ [q2])
             [name, symb]
           # scan defaultSingleImportRegex (Some q2) rest"
    by (simp del: scan.simps)
next
  assume "Hit m' caps \<in> set (scan defaultSingleImportRegex None src)"
  from scan_hit_is_match[OF this] obtain prev' s' where
    "rx_match_here defaultSingleImportRegex prev' s' = Some (m', caps)" by blast
  from defaultSingleImportRegex_shape[OF this] obtain ws1 name ws2 ws3 q1 symb q2 where
    m: "m' = ''import'' @ ws1 @ name @ ws2 @ ''from'' @ ws3 @ [q1] @ ''lodash/'' @ symb @ [q2]
        \<or> m' = ''import'' @ ws1 @ name @ ws2 @ ''from'' @ ws3 @ [q1] @ ''lodash/'' @ symb
                    @ ''.js'' @ [q2]"
    and c: "caps = [name, symb]"
    and r: "space_run ws1" "word_run name" "space_run ws2" "space_run ws3" "is_quote q1"
      "word_run symb" "is_quote q2"
    by blast
  from m obtain ext where
    "m' = ''import'' @ ws1 @ name @ ws2 @ ''from'' @ ws3 @ [q1] @ ''lodash/'' @ symb @ ext @ [q2]"
    "ext = [] \<or> ext = ''.js''"
    by auto
  then show "\<exists>ws1 ws2 ws3 q1 q2 ext.
            m' = ''import'' @ ws1 @ capture caps 0 @ ws2 @ ''from'' @ ws3 @ [q1] @ ''lodash/''
                   @ capture caps 1 @ ext @ [q2]
            \<and> space_run ws1 \<and> word_run (capture caps 0) \<and> space_run ws2 \<and> space_run ws3
            \<and> is_quote q1 \<and> word_run (capture caps 1) \<and> (ext = [] \<or> ext = ''.js'')
            \<and> is_quote q2"
    using c r unfolding capture_def by (intro exI[of _ ws1] exI[of _ ws2] exI[of _ ws3]
        exI[of _ q1] exI[of _ q2] exI[of _ ext]) simp
next
  show "String_replace s defaultSingleImportRegex lastIndex (defaultSingleImport_replacer supp)
       = (0, warned (defaultSingleImport_replacer supp) (scan defaultSingleImportRegex None s),
          Inr (rewritten (defaultSingleImport_replacer supp)
                 (scan defaultSingleImportRegex None s)))"
    by (rule String_replace_in_place) (rule replacers_ok)
next
  assume a: "space_run ws1 \<and> word_run name \<and> space_run ws2 \<and> space_run ws3 \<and> is_quote q1
        \<and> word_run symb \<and> (ext = [] \<or> ext = ''.js'') \<and> is_quote q2"
  let ?stmt = "''import'' @ ws1 @ name @ ws2 @ ''from'' @ ws3 @ [q1] @ ''lodash/'' @ symb
                   @ ext @ [q2]"
  from a have "rx_match_here defaultSingleImportRegex prev (?stmt @ rest)
         = Some (?stmt, [name, symb])"
    using defaultSingleImportRegex_accepts[of ws1 name ws2 ws3 q1 symb ext q2 prev rest] by simp
  from scan_at_match[OF this]
  have sc: "scan defaultSingleImportRegex prev
           (''import'' @ ws1 @ name @ ws2 @ ''from'' @ ws3 @ [q1] @ ''lodash/'' @ symb @ ext
              @ [q2] @ rest)
         = Hit ?stmt [name, symb] # scan defaultSingleImportRegex (Some q2) rest"
    by (simp del: scan.simps)
  show "rewritten (defaultSingleImport_replacer supp)
           (scan defaultSingleImportRegex prev
              (''import'' @ ws1 @ name @ ws2 @ ''from'' @ ws3 @ [q1] @ ''lodash/'' @ symb @ ext
                 @ [q2] @ rest))
         = (if isSupportedFunction supp symb
            then ''import { '' @ (if name = symb then symb else symb @ '' as '' @ name)
                   @ '' } from 'es-toolkit/compat'' @ sq
            else ''import'' @ ws1 @ name @ ws2 @ ''from'' @ ws3 @ [q1] @ ''lodash/'' @ symb
                   @ ext @ [q2])
           @ rewritten (defaultSingleImport_replacer supp)
               (scan defaultSingleImportRegex (Some q2) rest)"
    unfolding sc
    by (simp add: rewritten_simps defaultSingleImport_replacer_def capture_def
        defaultSingleImport_callback_def isUnsupportedFunction_def del: scan.simps)
  show "warned (defaultSingleImport_replacer supp)
           (scan defaultSingleImportRegex prev
              (''import'' @ ws1 @ name @ ws2 @ ''from'' @ ws3 @ [q1] @ ''lodash/'' @ symb @ ext
                 @ [q2] @ rest))
         = (if isSupportedFunction supp symb then []
            else [''Unsupported lodash function: '' @ symb])
           @ warned (defaultSingleImport_replacer supp)
               (scan defaultSingleImportRegex (Some q2) rest)"
    unfolding sc
    by (simp add: warned_simps defaultSingleImport_replacer_def capture_def
        defaultSingleImport_callback_def isUnsupportedFunction_def warnUnsupportedFunction_def
        del: scan.simps)
next
  assume "sublist ''lodash'' src'"
  then have "includes_str src' ''lodash''" by (simp add: includes_str_sublist)
  from transform_in_place[OF this, of supp st fid]
  show "snd (transform supp st src' fid)
          = (warned (defaultImport_replacer supp src') (scan defaultImportRegex None src')
             @ warned (namedImports_replacer supp)
                 (scan namedImportsRegex None (after_defaultImport supp src'))
             @ warned (defaultSingleImport_replacer supp)
                 (scan defaultSingleImportRegex None (after_namedImports supp src')),
             Inr (Some \<lparr>code = rewritten (defaultSingleImport_replacer supp)
                                 (scan defaultSingleImportRegex None
                                    (after_namedImports supp src')),
                         source_map = None\<rparr>))"
    by (simp add: after_defaultSingleImport_def del: scan.simps)
next
  assume a: "space_run ws1 \<and> word_run name \<and> space_run ws2 \<and> space_run ws3 \<and> is_quote q1
        \<and> word_run symb \<and> (ext = [] \<or> ext = ''.js'') \<and> is_quote q2"
  show "let stmt = ''import'' @ ws1 @ name @ ws2 @ ''from'' @ ws3 @ [q1] @ ''lodash/'' @ symb
                      @ ext @ [q2]
         in hits (scan defaultImportRegex None (stmt @ rest)) = []
            \<and> hits (scan namedImportsRegex None (stmt @ rest)) = [] \<longrightarrow>
            snd (transform supp st (stmt @ rest) fid)
              = ((if isSupportedFunction supp symb then []
                  else [''Unsupported lodash function: '' @ symb])
                 @ warned (defaultSingleImport_replacer supp)
                     (scan defaultSingleImportRegex (Some q2) rest),
                 Inr (Some \<lparr>code =
                        (if isSupportedFunction supp symb
                         then ''import { '' @ (if name = symb then symb else symb @ '' as '' @ name)
                                @ '' } from 'es-toolkit/compat'' @ sq
                         else stmt)
                        @ rewritten (defaultSingleImport_replacer supp)
                            (scan defaultSingleImportRegex (Some q2) rest),
                      source_map = None\<rparr>))"
    by (rule single_function_import_at_front[OF a])
next
  assume sup: "''isEqual'' \<in> set supp"
  let ?src = "''import lodashIsEqual from 'lodash/isEqual';''"
  let ?out = "''import { isEqual as lodashIsEqual } from 'es-toolkit/compat';''"
  have inc: "includes_str ?src ''lodash''" by code_simp
  have s1: "scan defaultImportRegex None ?src = map Skip ?src" by code_simp
  have s2: "scan namedImportsRegex None ?src = map Skip ?src" by code_simp
  have s3: "scan defaultSingleImportRegex None ?src
      = Hit (''import lodashIsEqual from 'lodash/isEqual'' @ sq) [''lodashIsEqual'', ''isEqual'']
          # map Skip '';''"
    by code_simp
  then show "scan defaultSingleImportRegex None ?src
          = [Hit (''import lodashIsEqual from 'lodash/isEqual'' @ sq)
               [''lodashIsEqual'', ''isEqual''],
             Skip CHR '';'']"
    by (simp del: scan.simps)
  have cb: "defaultSingleImport_callback supp (''import lodashIsEqual from 'lodash/isEqual'' @ sq)
       ''lodashIsEqual'' ''isEqual''
      = ([], Inr (''import { isEqual as lodashIsEqual } from 'es-toolkit/compat'' @ sq))"
    using sup
    by (simp add: defaultSingleImport_callback_def isUnsupportedFunction_def
        isSupportedFunction_def)
  then show "defaultSingleImport_callback supp
            (''import lodashIsEqual from 'lodash/isEqual'' @ sq) ''lodashIsEqual'' ''isEqual''
          = ([], Inr (''import { isEqual as lodashIsEqual } from 'es-toolkit/compat'' @ sq))" .
  have p3: "run_callbacks
        (\<lambda>match caps. defaultSingleImport_callback supp match (capture caps 0) (capture caps 1))
        (scan defaultSingleImportRegex None ?src) = ([], Inr ?out)"
    unfolding s3 by (simp add: capture_def cb[simplified] run_callbacks_Skips del: map_map)
  show "snd (transform supp st ?src fid)
          = ([], Inr (Some \<lparr>code = ?out, source_map = None\<rparr>))"
    unfolding transform_def String_replace_def
    by (simp only: inc s1 s2 p3 run_callbacks_Skips if_True Let_def prod.case sum.case
        snd_conv append_Nil append_Nil2)
next
  assume sup: "''isEqual'' \<in> set supp \<and> ''every'' \<notin> set supp"
  let ?src = "''import isEqual from 'lodash/isEqual';\<newline>import e from \"lodash/every.js\";\<newline>import lodashIsEqual from 'lodash/isEqual';''"
  let ?out = "''import { isEqual } from 'es-toolkit/compat';\<newline>import e from \"lodash/every.js\";\<newline>import { isEqual as lodashIsEqual } from 'es-toolkit/compat';''"
  have inc: "includes_str ?src ''lodash''" by code_simp
  have s1: "scan defaultImportRegex None ?src = map Skip ?src" by code_simp
  have s2: "scan namedImportsRegex None ?src = map Skip ?src" by code_simp
  have s3: "scan defaultSingleImportRegex None ?src
      = Hit (''import isEqual from 'lodash/isEqual'' @ sq) [''isEqual'', ''isEqual'']
          # map Skip '';\<newline>''
          @ Hit ''import e from \"lodash/every.js\"'' [''e'', ''every'']
          # map Skip '';\<newline>''
          @ Hit (''import lodashIsEqual from 'lodash/isEqual'' @ sq)
              [''lodashIsEqual'', ''isEqual'']
          # map Skip '';''"
    by code_simp
  have a1: "after_defaultImport supp ?src = ?src"
    unfolding after_defaultImport_def s1 by (simp only: rewritten_simps)
  have a2: "after_namedImports supp ?src = ?src"
    unfolding after_namedImports_def a1 s2 by (simp only: rewritten_simps)
  have w1: "warned (defaultImport_replacer supp ?src) (scan defaultImportRegex None ?src) = []"
    unfolding s1 by (simp only: warned_simps)
  have w2: "warned (namedImports_replacer supp)
      (scan namedImportsRegex None (after_defaultImport supp ?src)) = []"
    unfolding a1 s2 by (simp only: warned_simps)
  have a3: "after_defaultSingleImport supp ?src = ?out"
    unfolding after_defaultSingleImport_def a2 s3 using sup
    by (simp add: rewritten_simps defaultSingleImport_replacer_def capture_def
        defaultSingleImport_callback_def isUnsupportedFunction_def isSupportedFunction_def
        del: scan.simps)
  have w3: "warned (defaultSingleImport_replacer supp)
      (scan defaultSingleImportRegex None (after_namedImports supp ?src))
      = [''Unsupported lodash function: every'']"
    unfolding a2 s3 using sup
    by (simp add: warned_simps defaultSingleImport_replacer_def capture_def
        defaultSingleImport_callback_def isUnsupportedFunction_def isSupportedFunction_def
        warnUnsupportedFunction_def del: scan.simps)
  show "snd (transform supp st ?src fid)
          = ([''Unsupported lodash function: every''],
             Inr (Some \<lparr>code = ?out, source_map = None\<rparr>))"
    unfolding transform_in_place[OF inc] w1 w2 w3 a3 by simp
qed

theorem single_function_import_rewritten_witness:
  "defaultSingleImport_callback [''isEqual''] ''import every from \"lodash/every\"'' ''every'' ''every''
     = ([''Unsupported lodash function: every''], Inr ''import every from \"lodash/every\"'')
   \<and> defaultSingleImport_callback [''isEqual''] ''import isEqual from \"lodash/isEqual.js\"''
         ''isEqual'' ''isEqual''
       = ([], Inr (''import { isEqual } from 'es-toolkit/compat'' @ sq))
   \<and> scan defaultSingleImportRegex None ''import isEqual from \"lodash/isEqual.js\";''
       = [Hit ''import isEqual from \"lodash/isEqual.js\"'' [''isEqual'', ''isEqual''],
          Skip CHR '';'']
   \<and> (\<exists>ws1 ws2 ws3 q1 q2 ext.
          ''import isEqual from \"lodash/isEqual.js\"''
            = ''import'' @ ws1 @ ''isEqual'' @ ws2 @ ''from'' @ ws3 @ [q1] @ ''lodash/''
                @ ''isEqual'' @ ext @ [q2]
          \<and> space_run ws1 \<and> word_run ''isEqual'' \<and> space_run ws2 \<and> space_run ws3
          \<and> is_quote q1 \<and> (ext = [] \<or> ext = ''.js'') \<and> is_quote q2)
   \<and> String_replace ''import isEqual from \"lodash/isEqual.js\";'' defaultSingleImportRegex 5
         (defaultSingleImport_replacer [''isEqual''])
       = (0, [], Inr (''import { isEqual } from 'es-toolkit/compat';''))
   \<and> snd (transform [''isEqual'']
             \<lparr>defaultImport_lastIndex = 0, namedImports_lastIndex = 0,
              defaultSingleImport_lastIndex = 0\<rparr>
             (''import lodashIsEqual from 'lodash/isEqual';'') ''a.ts'')
       = ([], Inr (Some \<lparr>code = ''import { isEqual as lodashIsEqual } from 'es-toolkit/compat';'',
                         source_map = None\<rparr>))
   \<and> snd (transform [''isEqual'']
             \<lparr>defaultImport_lastIndex = 0, namedImports_lastIndex = 0,
              defaultSingleImport_lastIndex = 0\<rparr>
             ''import isEqual from 'lodash/isEqual';\<newline>import e from \"lodash/every.js\";\<newline>import lodashIsEqual from 'lodash/isEqual';''
             ''a.ts'')
       = ([''Unsupported lodash function: every''],
          Inr (Some \<lparr>code = ''import { isEqual } from 'es-toolkit/compat';\<newline>import e from \"lodash/every.js\";\<newline>import { isEqual as lodashIsEqual } from 'es-toolkit/compat';'',
                      source_map = None\<rparr>))
   \<and> snd (transform [''isEqual'']
             \<lparr>defaultImport_lastIndex = 0, namedImports_lastIndex = 0,
              defaultSingleImport_lastIndex = 0\<rparr>
             ''import isEqual from \"lodash/isEqual.js\";'' ''a.ts'')
       = ([], Inr (Some \<lparr>code = ''import { isEqual } from 'es-toolkit/compat';'',
                         source_map = None\<rparr>))"
proof -
  let ?st = "\<lparr>defaultImport_lastIndex = 0, namedImports_lastIndex = 0,
              defaultSingleImport_lastIndex = 0\<rparr>"
  let ?s = "''import isEqual from \"lodash/isEqual.js\";''"
  have w: "space_run '' ''" "word_run ''isEqual''" "is_quote (CHR 0x22)"
    "scan defaultSingleImportRegex (Some (CHR 0x22)) '';'' = [Skip CHR '';'']"
    by code_simp+
  have hit: "Hit ''import isEqual from \"lodash/isEqual.js\"'' [''isEqual'', ''isEqual'']
      \<in> set (scan defaultSingleImportRegex None ?s)"
    by code_simp
  note T1 = single_function_import_rewritten[where supp="[''isEqual'']" and actual="''every''"
      and custom="''every''" and m="''import every from \"lodash/every\"''"
      and ?ws1.0="'' ''" and ?ws2.0="'' ''" and ?ws3.0="'' ''" and name="''isEqual''"
      and symb="''isEqual''" and ext="''.js''" and ?q1.0="CHR 0x22" and ?q2.0="CHR 0x22"
      and rest="'';''" and prev=None and st="?st" and fid="''a.ts''"
      and m'="''import isEqual from \"lodash/isEqual.js\"''" and caps="[''isEqual'', ''isEqual'']"
      and src="?s" and s="?s" and lastIndex=5 and src'="?s"]
  note T2 = single_function_import_rewritten[where supp="[''isEqual'']" and actual="''isEqual''"
      and custom="''isEqual''" and m="''import isEqual from \"lodash/isEqual.js\"''"
      and ?ws1.0="'' ''" and ?ws2.0="'' ''" and ?ws3.0="'' ''" and name="''isEqual''"
      and symb="''isEqual''" and ext="''.js''" and ?q1.0="CHR 0x22" and ?q2.0="CHR 0x22"
      and rest="'';''" and prev=None and st="?st" and fid="''a.ts''"
      and m'="''import isEqual from \"lodash/isEqual.js\"''" and caps="[''isEqual'', ''isEqual'']"
      and src="?s" and s="?s" and lastIndex=5 and src'="?s"]
  have c1: "defaultSingleImport_callback [''isEqual''] ''import every from \"lodash/every\"''
      ''every'' ''every''
     = ([''Unsupported lodash function: every''], Inr ''import every from \"lodash/every\"'')"
    using T1 by (simp add: isUnsupportedFunction_def isSupportedFunction_def)
  have c2: "defaultSingleImport_callback [''isEqual''] ''import isEqual from \"lodash/isEqual.js\"''
         ''isEqual'' ''isEqual''
       = ([], Inr (''import { isEqual } from 'es-toolkit/compat'' @ sq))"
    using T2 by (simp add: isUnsupportedFunction_def isSupportedFunction_def)
  have c3: "scan defaultSingleImportRegex None ?s
       = [Hit ''import isEqual from \"lodash/isEqual.js\"'' [''isEqual'', ''isEqual''],
          Skip CHR '';'']"
    using T2 w by (simp del: scan.simps)
  have c4: "\<exists>ws1 ws2 ws3 q1 q2 ext.
          ''import isEqual from \"lodash/isEqual.js\"''
            = ''import'' @ ws1 @ ''isEqual'' @ ws2 @ ''from'' @ ws3 @ [q1] @ ''lodash/''
                @ ''isEqual'' @ ext @ [q2]
          \<and> space_run ws1 \<and> word_run ''isEqual'' \<and> space_run ws2 \<and> space_run ws3
          \<and> is_quote q1 \<and> (ext = [] \<or> ext = ''.js'') \<and> is_quote q2"
    using T2 hit by (simp add: capture_def del: scan.simps) blast
  have c5: "String_replace ?s defaultSingleImportRegex 5
         (defaultSingleImport_replacer [''isEqual''])
       = (0, [], Inr (''import { isEqual } from 'es-toolkit/compat';''))"
    using T2 w
    by (simp add: isSupportedFunction_def isUnsupportedFunction_def rewritten_simps warned_simps
        defaultSingleImport_replacer_def capture_def del: scan.simps)
  have c6: "snd (transform [''isEqual''] ?st
             (''import lodashIsEqual from 'lodash/isEqual';'') ''a.ts'')
       = ([], Inr (Some \<lparr>code = ''import { isEqual as lodashIsEqual } from 'es-toolkit/compat';'',
                         source_map = None\<rparr>))"
    using T2 by simp
  have c7: "snd (transform [''isEqual''] ?st
             ''import isEqual from 'lodash/isEqual';\<newline>import e from \"lodash/every.js\";\<newline>import lodashIsEqual from 'lodash/isEqual';''
             ''a.ts'')
       = ([''Unsupported lodash function: every''],
          Inr (Some \<lparr>code = ''import { isEqual } from 'es-toolkit/compat';\<newline>import e from \"lodash/every.js\";\<newline>import { isEqual as lodashIsEqual } from 'es-toolkit/compat';'',
                      source_map = None\<rparr>))"
    using T2 by simp
  have h: "hits (scan defaultImportRegex None ?s) = []"
    "hits (scan namedImportsRegex None ?s) = []"
    by code_simp+
  have c8: "snd (transform [''isEqual''] ?st ?s ''a.ts'')
       = ([], Inr (Some \<lparr>code = ''import { isEqual } from 'es-toolkit/compat';'',
                         source_map = None\<rparr>))"
    using T2 w h
    by (simp add: Let_def isSupportedFunction_def isUnsupportedFunction_def rewritten_simps
        warned_simps del: scan.simps)
  from c1 c2 c3 c4 c5 c6 c7 c8 show ?thesis by (simp only: simp_thms)
qed

text \<open>
  C2. A named-list import \<open>import { list } from 'lodash'\<close> whose parsed tokens fall into a
  non-empty supported group and a non-empty unsupported group is replaced by exactly two
  import statements on one line: the import of the supported group from
  \<open>'es-toolkit/compat'\<close> first, then the import of the unsupported group from \<open>'lodash'\<close>,
  with the plain \<open>;\<close> between them and no line break added; and one warning names the
  unsupported symbols (\<open>Unsupported lodash function: f\<close> for one symbol,
  \<open>Unsupported lodash functions: f, g\<close> for several). For a list of plain names separated
  by \<open>', '\<close> the two groups are the supported and the unsupported names, each in the order
  of the list. The second expression matches every import of this shape whose list begins
  with a token, handing the list to the callback, and whatever it matches has this shape.
  The second pass treats every such import of its text so: it returns the text with what
  the callback returned in the place of every match; where its scan stands in front of such
  an import of plain names it puts the two imports in its place, writes the warning and
  goes on behind it; and the transform returns what the third pass makes of the text of
  the second, run on the text of the first; so for an input that begins with such an import
  and holds no import of the first shape, the third pass finding nothing in the text of the
  second, the transform returns the two imports followed by what the second pass makes of
  the rest, the warning first. In particular
  \<open>import { isEqual, every } from 'lodash';\<close> with \<open>isEqual\<close> supported and \<open>every\<close> not
  becomes \<open>import { isEqual } from 'es-toolkit/compat';import { every } from 'lodash';\<close>:
  the statement is replaced by the two imports and the semicolon behind it stays. Of two
  imports on two lines, \<open>{ isEqual, every, some as s }\<close> and \<open>{ foo, map }\<close>, with \<open>isEqual\<close>
  and \<open>map\<close> supported and the others not, each is split in this way, the first with the
  warning \<open>Unsupported lodash functions: every, some\<close> and the second with
  \<open>Unsupported lodash function: foo\<close>.
\<close>

theorem named_list_split:
  "(map_parse (namedImportNames raw) = Inr parsed
      \<and> filter (\<lambda>n. isSupportedFunction supp (actualName n)) parsed \<noteq> []
      \<and> filter (\<lambda>n. isUnsupportedFunction supp (actualName n)) parsed \<noteq> [] \<longrightarrow>
     (let currentSupportedFunctions =
            filter (\<lambda>n. isSupportedFunction supp (actualName n)) parsed;
          unsupportedFunctions =
            filter (\<lambda>n. isUnsupportedFunction supp (actualName n)) parsed;
          names = map actualName unsupportedFunctions
      in namedImports_callback supp m raw
           = ([''Unsupported lodash function'' @ (if length names > 1 then ''s'' else [])
                 @ '': '' @ join_str names '', ''],
              Inr (''import { '' @ renderNamedImports currentSupportedFunctions
                     @ '' } from 'es-toolkit/compat';import { ''
                     @ renderNamedImports unsupportedFunctions
                     @ '' } from 'lodash'' @ sq))))
   \<and> ((\<forall>x \<in> set xs. word_run x) \<and> list_all is_space_char p \<and> list_all is_space_char t
        \<and> filter (isSupportedFunction supp) xs \<noteq> []
        \<and> filter (isUnsupportedFunction supp) xs \<noteq> [] \<longrightarrow>
     namedImports_callback supp m (p @ join_str xs '', '' @ t)
       = ([''Unsupported lodash function''
             @ (if length (filter (isUnsupportedFunction supp) xs) > 1 then ''s'' else [])
             @ '': '' @ join_str (filter (isUnsupportedFunction supp) xs) '', ''],
          Inr (''import { '' @ join_str (filter (isSupportedFunction supp) xs) '', ''
                 @ '' } from 'es-toolkit/compat';import { ''
                 @ join_str (filter (isUnsupportedFunction supp) xs) '', ''
                 @ '' } from 'lodash'' @ sq)))
   \<and> (space_run ws1 \<and> list_all is_space_char ws2 \<and> raw' \<noteq> [] \<and> list_all named_list_char raw'
        \<and> \<not> is_space_char (hd raw') \<and> space_run ws4 \<and> space_run ws5 \<and> is_quote q1
        \<and> is_quote q2 \<longrightarrow>
     scan namedImportsRegex prev
         (''import'' @ ws1 @ ''{'' @ ws2 @ raw' @ ''}'' @ ws4 @ ''from'' @ ws5 @ [q1]
            @ ''lodash'' @ [q2] @ rest)
       = Hit (''import'' @ ws1 @ ''{'' @ ws2 @ raw' @ ''}'' @ ws4 @ ''from'' @ ws5 @ [q1]
                @ ''lodash'' @ [q2])
           [raw']
         # scan namedImportsRegex (Some q2) rest)
   \<and> (Hit m' caps \<in> set (scan namedImportsRegex None src) \<longrightarrow>
        (\<exists>ws1 ws2 ws3 ws4 ws5 q1 q2.
            m' = ''import'' @ ws1 @ ''{'' @ ws2 @ capture caps 0 @ ws3 @ ''}'' @ ws4 @ ''from''
                   @ ws5 @ [q1] @ ''lodash'' @ [q2]
            \<and> space_run ws1 \<and> list_all is_space_char ws2
            \<and> capture caps 0 \<noteq> [] \<and> list_all named_list_char (capture caps 0)
            \<and> list_all is_space_char ws3 \<and> space_run ws4 \<and> space_run ws5
            \<and> is_quote q1 \<and> is_quote q2))
   \<and> String_replace s namedImportsRegex lastIndex (namedImports_replacer supp)
       = (0, warned (namedImports_replacer supp) (scan namedImportsRegex None s),
          Inr (rewritten (namedImports_replacer supp) (scan namedImportsRegex None s)))
   \<and> ((\<forall>x \<in> set xs. word_run x) \<and> list_all is_space_char t
        \<and> filter (isSupportedFunction supp) xs \<noteq> []
        \<and> filter (isUnsupportedFunction supp) xs \<noteq> []
        \<and> space_run ws1 \<and> list_all is_space_char ws2 \<and> space_run ws4 \<and> space_run ws5
        \<and> is_quote q1 \<and> is_quote q2 \<longrightarrow>
     rewritten (namedImports_replacer supp)
        (scan namedImportsRegex prev
           (''import'' @ ws1 @ ''{'' @ ws2 @ join_str xs '', '' @ t @ ''}'' @ ws4 @ ''from''
              @ ws5 @ [q1] @ ''lodash'' @ [q2] @ rest))
       = ''import { '' @ join_str (filter (isSupportedFunction supp) xs) '', ''
           @ '' } from 'es-toolkit/compat';import { ''
           @ join_str (filter (isUnsupportedFunction supp) xs) '', ''
           @ '' } from 'lodash'' @ sq
           @ rewritten (namedImports_replacer supp) (scan namedImportsRegex (Some q2) rest)
     \<and> warned (namedImports_replacer supp)
        (scan namedImportsRegex prev
           (''import'' @ ws1 @ ''{'' @ ws2 @ join_str xs '', '' @ t @ ''}'' @ ws4 @ ''from''
              @ ws5 @ [q1] @ ''lodash'' @ [q2] @ rest))
       = (''Unsupported lodash function''
             @ (if length (filter (isUnsupportedFunction supp) xs) > 1 then ''s'' else [])
             @ '': '' @ join_str (filter (isUnsupportedFunction supp) xs) '', '')
         # warned (namedImports_replacer supp) (scan namedImportsRegex (Some q2) rest))
   \<and> (sublist ''lodash'' src' \<longrightarrow>
        snd (transform supp st src' fid)
          = (warned (defaultImport_replacer supp src') (scan defaultImportRegex None src')
             @ warned (namedImports_replacer supp)
                 (scan namedImportsRegex None (after_defaultImport supp src'))
             @ warned (defaultSingleImport_replacer supp)
                 (scan defaultSingleImportRegex None (after_namedImports supp src')),
             Inr (Some \<lparr>code = after_defaultSingleImport supp src', source_map = None\<rparr>))
        \<and> after_namedImports supp src'
          = rewritten (namedImports_replacer supp)
              (scan namedImportsRegex None (after_defaultImport supp src')))
   \<and> ((\<forall>x \<in> set xs. word_run x) \<and> list_all is_space_char t
         \<and> filter (isSupportedFunction supp) xs \<noteq> []
         \<and> filter (isUnsupportedFunction supp) xs \<noteq> []
         \<and> space_run ws1 \<and> list_all is_space_char ws2 \<and> space_run ws4 \<and> space_run ws5
         \<and> is_quote q1 \<and> is_quote q2 \<longrightarrow>
        (let stmt = ''import'' @ ws1 @ ''{'' @ ws2 @ join_str xs '', '' @ t @ ''}'' @ ws4
                         @ ''from'' @ ws5 @ [q1] @ ''lodash'' @ [q2];
                two = ''import { '' @ join_str (filter (isSupportedFunction supp) xs) '', ''
                        @ '' } from 'es-toolkit/compat';import { ''
                        @ join_str (filter (isUnsupportedFunction supp) xs) '', ''
                        @ '' } from 'lodash'' @ sq;
                behind = rewritten (namedImports_replacer supp) (scan namedImportsRegex (Some q2) rest)
            in hits (scan defaultImportRegex None (stmt @ rest)) = []
               \<and> hits (scan defaultSingleImportRegex None (two @ behind)) = [] \<longrightarrow>
               snd (transform supp st (stmt @ rest) fid)
                 = ((''Unsupported lodash function''
                       @ (if length (filter (isUnsupportedFunction supp) xs) > 1 then ''s'' else [])
                       @ '': '' @ join_str (filter (isUnsupportedFunction supp) xs) '', '')
                    # warned (namedImports_replacer supp) (scan namedImportsRegex (Some q2) rest),
                    Inr (Some \<lparr>code = two @ behind, source_map = None\<rparr>))))
   \<and> (''isEqual'' \<in> set supp \<and> ''every'' \<notin> set supp \<longrightarrow>
        scan namedImportsRegex None (''import { isEqual, every } from 'lodash';'')
          = [Hit (''import { isEqual, every } from 'lodash'' @ sq) [''isEqual, every ''],
             Skip CHR '';'']
        \<and> namedImports_callback supp (''import { isEqual, every } from 'lodash'' @ sq)
            ''isEqual, every ''
          = ([''Unsupported lodash function: every''],
             Inr (''import { isEqual } from 'es-toolkit/compat';import { every } from 'lodash''
                    @ sq))
        \<and> snd (transform supp st (''import { isEqual, every } from 'lodash';'') fid)
          = ([''Unsupported lodash function: every''],
             Inr (Some \<lparr>code = ''import { isEqual } from 'es-toolkit/compat';import { every } from 'lodash';'',
                         source_map = None\<rparr>)))
   \<and> (''isEqual'' \<in> set supp \<and> ''map'' \<in> set supp \<and> ''every'' \<notin> set supp
        \<and> ''some'' \<notin> set supp \<and> ''foo'' \<notin> set supp \<longrightarrow>
        snd (transform supp st
               ''import { isEqual, every, some as s } from 'lodash';\<newline>import { foo, map } from \"lodash\";''
               fid)
          = ([''Unsupported lodash functions: every, some'',
              ''Unsupported lodash function: foo''],
             Inr (Some \<lparr>code = ''import { isEqual } from 'es-toolkit/compat';import { every, some as s } from 'lodash';\<newline>import { map } from 'es-toolkit/compat';import { foo } from 'lodash';'',
                         source_map = None\<rparr>)))"
proof (intro conjI impI)
  assume "map_parse (namedImportNames raw) = Inr parsed
      \<and> filter (\<lambda>n. isSupportedFunction supp (actualName n)) parsed \<noteq> []
      \<and> filter (\<lambda>n. isUnsupportedFunction supp (actualName n)) parsed \<noteq> []"
  then show "let currentSupportedFunctions =
            filter (\<lambda>n. isSupportedFunction supp (actualName n)) parsed;
          unsupportedFunctions =
            filter (\<lambda>n. isUnsupportedFunction supp (actualName n)) parsed;
          names = map actualName unsupportedFunctions
      in namedImports_callback supp m raw
           = ([''Unsupported lodash function'' @ (if length names > 1 then ''s'' else [])
                 @ '': '' @ join_str names '', ''],
              Inr (''import { '' @ renderNamedImports currentSupportedFunctions
                     @ '' } from 'es-toolkit/compat';import { ''
                     @ renderNamedImports unsupportedFunctions
                     @ '' } from 'lodash'' @ sq))"
    by (simp add: namedImports_callback_def Let_def warnUnsupportedFunction_def)
next
  assume a: "(\<forall>x \<in> set xs. word_run x) \<and> list_all is_space_char p \<and> list_all is_space_char t
        \<and> filter (isSupportedFunction supp) xs \<noteq> []
        \<and> filter (isUnsupportedFunction supp) xs \<noteq> []"
  then have "xs \<noteq> []" by auto
  from namedImports_callback_words[OF this, of p t supp m] a
  show "namedImports_callback supp m (p @ join_str xs '', '' @ t)
       = ([''Unsupported lodash function''
             @ (if length (filter (isUnsupportedFunction supp) xs) > 1 then ''s'' else [])
             @ '': '' @ join_str (filter (isUnsupportedFunction supp) xs) '', ''],
          Inr (''import { '' @ join_str (filter (isSupportedFunction supp) xs) '', ''
                 @ '' } from 'es-toolkit/compat';import { ''
                 @ join_str (filter (isUnsupportedFunction supp) xs) '', ''
                 @ '' } from 'lodash'' @ sq))"
    by (simp add: warnUnsupportedFunction_def)
next
  assume "space_run ws1 \<and> list_all is_space_char ws2 \<and> raw' \<noteq> [] \<and> list_all named_list_char raw'
        \<and> \<not> is_space_char (hd raw') \<and> space_run ws4 \<and> space_run ws5 \<and> is_quote q1
        \<and> is_quote q2"
  then have "rx_match_here namedImportsRegex prev
         ((''import'' @ ws1 @ ''{'' @ ws2 @ raw' @ ''}'' @ ws4 @ ''from'' @ ws5 @ [q1]
            @ ''lodash'' @ [q2]) @ rest)
       = Some (''import'' @ ws1 @ ''{'' @ ws2 @ raw' @ ''}'' @ ws4 @ ''from'' @ ws5 @ [q1]
                 @ ''lodash'' @ [q2],
               [raw'])"
    using namedImportsRegex_accepts[of ws1 ws2 raw' ws4 ws5 q1 q2 prev rest] by simp
  from scan_at_match[OF this]
  show "scan namedImportsRegex prev
         (''import'' @ ws1 @ ''{'' @ ws2 @ raw' @ ''}'' @ ws4 @ ''from'' @ ws5 @ [q1]
            @ ''lodash'' @ [q2] @ rest)
       = Hit (''import'' @ ws1 @ ''{'' @ ws2 @ raw' @ ''}'' @ ws4 @ ''from'' @ ws5 @ [q1]
                @ ''lodash'' @ [q2])
           [raw']
         # scan namedImportsRegex (Some q2) rest"
    by (simp del: scan.simps)
next
  assume "Hit m' caps \<in> set (scan namedImportsRegex None src)"
  from scan_hit_is_match[OF this] obtain prev' s' where
    "rx_match_here namedImportsRegex prev' s' = Some (m', caps)" by blast
  from namedImportsRegex_shape[OF this] obtain ws1 ws2 raw ws3 ws4 ws5 q1 q2 where
    "m' = ''import'' @ ws1 @ ''{'' @ ws2 @ raw @ ws3 @ ''}'' @ ws4 @ ''from'' @ ws5
                 @ [q1] @ ''lodash'' @ [q2]" "caps = [raw]"
    "space_run ws1" "list_all is_space_char ws2" "raw \<noteq> []" "list_all named_list_char raw"
    "list_all is_space_char ws3" "space_run ws4" "space_run ws5" "is_quote q1" "is_quote q2"
    by blast
  then show "\<exists>ws1 ws2 ws3 ws4 ws5 q1 q2.
            m' = ''import'' @ ws1 @ ''{'' @ ws2 @ capture caps 0 @ ws3 @ ''}'' @ ws4 @ ''from''
                   @ ws5 @ [q1] @ ''lodash'' @ [q2]
            \<and> space_run ws1 \<and> list_all is_space_char ws2
            \<and> capture caps 0 \<noteq> [] \<and> list_all named_list_char (capture caps 0)
            \<and> list_all is_space_char ws3 \<and> space_run ws4 \<and> space_run ws5
            \<and> is_quote q1 \<and> is_quote q2"
    unfolding capture_def
    by (intro exI[of _ ws1] exI[of _ ws2] exI[of _ ws3] exI[of _ ws4] exI[of _ ws5]
        exI[of _ q1] exI[of _ q2]) simp
next
  show "String_replace s namedImportsRegex lastIndex (namedImports_replacer supp)
       = (0, warned (namedImports_replacer supp) (scan namedImportsRegex None s),
          Inr (rewritten (namedImports_replacer supp) (scan namedImportsRegex None s)))"
    by (rule String_replace_in_place) (rule replacers_ok)
next
  assume a: "(\<forall>x \<in> set xs. word_run x) \<and> list_all is_space_char t
        \<and> filter (isSupportedFunction supp) xs \<noteq> []
        \<and> filter (isUnsupportedFunction supp) xs \<noteq> []
        \<and> space_run ws1 \<and> list_all is_space_char ws2 \<and> space_run ws4 \<and> space_run ws5
        \<and> is_quote q1 \<and> is_quote q2"
  then have ne: "xs \<noteq> []" by auto
  let ?raw = "join_str xs '', '' @ t"
  let ?stmt = "''import'' @ ws1 @ ''{'' @ ws2 @ ?raw @ ''}'' @ ws4 @ ''from'' @ ws5 @ [q1]
                 @ ''lodash'' @ [q2]"
  have r: "?raw \<noteq> []" "\<not> is_space_char (hd ?raw)" "list_all named_list_char ?raw"
    using hd_join_word[OF ne, of t] named_list_char_join[of xs t] a by auto
  have "rx_match_here namedImportsRegex prev (?stmt @ rest) = Some (?stmt, [?raw])"
    using namedImportsRegex_accepts[of ws1 ws2 ?raw ws4 ws5 q1 q2 prev rest] r a by simp
  from scan_at_match[OF this]
  have sc: "scan namedImportsRegex prev
           (''import'' @ ws1 @ ''{'' @ ws2 @ join_str xs '', '' @ t @ ''}'' @ ws4 @ ''from''
              @ ws5 @ [q1] @ ''lodash'' @ [q2] @ rest)
         = Hit ?stmt [?raw] # scan namedImportsRegex (Some q2) rest"
    by (simp del: scan.simps)
  have cb: "namedImports_callback supp m ?raw
       = ([''Unsupported lodash function''
             @ (if length (filter (isUnsupportedFunction supp) xs) > 1 then ''s'' else [])
             @ '': '' @ join_str (filter (isUnsupportedFunction supp) xs) '', ''],
          Inr (''import { '' @ join_str (filter (isSupportedFunction supp) xs) '', ''
                 @ '' } from 'es-toolkit/compat';import { ''
                 @ join_str (filter (isUnsupportedFunction supp) xs) '', ''
                 @ '' } from 'lodash'' @ sq))" for m
    using namedImports_callback_words[OF ne, of "[]" t supp m] a
    by (simp add: warnUnsupportedFunction_def)
  show "rewritten (namedImports_replacer supp)
        (scan namedImportsRegex prev
           (''import'' @ ws1 @ ''{'' @ ws2 @ join_str xs '', '' @ t @ ''}'' @ ws4 @ ''from''
              @ ws5 @ [q1] @ ''lodash'' @ [q2] @ rest))
       = ''import { '' @ join_str (filter (isSupportedFunction supp) xs) '', ''
           @ '' } from 'es-toolkit/compat';import { ''
           @ join_str (filter (isUnsupportedFunction supp) xs) '', ''
           @ '' } from 'lodash'' @ sq
           @ rewritten (namedImports_replacer supp) (scan namedImportsRegex (Some q2) rest)"
    unfolding sc
    by (simp add: rewritten_simps namedImports_replacer_def capture_def cb del: scan.simps)
  show "warned (namedImports_replacer supp)
        (scan namedImportsRegex prev
           (''import'' @ ws1 @ ''{'' @ ws2 @ join_str xs '', '' @ t @ ''}'' @ ws4 @ ''from''
              @ ws5 @ [q1] @ ''lodash'' @ [q2] @ rest))
       = (''Unsupported lodash function''
             @ (if length (filter (isUnsupportedFunction supp) xs) > 1 then ''s'' else [])
             @ '': '' @ join_str (filter (isUnsupportedFunction supp) xs) '', '')
         # warned (namedImports_replacer supp) (scan namedImportsRegex (Some q2) rest)"
    unfolding sc
    by (simp add: warned_simps namedImports_replacer_def capture_def cb del: scan.simps)
next
  assume "sublist ''lodash'' src'"
  then have "includes_str src' ''lodash''" by (simp add: includes_str_sublist)
  from transform_in_place[OF this, of supp st fid]
  show "snd (transform supp st src' fid)
          = (warned (defaultImport_replacer supp src') (scan defaultImportRegex None src')
             @ warned (namedImports_replacer supp)
                 (scan namedImportsRegex None (after_defaultImport supp src'))
             @ warned (defaultSingleImport_replacer supp)
                 (scan defaultSingleImportRegex None (after_namedImports supp src')),
             Inr (Some \<lparr>code = after_defaultSingleImport supp src', source_map = None\<rparr>))" .
  show "after_namedImports supp src'
          = rewritten (namedImports_replacer supp)
              (scan namedImportsRegex None (after_defaultImport supp src'))"
    by (simp add: after_namedImports_def)
next
  assume a: "(\<forall>x \<in> set xs. word_run x) \<and> list_all is_space_char t
        \<and> filter (isSupportedFunction supp) xs \<noteq> []
        \<and> filter (isUnsupportedFunction supp) xs \<noteq> []
        \<and> space_run ws1 \<and> list_all is_space_char ws2 \<and> space_run ws4 \<and> space_run ws5
        \<and> is_quote q1 \<and> is_quote q2"
  show "let stmt = ''import'' @ ws1 @ ''{'' @ ws2 @ join_str xs '', '' @ t @ ''}'' @ ws4
                      @ ''from'' @ ws5 @ [q1] @ ''lodash'' @ [q2];
             two = ''import { '' @ join_str (filter (isSupportedFunction supp) xs) '', ''
                     @ '' } from 'es-toolkit/compat';import { ''
                     @ join_str (filter (isUnsupportedFunction supp) xs) '', ''
                     @ '' } from 'lodash'' @ sq;
             behind = rewritten (namedImports_replacer supp) (scan namedImportsRegex (Some q2) rest)
         in hits (scan defaultImportRegex None (stmt @ rest)) = []
            \<and> hits (scan defaultSingleImportRegex None (two @ behind)) = [] \<longrightarrow>
            snd (transform supp st (stmt @ rest) fid)
              = ((''Unsupported lodash function''
                    @ (if length (filter (isUnsupportedFunction supp) xs) > 1 then ''s'' else [])
                    @ '': '' @ join_str (filter (isUnsupportedFunction supp) xs) '', '')
                 # warned (namedImports_replacer supp) (scan namedImportsRegex (Some q2) rest),
                 Inr (Some \<lparr>code = two @ behind, source_map = None\<rparr>))"
    by (rule named_list_at_front[OF a])
next
  assume sup: "''isEqual'' \<in> set supp \<and> ''every'' \<notin> set supp"
  let ?src = "''import { isEqual, every } from 'lodash';''"
  let ?out = "''import { isEqual } from 'es-toolkit/compat';import { every } from 'lodash';''"
  have inc: "includes_str ?src ''lodash''" by code_simp
  have s1: "scan defaultImportRegex None ?src = map Skip ?src" by code_simp
  have s2: "scan namedImportsRegex None ?src
      = Hit (''import { isEqual, every } from 'lodash'' @ sq) [''isEqual, every ''] # map Skip '';''"
    by code_simp
  then show "scan namedImportsRegex None ?src
          = [Hit (''import { isEqual, every } from 'lodash'' @ sq) [''isEqual, every ''],
             Skip CHR '';'']"
    by (simp del: scan.simps)
  have nm: "namedImportNames ''isEqual, every '' = [''isEqual'', ''every'']" by code_simp
  have mp: "map_parse [''isEqual'', ''every'']
      = Inr [\<lparr>actualName = ''isEqual'', customName = ''isEqual''\<rparr>,
             \<lparr>actualName = ''every'', customName = ''every''\<rparr>]"
    by code_simp
  have cb: "namedImports_callback supp (''import { isEqual, every } from 'lodash'' @ sq)
        ''isEqual, every ''
      = ([''Unsupported lodash function: every''],
         Inr (''import { isEqual } from 'es-toolkit/compat';import { every } from 'lodash'' @ sq))"
    unfolding namedImports_callback_def nm mp using sup
    by (simp add: isUnsupportedFunction_def isSupportedFunction_def
        warnUnsupportedFunction_def renderNamedImports_def renderNamedImport_def)
  then show "namedImports_callback supp (''import { isEqual, every } from 'lodash'' @ sq)
            ''isEqual, every ''
          = ([''Unsupported lodash function: every''],
             Inr (''import { isEqual } from 'es-toolkit/compat';import { every } from 'lodash''
                    @ sq))" .
  have p2: "run_callbacks (\<lambda>match caps. namedImports_callback supp match (capture caps 0))
        (scan namedImportsRegex None ?src)
      = ([''Unsupported lodash function: every''], Inr ?out)"
    unfolding s2 by (simp add: capture_def cb[simplified] run_callbacks_Skips del: map_map)
  have s3: "scan defaultSingleImportRegex None ?out = map Skip ?out" by code_simp
  show "snd (transform supp st ?src fid)
          = ([''Unsupported lodash function: every''],
             Inr (Some \<lparr>code = ?out, source_map = None\<rparr>))"
    unfolding transform_def String_replace_def
    by (simp only: inc s1 p2 s3 run_callbacks_Skips if_True Let_def prod.case sum.case
        snd_conv append_Nil append_Nil2)
next
  assume sup: "''isEqual'' \<in> set supp \<and> ''map'' \<in> set supp \<and> ''every'' \<notin> set supp
        \<and> ''some'' \<notin> set supp \<and> ''foo'' \<notin> set supp"
  let ?src = "''import { isEqual, every, some as s } from 'lodash';\<newline>import { foo, map } from \"lodash\";''"
  let ?out = "''import { isEqual } from 'es-toolkit/compat';import { every, some as s } from 'lodash';\<newline>import { map } from 'es-toolkit/compat';import { foo } from 'lodash';''"
  have inc: "includes_str ?src ''lodash''" by code_simp
  have s1: "scan defaultImportRegex None ?src = map Skip ?src" by code_simp
  have s2: "scan namedImportsRegex None ?src
      = Hit (''import { isEqual, every, some as s } from 'lodash'' @ sq)
            [''isEqual, every, some as s '']
          # map Skip '';\<newline>''
          @ Hit ''import { foo, map } from \"lodash\"'' [''foo, map '']
          # map Skip '';''"
    by code_simp
  have mp1: "map_parse (namedImportNames ''isEqual, every, some as s '')
      = Inr [\<lparr>actualName = ''isEqual'', customName = ''isEqual''\<rparr>,
             \<lparr>actualName = ''every'', customName = ''every''\<rparr>,
             \<lparr>actualName = ''some'', customName = ''s''\<rparr>]"
    by code_simp
  have mp2: "map_parse (namedImportNames ''foo, map '')
      = Inr [\<lparr>actualName = ''foo'', customName = ''foo''\<rparr>,
             \<lparr>actualName = ''map'', customName = ''map''\<rparr>]"
    by code_simp
  have cb1: "namedImports_callback supp m ''isEqual, every, some as s ''
      = ([''Unsupported lodash functions: every, some''],
         Inr (''import { isEqual } from 'es-toolkit/compat';import { every, some as s } from 'lodash''
                @ sq))" for m
    unfolding namedImports_callback_def mp1 using sup
    by (simp add: isUnsupportedFunction_def isSupportedFunction_def
        warnUnsupportedFunction_def renderNamedImports_def renderNamedImport_def)
  have cb2: "namedImports_callback supp m ''foo, map ''
      = ([''Unsupported lodash function: foo''],
         Inr (''import { map } from 'es-toolkit/compat';import { foo } from 'lodash'' @ sq))"
    for m
    unfolding namedImports_callback_def mp2 using sup
    by (simp add: isUnsupportedFunction_def isSupportedFunction_def
        warnUnsupportedFunction_def renderNamedImports_def renderNamedImport_def)
  have a1: "after_defaultImport supp ?src = ?src"
    unfolding after_defaultImport_def s1 by (simp only: rewritten_simps)
  have w1: "warned (defaultImport_replacer supp ?src) (scan defaultImportRegex None ?src) = []"
    unfolding s1 by (simp only: warned_simps)
  have a2: "after_namedImports supp ?src = ?out"
    unfolding after_namedImports_def a1 s2
    by (simp add: rewritten_simps namedImports_replacer_def capture_def cb1[simplified]
        cb2[simplified] del: scan.simps)
  have w2: "warned (namedImports_replacer supp)
      (scan namedImportsRegex None (after_defaultImport supp ?src))
      = [''Unsupported lodash functions: every, some'', ''Unsupported lodash function: foo'']"
    unfolding a1 s2
    by (simp add: warned_simps namedImports_replacer_def capture_def cb1[simplified]
        cb2[simplified] del: scan.simps)
  have s3: "scan defaultSingleImportRegex None ?out = map Skip ?out" by code_simp
  have a3: "after_defaultSingleImport supp ?src = ?out"
    unfolding after_defaultSingleImport_def a2 s3 by (simp only: rewritten_simps)
  have w3: "warned (defaultSingleImport_replacer supp)
      (scan defaultSingleImportRegex None (after_namedImports supp ?src)) = []"
    unfolding a2 s3 by (simp only: warned_simps)
  show "snd (transform supp st ?src fid)
          = ([''Unsupported lodash functions: every, some'',
              ''Unsupported lodash function: foo''],
             Inr (Some \<lparr>code = ?out, source_map = None\<rparr>))"
    unfolding transform_in_place[OF inc] w1 w2 w3 a3 by simp
qed

theorem named_list_split_witness:
  "namedImports_callback [''isEqual''] (''import { isEqual, every } from 'lodash'' @ sq)
       ''isEqual, every ''
     = ([''Unsupported lodash function: every''],
        Inr (''import { isEqual } from 'es-toolkit/compat';import { every } from 'lodash'' @ sq))
   \<and> namedImports_callback [''isEqual''] ''import { every, isEqual, some } from \"lodash\"''
       '' every, isEqual, some ''
     = ([''Unsupported lodash functions: every, some''],
        Inr (''import { isEqual } from 'es-toolkit/compat';import { every, some } from 'lodash''
               @ sq))
   \<and> scan namedImportsRegex None (''import { isEqual, every } from 'lodash';'')
       = [Hit (''import { isEqual, every } from 'lodash'' @ sq) [''isEqual, every ''],
          Skip CHR '';'']
   \<and> (\<exists>ws1 ws2 ws3 ws4 ws5 q1 q2.
          ''import { isEqual, every } from 'lodash'' @ sq
            = ''import'' @ ws1 @ ''{'' @ ws2 @ ''isEqual, every '' @ ws3 @ ''}'' @ ws4 @ ''from''
                @ ws5 @ [q1] @ ''lodash'' @ [q2]
          \<and> space_run ws1 \<and> list_all is_space_char ws2 \<and> list_all is_space_char ws3
          \<and> space_run ws4 \<and> space_run ws5 \<and> is_quote q1 \<and> is_quote q2)
   \<and> String_replace (''import { isEqual, every } from 'lodash';'') namedImportsRegex 3
         (namedImports_replacer [''isEqual''])
       = (0, [''Unsupported lodash function: every''],
          Inr ''import { isEqual } from 'es-toolkit/compat';import { every } from 'lodash';'')
   \<and> after_namedImports [''isEqual''] (''import { isEqual, every } from 'lodash';'')
       = ''import { isEqual } from 'es-toolkit/compat';import { every } from 'lodash';''
   \<and> snd (transform [''isEqual'']
             \<lparr>defaultImport_lastIndex = 0, namedImports_lastIndex = 0,
              defaultSingleImport_lastIndex = 0\<rparr>
             (''import { isEqual, every } from 'lodash';'') ''a.ts'')
       = ([''Unsupported lodash function: every''],
          Inr (Some \<lparr>code = ''import { isEqual } from 'es-toolkit/compat';import { every } from 'lodash';'',
                      source_map = None\<rparr>))
   \<and> snd (transform [''isEqual'', ''map'']
             \<lparr>defaultImport_lastIndex = 0, namedImports_lastIndex = 0,
              defaultSingleImport_lastIndex = 0\<rparr>
             ''import { isEqual, every, some as s } from 'lodash';\<newline>import { foo, map } from \"lodash\";''
             ''a.ts'')
       = ([''Unsupported lodash functions: every, some'', ''Unsupported lodash function: foo''],
          Inr (Some \<lparr>code = ''import { isEqual } from 'es-toolkit/compat';import { every, some as s } from 'lodash';\<newline>import { map } from 'es-toolkit/compat';import { foo } from 'lodash';'',
                      source_map = None\<rparr>))
   \<and> snd (transform [''isEqual'']
             \<lparr>defaultImport_lastIndex = 0, namedImports_lastIndex = 0,
              defaultSingleImport_lastIndex = 0\<rparr>
             (''import { every, isEqual, some } from 'lodash';'') ''a.ts'')
       = ([''Unsupported lodash functions: every, some''],
          Inr (Some \<lparr>code = ''import { isEqual } from 'es-toolkit/compat';import { every, some } from 'lodash';'',
                      source_map = None\<rparr>))"
proof -
  let ?st = "\<lparr>defaultImport_lastIndex = 0, namedImports_lastIndex = 0,
              defaultSingleImport_lastIndex = 0\<rparr>"
  let ?s = "''import { isEqual, every } from 'lodash';''"
  let ?out = "''import { isEqual } from 'es-toolkit/compat';import { every } from 'lodash';''"
  let ?parsed = "[\<lparr>actualName = ''isEqual'', customName = ''isEqual''\<rparr>,
             \<lparr>actualName = ''every'', customName = ''every''\<rparr>]"
  have prs: "map_parse (namedImportNames ''isEqual, every '') = Inr ?parsed" by code_simp
  have w: "space_run '' ''" "word_run ''isEqual''" "word_run ''every''" "word_run ''some''"
    "is_quote (CHR 0x27)" "list_all is_space_char '' ''" "list_all is_space_char []"
    "list_all named_list_char ''isEqual, every ''" "\<not> is_space_char (hd ''isEqual, every '')"
    "scan namedImportsRegex (Some (CHR 0x27)) '';'' = [Skip CHR '';'']"
    "sublist ''lodash'' ?s"
    unfolding includes_str_sublist[symmetric] by code_simp+
  have hit: "Hit (''import { isEqual, every } from 'lodash'' @ sq) [''isEqual, every '']
      \<in> set (scan namedImportsRegex None ?s)"
    by code_simp
  have a1: "after_defaultImport [''isEqual''] ?s = ?s" by code_simp
  note T = named_list_split[where supp="[''isEqual'']" and raw="''isEqual, every ''"
      and parsed="?parsed" and m="''import { isEqual, every } from 'lodash'' @ sq"
      and xs="[''isEqual'', ''every'']" and p="[]" and t="'' ''"
      and ?ws1.0="'' ''" and ?ws2.0="'' ''" and raw'="''isEqual, every ''" and ?ws4.0="'' ''"
      and ?ws5.0="'' ''" and ?q1.0="CHR 0x27" and ?q2.0="CHR 0x27" and rest="'';''"
      and prev=None and st="?st" and fid="''a.ts''"
      and m'="''import { isEqual, every } from 'lodash'' @ sq" and caps="[''isEqual, every '']"
      and src="?s" and s="?s" and lastIndex=3 and src'="?s"]
  note T2 = named_list_split[where supp="[''isEqual'']" and raw="''isEqual, every ''"
      and parsed="?parsed" and m="''import { every, isEqual, some } from \"lodash\"''"
      and xs="[''every'', ''isEqual'', ''some'']" and p="'' ''" and t="'' ''"
      and ?ws1.0="'' ''" and ?ws2.0="'' ''" and raw'="''isEqual, every ''" and ?ws4.0="'' ''"
      and ?ws5.0="'' ''" and ?q1.0="CHR 0x27" and ?q2.0="CHR 0x27" and rest="'';''"
      and prev=None and st="?st" and fid="''a.ts''"
      and m'="''import { isEqual, every } from 'lodash'' @ sq" and caps="[''isEqual, every '']"
      and src="?s" and s="?s" and lastIndex=3 and src'="?s"]
  note TM = named_list_split[where supp="[''isEqual'', ''map'']" and raw="''isEqual, every ''"
      and parsed="?parsed" and m="''import { isEqual, every } from 'lodash'' @ sq"
      and xs="[''isEqual'', ''every'']" and p="[]" and t="'' ''"
      and ?ws1.0="'' ''" and ?ws2.0="'' ''" and raw'="''isEqual, every ''" and ?ws4.0="'' ''"
      and ?ws5.0="'' ''" and ?q1.0="CHR 0x27" and ?q2.0="CHR 0x27" and rest="'';''"
      and prev=None and st="?st" and fid="''a.ts''"
      and m'="''import { isEqual, every } from 'lodash'' @ sq" and caps="[''isEqual, every '']"
      and src="?s" and s="?s" and lastIndex=3 and src'="?s"]
  have c1: "namedImports_callback [''isEqual''] (''import { isEqual, every } from 'lodash'' @ sq)
       ''isEqual, every ''
     = ([''Unsupported lodash function: every''],
        Inr (''import { isEqual } from 'es-toolkit/compat';import { every } from 'lodash'' @ sq))"
    using T prs
    by (simp add: isUnsupportedFunction_def isSupportedFunction_def
        renderNamedImports_def renderNamedImport_def del: scan.simps map_parse.simps)
  have c2: "namedImports_callback [''isEqual''] ''import { every, isEqual, some } from \"lodash\"''
       '' every, isEqual, some ''
     = ([''Unsupported lodash functions: every, some''],
        Inr (''import { isEqual } from 'es-toolkit/compat';import { every, some } from 'lodash''
               @ sq))"
    using T2 w
    by (simp add: isUnsupportedFunction_def isSupportedFunction_def
        del: scan.simps map_parse.simps)
  have c3: "scan namedImportsRegex None ?s
       = [Hit (''import { isEqual, every } from 'lodash'' @ sq) [''isEqual, every ''],
          Skip CHR '';'']"
    using T w by (simp del: scan.simps map_parse.simps)
  have c4: "\<exists>ws1 ws2 ws3 ws4 ws5 q1 q2.
          ''import { isEqual, every } from 'lodash'' @ sq
            = ''import'' @ ws1 @ ''{'' @ ws2 @ ''isEqual, every '' @ ws3 @ ''}'' @ ws4 @ ''from''
                @ ws5 @ [q1] @ ''lodash'' @ [q2]
          \<and> space_run ws1 \<and> list_all is_space_char ws2 \<and> list_all is_space_char ws3
          \<and> space_run ws4 \<and> space_run ws5 \<and> is_quote q1 \<and> is_quote q2"
    using T[THEN conjunct2, THEN conjunct2, THEN conjunct2, THEN conjunct1, THEN mp, OF hit]
    by (simp add: capture_def) blast
  have c5: "String_replace ?s namedImportsRegex 3 (namedImports_replacer [''isEqual''])
       = (0, [''Unsupported lodash function: every''], Inr ?out)"
    using T c3 c1
    by (simp add: rewritten_simps warned_simps namedImports_replacer_def capture_def
        del: scan.simps map_parse.simps)
  have c6: "after_namedImports [''isEqual''] ?s = ?out"
    using T w a1 c3 c1
    by (simp add: rewritten_simps namedImports_replacer_def capture_def
        del: scan.simps map_parse.simps)
  have c7: "snd (transform [''isEqual''] ?st ?s ''a.ts'')
       = ([''Unsupported lodash function: every''],
          Inr (Some \<lparr>code = ?out, source_map = None\<rparr>))"
    using T by simp
  have c8: "snd (transform [''isEqual'', ''map''] ?st
             ''import { isEqual, every, some as s } from 'lodash';\<newline>import { foo, map } from \"lodash\";''
             ''a.ts'')
       = ([''Unsupported lodash functions: every, some'', ''Unsupported lodash function: foo''],
          Inr (Some \<lparr>code = ''import { isEqual } from 'es-toolkit/compat';import { every, some as s } from 'lodash';\<newline>import { map } from 'es-toolkit/compat';import { foo } from 'lodash';'',
                      source_map = None\<rparr>))"
    using TM by simp
  have h: "hits (scan defaultImportRegex None (''import { every, isEqual, some } from 'lodash';''))
      = []"
    "hits (scan defaultSingleImportRegex None
       ''import { isEqual } from 'es-toolkit/compat';import { every, some } from 'lodash';'')
      = []"
    by code_simp+
  have c9: "snd (transform [''isEqual''] ?st
             (''import { every, isEqual, some } from 'lodash';'') ''a.ts'')
       = ([''Unsupported lodash functions: every, some''],
          Inr (Some \<lparr>code = ''import { isEqual } from 'es-toolkit/compat';import { every, some } from 'lodash';'',
                      source_map = None\<rparr>))"
    using T2 w h
    by (simp add: Let_def isSupportedFunction_def isUnsupportedFunction_def rewritten_simps
        warned_simps del: scan.simps map_parse.simps)
  from c1 c2 c3 c4 c5 c6 c7 c8 c9 show ?thesis by (simp only: simp_thms)
qed

text \<open>
  C8. In a named-list import the parsed tokens stand in the order of the tokens, the
  supported and the unsupported group are taken from them in that order, and a rendered
  list is its rendered tokens joined with \<open>', '\<close> in that order, so that splitting it on
  \<open>', '\<close> gives the rendered tokens back one by one. For a list of plain names, all
  supported, the rewritten list is the list itself; in particular \<open>[a, b, c]\<close> stays
  \<open>a, b, c\<close>, whatever the order of the supported set.
\<close>

theorem named_list_order_preserved:
  "(map_parse ts = Inr parsed \<longrightarrow> map Inr parsed = map parseNamedImport ts)
   \<and> (map_parse (namedImportNames raw) = Inr parsed
        \<and> (\<forall>n \<in> set parsed. isSupportedFunction supp (actualName n)) \<longrightarrow>
        namedImports_callback supp m raw
          = ([], Inr (''import { '' @ join_str (map renderNamedImport parsed) '', ''
                        @ '' } from 'es-toolkit/compat'' @ sq)))
   \<and> (map_parse (namedImportNames raw) = Inr parsed \<longrightarrow>
        (\<exists>w out. namedImports_callback supp m raw = (w, Inr out)
           \<and> (out = m
               \<or> out = ''import { ''
                    @ join_str (map renderNamedImport
                        (filter (\<lambda>n. isSupportedFunction supp (actualName n)) parsed)) '', ''
                    @ '' } from 'es-toolkit/compat'' @ sq
               \<or> out = ''import { ''
                    @ join_str (map renderNamedImport
                        (filter (\<lambda>n. isSupportedFunction supp (actualName n)) parsed)) '', ''
                    @ '' } from 'es-toolkit/compat';import { ''
                    @ join_str (map renderNamedImport
                        (filter (\<lambda>n. isUnsupportedFunction supp (actualName n)) parsed)) '', ''
                    @ '' } from 'lodash'' @ sq)))
   \<and> (ns \<noteq> [] \<and> (\<forall>n \<in> set ns. CHR '','' \<notin> set (renderNamedImport n)) \<longrightarrow>
        split_str (renderNamedImports ns) '', '' = map renderNamedImport ns)
   \<and> (xs \<noteq> [] \<and> (\<forall>x \<in> set xs. word_run x \<and> isSupportedFunction supp x)
        \<and> list_all is_space_char p \<and> list_all is_space_char t \<longrightarrow>
        namedImports_callback supp m (p @ join_str xs '', '' @ t)
          = ([], Inr (''import { '' @ join_str xs '', '' @ '' } from 'es-toolkit/compat'' @ sq)))
   \<and> (''a'' \<in> set supp \<and> ''b'' \<in> set supp \<and> ''c'' \<in> set supp \<longrightarrow>
        snd (transform supp st (''import { a, b, c } from 'lodash';'') fid)
          = ([], Inr (Some \<lparr>code = ''import { a, b, c } from 'es-toolkit/compat';'',
                            source_map = None\<rparr>)))"
proof (intro conjI impI)
  assume "map_parse ts = Inr parsed"
  then show "map Inr parsed = map parseNamedImport ts" by (rule map_parse_in_order)
next
  assume a: "map_parse (namedImportNames raw) = Inr parsed
        \<and> (\<forall>n \<in> set parsed. isSupportedFunction supp (actualName n))"
  then have "filter (\<lambda>n. isUnsupportedFunction supp (actualName n)) parsed = []"
    "filter (\<lambda>n. isSupportedFunction supp (actualName n)) parsed = parsed"
    by (auto simp: isUnsupportedFunction_def filter_empty_conv)
  with a show "namedImports_callback supp m raw
          = ([], Inr (''import { '' @ join_str (map renderNamedImport parsed) '', ''
                        @ '' } from 'es-toolkit/compat'' @ sq))"
    by (simp add: namedImports_callback_def renderNamedImports_def)
next
  assume "map_parse (namedImportNames raw) = Inr parsed"
  then show "\<exists>w out. namedImports_callback supp m raw = (w, Inr out)
           \<and> (out = m
               \<or> out = ''import { ''
                    @ join_str (map renderNamedImport
                        (filter (\<lambda>n. isSupportedFunction supp (actualName n)) parsed)) '', ''
                    @ '' } from 'es-toolkit/compat'' @ sq
               \<or> out = ''import { ''
                    @ join_str (map renderNamedImport
                        (filter (\<lambda>n. isSupportedFunction supp (actualName n)) parsed)) '', ''
                    @ '' } from 'es-toolkit/compat';import { ''
                    @ join_str (map renderNamedImport
                        (filter (\<lambda>n. isUnsupportedFunction supp (actualName n)) parsed)) '', ''
                    @ '' } from 'lodash'' @ sq)"
    by (simp add: namedImports_callback_def Let_def renderNamedImports_def)
next
  assume "ns \<noteq> [] \<and> (\<forall>n \<in> set ns. CHR '','' \<notin> set (renderNamedImport n))"
  then show "split_str (renderNamedImports ns) '', '' = map renderNamedImport ns"
    using split_join[of "map renderNamedImport ns"]
    by (simp add: split_str_def renderNamedImports_def)
next
  assume a: "xs \<noteq> [] \<and> (\<forall>x \<in> set xs. word_run x \<and> isSupportedFunction supp x)
        \<and> list_all is_space_char p \<and> list_all is_space_char t"
  then have f: "filter (isUnsupportedFunction supp) xs = []"
    "filter (isSupportedFunction supp) xs = xs"
    by (auto simp: isUnsupportedFunction_def filter_empty_conv)
  have "namedImports_callback supp m (p @ join_str xs '', '' @ t) =
     (if filter (isUnsupportedFunction supp) xs \<noteq> []
      then if filter (isSupportedFunction supp) xs = []
           then ([warnUnsupportedFunction (filter (isUnsupportedFunction supp) xs)], Inr m)
           else ([warnUnsupportedFunction (filter (isUnsupportedFunction supp) xs)],
                 Inr (''import { '' @ join_str (filter (isSupportedFunction supp) xs) '', ''
                        @ '' } from 'es-toolkit/compat';import { ''
                        @ join_str (filter (isUnsupportedFunction supp) xs) '', ''
                        @ '' } from 'lodash'' @ sq))
      else ([], Inr (''import { '' @ join_str (filter (isSupportedFunction supp) xs) '', ''
                       @ '' } from 'es-toolkit/compat'' @ sq)))"
    using a by (intro namedImports_callback_words) auto
  then show "namedImports_callback supp m (p @ join_str xs '', '' @ t)
          = ([], Inr (''import { '' @ join_str xs '', '' @ '' } from 'es-toolkit/compat'' @ sq))"
    unfolding f by simp
next
  assume sup: "''a'' \<in> set supp \<and> ''b'' \<in> set supp \<and> ''c'' \<in> set supp"
  let ?src = "''import { a, b, c } from 'lodash';''"
  let ?out = "''import { a, b, c } from 'es-toolkit/compat';''"
  have inc: "includes_str ?src ''lodash''" by code_simp
  have s1: "scan defaultImportRegex None ?src = map Skip ?src" by code_simp
  have s2: "scan namedImportsRegex None ?src
      = Hit (''import { a, b, c } from 'lodash'' @ sq) [''a, b, c ''] # map Skip '';''"
    by code_simp
  have w: "[''a'', ''b'', ''c''] \<noteq> []" "\<forall>x \<in> set [''a'', ''b'', ''c'']. word_run x"
    "list_all is_space_char []" "list_all is_space_char '' ''"
    by code_simp+
  have f: "filter (isUnsupportedFunction supp) [''a'', ''b'', ''c''] = []"
    "filter (isSupportedFunction supp) [''a'', ''b'', ''c''] = [''a'', ''b'', ''c'']"
    using sup by (simp_all add: isUnsupportedFunction_def isSupportedFunction_def)
  have cb: "namedImports_callback supp (''import { a, b, c } from 'lodash'' @ sq) ''a, b, c ''
      = ([], Inr (''import { a, b, c } from 'es-toolkit/compat'' @ sq))"
    using namedImports_callback_words[OF w, of supp "''import { a, b, c } from 'lodash'' @ sq"]
    unfolding f by simp
  have p2: "run_callbacks (\<lambda>match caps. namedImports_callback supp match (capture caps 0))
        (scan namedImportsRegex None ?src) = ([], Inr ?out)"
    unfolding s2 by (simp add: capture_def cb[simplified] run_callbacks_Skips del: map_map)
  have s3: "scan defaultSingleImportRegex None ?out = map Skip ?out" by code_simp
  show "snd (transform supp st ?src fid)
          = ([], Inr (Some \<lparr>code = ?out, source_map = None\<rparr>))"
    unfolding transform_def String_replace_def
    by (simp only: inc s1 p2 s3 run_callbacks_Skips if_True Let_def prod.case sum.case
        snd_conv append_Nil append_Nil2)
qed

theorem named_list_order_preserved_witness:
  "map Inr [\<lparr>actualName = ''c'', customName = ''c''\<rparr>, \<lparr>actualName = ''a'', customName = ''x''\<rparr>]
     = map parseNamedImport [''c'', ''a as x'']
   \<and> namedImports_callback [''a'', ''b'', ''c''] ''import { c, a as x } from \"lodash\"'' ''c, a as x ''
       = ([], Inr (''import { c, a as x } from 'es-toolkit/compat'' @ sq))
   \<and> split_str ''c, a as x'' '', '' = [''c'', ''a as x'']
   \<and> namedImports_callback [''a'', ''b'', ''c''] ''import { c, b, a } from \"lodash\"'' ''c, b, a ''
       = ([], Inr (''import { c, b, a } from 'es-toolkit/compat'' @ sq))
   \<and> snd (transform [''c'', ''b'', ''a'']
             \<lparr>defaultImport_lastIndex = 0, namedImports_lastIndex = 0,
              defaultSingleImport_lastIndex = 0\<rparr>
             (''import { a, b, c } from 'lodash';'') ''a.ts'')
       = ([], Inr (Some \<lparr>code = ''import { a, b, c } from 'es-toolkit/compat';'',
                         source_map = None\<rparr>))"
proof -
  let ?st = "\<lparr>defaultImport_lastIndex = 0, namedImports_lastIndex = 0,
              defaultSingleImport_lastIndex = 0\<rparr>"
  let ?parsed = "[\<lparr>actualName = ''c'', customName = ''c''\<rparr>,
                  \<lparr>actualName = ''a'', customName = ''x''\<rparr>]"
  have mp: "map_parse [''c'', ''a as x''] = Inr ?parsed" by code_simp
  have nm: "namedImportNames ''c, a as x '' = [''c'', ''a as x'']" by code_simp
  have w: "word_run ''a''" "word_run ''b''" "word_run ''c''" "list_all is_space_char '' ''"
    by code_simp+
  note T1 = named_list_order_preserved[where ts="[''c'', ''a as x'']" and parsed="?parsed"
      and raw="''c, a as x ''" and supp="[''a'', ''b'', ''c'']"
      and m="''import { c, a as x } from \"lodash\"''" and ns="?parsed"
      and xs="[''c'', ''b'', ''a'']" and p="[]" and t="'' ''" and st="?st" and fid="''a.ts''"]
  note T2 = named_list_order_preserved[where ts="[]" and parsed="[]"
      and raw="[]" and supp="[''a'', ''b'', ''c'']"
      and m="''import { c, b, a } from \"lodash\"''" and ns="[]"
      and xs="[''c'', ''b'', ''a'']" and p="[]" and t="'' ''" and st="?st" and fid="''a.ts''"]
  note T3 = named_list_order_preserved[where ts="[]" and parsed="[]"
      and raw="[]" and supp="[''c'', ''b'', ''a'']"
      and m="[]" and ns="[]"
      and xs="[]" and p="[]" and t="[]" and st="?st" and fid="''a.ts''"]
  from T1 have a: "map Inr ?parsed = map parseNamedImport [''c'', ''a as x'']
    \<and> namedImports_callback [''a'', ''b'', ''c''] ''import { c, a as x } from \"lodash\"'' ''c, a as x ''
       = ([], Inr (''import { c, a as x } from 'es-toolkit/compat'' @ sq))
    \<and> split_str ''c, a as x'' '', '' = [''c'', ''a as x'']"
    using mp nm
    by (simp add: isSupportedFunction_def renderNamedImports_def renderNamedImport_def
        del: map_parse.simps)
  from T2 w have b: "namedImports_callback [''a'', ''b'', ''c''] ''import { c, b, a } from \"lodash\"''
       ''c, b, a '' = ([], Inr (''import { c, b, a } from 'es-toolkit/compat'' @ sq))"
    by (simp add: isSupportedFunction_def del: map_parse.simps)
  from T3 have c: "snd (transform [''c'', ''b'', ''a''] ?st
             (''import { a, b, c } from 'lodash';'') ''a.ts'')
       = ([], Inr (Some \<lparr>code = ''import { a, b, c } from 'es-toolkit/compat';'',
                         source_map = None\<rparr>))"
    by simp
  from a b c show ?thesis by blast
qed

end
